theory Spec2Isabelle
  imports Complex_Main "HOL-Library.Multiset"
begin

section \<open>Numbers: float64 with its special values\<close>

text \<open>
  The network computes on Go's \<open>float64\<close>. The model keeps the three special values of
  the format, because the code compares with them, stores them (\<open>BestLoss = +Inf\<close>) and can
  produce them: a \<open>float64\<close> is a real number, \<open>+Inf\<close>, \<open>-Inf\<close> or \<open>NaN\<close>.
  Finite arithmetic is exact real arithmetic: rounding, overflow to infinity, underflow and
  the sign of zero are outside the model. The operations on special values follow IEEE 754:
  \<open>NaN\<close> is absorbing, \<open>Inf - Inf\<close>, \<open>0 * Inf\<close>, \<open>0 / 0\<close> and \<open>Inf / Inf\<close> are \<open>NaN\<close>,
  \<open>x / 0\<close> is an infinity of the sign of \<open>x\<close>, every ordered comparison with \<open>NaN\<close> is false.
\<close>

datatype float64 = Fin real | PInf | NInf | NaN

instantiation float64 :: "{zero,one,plus,minus,uminus,times,inverse,ord}"
begin

definition zero_float64 :: float64 where
  "zero_float64 = Fin 0"

definition one_float64 :: float64 where
  "one_float64 = Fin 1"

fun uminus_float64 :: "float64 \<Rightarrow> float64" where
  "uminus_float64 (Fin a) = Fin (- a)"
| "uminus_float64 PInf = NInf"
| "uminus_float64 NInf = PInf"
| "uminus_float64 NaN = NaN"

fun plus_float64 :: "float64 \<Rightarrow> float64 \<Rightarrow> float64" where
  "plus_float64 (Fin a) (Fin b) = Fin (a + b)"
| "plus_float64 (Fin a) PInf = PInf"
| "plus_float64 (Fin a) NInf = NInf"
| "plus_float64 PInf (Fin b) = PInf"
| "plus_float64 PInf PInf = PInf"
| "plus_float64 PInf NInf = NaN"
| "plus_float64 NInf (Fin b) = NInf"
| "plus_float64 NInf PInf = NaN"
| "plus_float64 NInf NInf = NInf"
| "plus_float64 NaN y = NaN"
| "plus_float64 x NaN = NaN"

definition minus_float64 :: "float64 \<Rightarrow> float64 \<Rightarrow> float64" where
  "minus_float64 (x::float64) y = x + (- y)"

fun times_float64 :: "float64 \<Rightarrow> float64 \<Rightarrow> float64" where
  "times_float64 (Fin a) (Fin b) = Fin (a * b)"
| "times_float64 (Fin a) PInf = (if a = 0 then NaN else if 0 < a then PInf else NInf)"
| "times_float64 (Fin a) NInf = (if a = 0 then NaN else if 0 < a then NInf else PInf)"
| "times_float64 PInf (Fin b) = (if b = 0 then NaN else if 0 < b then PInf else NInf)"
| "times_float64 NInf (Fin b) = (if b = 0 then NaN else if 0 < b then NInf else PInf)"
| "times_float64 PInf PInf = PInf"
| "times_float64 PInf NInf = NInf"
| "times_float64 NInf PInf = NInf"
| "times_float64 NInf NInf = PInf"
| "times_float64 NaN y = NaN"
| "times_float64 x NaN = NaN"

fun divide_float64 :: "float64 \<Rightarrow> float64 \<Rightarrow> float64" where
  "divide_float64 (Fin a) (Fin b) =
     (if b \<noteq> 0 then Fin (a / b) else if a = 0 then NaN else if 0 < a then PInf else NInf)"
| "divide_float64 (Fin a) PInf = Fin 0"
| "divide_float64 (Fin a) NInf = Fin 0"
| "divide_float64 PInf (Fin b) = (if 0 \<le> b then PInf else NInf)"
| "divide_float64 NInf (Fin b) = (if 0 \<le> b then NInf else PInf)"
| "divide_float64 PInf PInf = NaN"
| "divide_float64 PInf NInf = NaN"
| "divide_float64 NInf PInf = NaN"
| "divide_float64 NInf NInf = NaN"
| "divide_float64 NaN y = NaN"
| "divide_float64 x NaN = NaN"

definition inverse_float64 :: "float64 \<Rightarrow> float64" where
  "inverse_float64 (x::float64) = divide (Fin 1) x"

fun less_float64 :: "float64 \<Rightarrow> float64 \<Rightarrow> bool" where
  "less_float64 (Fin a) (Fin b) = (a < b)"
| "less_float64 (Fin a) PInf = True"
| "less_float64 NInf (Fin b) = True"
| "less_float64 NInf PInf = True"
| "less_float64 x y = False"

definition less_eq_float64 :: "float64 \<Rightarrow> float64 \<Rightarrow> bool" where
  "less_eq_float64 (x::float64) y = (x < y \<or> (x = y \<and> x \<noteq> NaN))"

instance ..

end

text \<open>
  Go's \<open>==\<close> on \<open>float64\<close>: \<open>NaN\<close> equals nothing, not even itself; \<open>!=\<close> is its negation.
  A Go map keyed by \<open>float64\<close> compares keys with the same equality.
\<close>

definition feq :: "float64 \<Rightarrow> float64 \<Rightarrow> bool" where
  "feq x y = (x = y \<and> x \<noteq> NaN)"

text \<open>The conversion \<open>float64(n)\<close> of a non-negative \<open>int\<close>.\<close>

definition float64_of_nat :: "nat \<Rightarrow> float64" where
  "float64_of_nat n = Fin (real n)"

subsection \<open>The math functions of \<open>M64\<close>\<close>

text \<open>
  Modelled from the spec: \<open>M64\<close>, the \<open>float64\<close> math functions the network calls, is
  declared outside the files at hand; it is taken as Go's package \<open>math\<close>, by that package's
  documented values on finite arguments and on the special values.
\<close>

fun M64_IsNaN :: "float64 \<Rightarrow> bool" where
  "M64_IsNaN NaN = True"
| "M64_IsNaN x = False"

fun M64_Exp :: "float64 \<Rightarrow> float64" where
  "M64_Exp (Fin a) = Fin (exp a)"
| "M64_Exp PInf = PInf"
| "M64_Exp NInf = Fin 0"
| "M64_Exp NaN = NaN"

fun M64_Tanh :: "float64 \<Rightarrow> float64" where
  "M64_Tanh (Fin a) = Fin (tanh a)"
| "M64_Tanh PInf = Fin 1"
| "M64_Tanh NInf = Fin (- 1)"
| "M64_Tanh NaN = NaN"

fun M64_Log :: "float64 \<Rightarrow> float64" where
  "M64_Log (Fin a) = (if 0 < a then Fin (ln a) else if a = 0 then NInf else NaN)"
| "M64_Log PInf = PInf"
| "M64_Log NInf = NaN"
| "M64_Log NaN = NaN"

fun M64_Log1p :: "float64 \<Rightarrow> float64" where
  "M64_Log1p (Fin a) = (if - 1 < a then Fin (ln (1 + a)) else if a = - 1 then NInf else NaN)"
| "M64_Log1p PInf = PInf"
| "M64_Log1p NInf = NaN"
| "M64_Log1p NaN = NaN"

fun M64_Sqrt :: "float64 \<Rightarrow> float64" where
  "M64_Sqrt (Fin a) = (if 0 \<le> a then Fin (sqrt a) else NaN)"
| "M64_Sqrt PInf = PInf"
| "M64_Sqrt NInf = NaN"
| "M64_Sqrt NaN = NaN"

fun M64_Abs :: "float64 \<Rightarrow> float64" where
  "M64_Abs (Fin a) = Fin \<bar>a\<bar>"
| "M64_Abs PInf = PInf"
| "M64_Abs NInf = PInf"
| "M64_Abs NaN = NaN"

fun M64_Pow :: "float64 \<Rightarrow> float64 \<Rightarrow> float64" where
  "M64_Pow (Fin a) (Fin b) =
     (if b = 0 then Fin 1 else if 0 < a then Fin (a powr b)
      else if a = 0 then (if 0 < b then Fin 0 else PInf) else NaN)"
| "M64_Pow x y = NaN"

text \<open>
  \<open>M64.Nextafter(0, 1)\<close> is the smallest positive \<open>float64\<close>, \<open>2^-1074\<close>, and
  \<open>M64.Nextafter(1, 0)\<close> the largest one below 1, \<open>1 - 2^-53\<close>.
\<close>

definition hmin :: float64 where
  "hmin = Fin (1 / 2 ^ 1074)"

definition hmax :: float64 where
  "hmax = Fin (1 - 1 / 2 ^ 53)"

text \<open>
  \<open>int(M64.Ceil(x))\<close>: the ceiling of a finite value; Go leaves the conversion of a
  non-finite value to \<open>int\<close> implementation-defined, and the model gives no result there.
\<close>

fun int_Ceil :: "float64 \<Rightarrow> int option" where
  "int_Ceil (Fin a) = Some \<lceil>a\<rceil>"
| "int_Ceil x = None"

section \<open>Panics\<close>

text \<open>
  The code reports every failure by a panic. A function that can panic returns
  \<open>panic + 'a\<close>, with \<open>Inl\<close> for the panic. Two more values stand for the calls that
  do not come back with a result inside the model: \<open>NeverReturns\<close> for a loop that runs
  forever, \<open>ExternalMinimizer\<close> for the hand-over to the L-BFGS minimizer of gonum.
\<close>

datatype panic =
    IndexOutOfRange
  | NilFunction
  | NilDereference
  | ShapeMismatch
  | YDenZero
  | InvalidHyperparameter
  | BadConversion
  | NeverReturns
  | ExternalMinimizer

fun foldM :: "('a \<Rightarrow> 's \<Rightarrow> panic + 's) \<Rightarrow> 'a list \<Rightarrow> 's \<Rightarrow> panic + 's" where
  "foldM f [] s = Inr s"
| "foldM f (x # xs) s = (case f x s of Inl e \<Rightarrow> Inl e | Inr s' \<Rightarrow> foldM f xs s')"

definition andThen :: "panic + 'a \<Rightarrow> ('a \<Rightarrow> panic + 'b) \<Rightarrow> panic + 'b" where
  "andThen r f = (case r of Inl e \<Rightarrow> Inl e | Inr x \<Rightarrow> f x)"

fun mapM :: "('a \<Rightarrow> panic + 'b) \<Rightarrow> 'a list \<Rightarrow> panic + 'b list" where
  "mapM f [] = Inr []"
| "mapM f (x # xs) =
     (case f x of Inl e \<Rightarrow> Inl e
      | Inr y \<Rightarrow> (case mapM f xs of Inl e \<Rightarrow> Inl e | Inr ys \<Rightarrow> Inr (y # ys)))"

text \<open>Calling a function taken from a Go map: the nil function of a missing key panics.\<close>

fun call :: "('a \<Rightarrow> panic + 'b) option \<Rightarrow> 'a \<Rightarrow> panic + 'b" where
  "call None x = Inl NilFunction"
| "call (Some f) x = f x"

fun call2 :: "('a \<Rightarrow> 'b \<Rightarrow> panic + 'c) option \<Rightarrow> 'a \<Rightarrow> 'b \<Rightarrow> panic + 'c" where
  "call2 None x y = Inl NilFunction"
| "call2 (Some f) x y = f x y"

section \<open>Dense matrices\<close>

text \<open>
  \<open>blas64General\<close> is gonum's \<open>blas64.General\<close>: a row count, a column count, a row stride
  and the flat backing slice, entry \<open>(row, col)\<close> at \<open>Data[row * Stride + col]\<close>.
\<close>

record blas64General =
  Rows :: nat
  Cols :: nat
  Stride :: nat
  Data :: "float64 list"

text \<open>
  Every loop of the code over a matrix has the shape
  \<open>for row, pos := 0, 0; row < rows; row, pos = row + 1, pos + stride\<close> with an inner
  \<open>for col := 0; col < cols; col++\<close> that reads or writes \<open>Data[pos + col]\<close>, so
  \<open>pos + col\<close> is \<open>row * stride + col\<close>. \<open>rowcols\<close> lists the pairs \<open>(row, col)\<close> in the
  order the loop visits them. The loop panics with an index out of range exactly when one of
  the positions is not below the length of the slice, which \<open>spans\<close> decides: the largest
  position visited is \<open>(rows - 1) * stride + cols - 1\<close>.
\<close>

definition rowcols :: "nat \<Rightarrow> nat \<Rightarrow> (nat \<times> nat) list" where
  "rowcols rows cols = List.product [0..<rows] [0..<cols]"

definition spans :: "nat \<Rightarrow> nat \<Rightarrow> nat \<Rightarrow> float64 list \<Rightarrow> bool" where
  "spans rows cols stride d =
     (rows = 0 \<or> cols = 0 \<or> (rows - 1) * stride + cols \<le> length d)"

text \<open>The in-place elementwise loop: \<open>Data[pos] = f(Data[pos])\<close> at every visited position.\<close>

definition inplace :: "(float64 \<Rightarrow> float64) \<Rightarrow> blas64General \<Rightarrow> panic + blas64General" where
  "inplace f z =
     (if spans (Rows z) (Cols z) (Stride z) (Data z)
      then Inr (z\<lparr>Data :=
             fold (\<lambda>(row, col) d. d[row * Stride z + col := f (d ! (row * Stride z + col))])
               (rowcols (Rows z) (Cols z)) (Data z)\<rparr>)
      else Inl IndexOutOfRange)"

section \<open>Activation registry\<close>

text \<open>
  \<open>Activations64\<close> maps a name to an in-place function on a buffer. A Go map returns the
  nil function for a missing key; calling it panics.
\<close>

definition softmax_row :: "nat \<Rightarrow> nat \<Rightarrow> float64 list \<Rightarrow> float64 list" where
  "softmax_row cols zpos d =
     (let (d1, sum) =
            fold (\<lambda>col (d, sum). let e = M64_Exp (d ! (zpos + col)) in (d[zpos + col := e], sum + e))
              [0..<cols] (d, Fin 0)
      in fold (\<lambda>col d. d[zpos + col := d ! (zpos + col) / sum]) [0..<cols] d1)"

definition softmax :: "blas64General \<Rightarrow> panic + blas64General" where
  "softmax z =
     (if spans (Rows z) (Cols z) (Stride z) (Data z)
      then Inr (z\<lparr>Data := fold (\<lambda>row d. softmax_row (Cols z) (row * Stride z) d) [0..<Rows z] (Data z)\<rparr>)
      else Inl IndexOutOfRange)"

definition Activations64 :: "string \<Rightarrow> (blas64General \<Rightarrow> panic + blas64General) option" where
  "Activations64 name =
     (if name = ''identity'' then Some (\<lambda>z. Inr z)
      else if name = ''logistic'' then Some (inplace (\<lambda>v. Fin 1 / (Fin 1 + M64_Exp (- v))))
      else if name = ''tanh'' then Some (inplace (\<lambda>v. M64_Tanh (- v)))
      else if name = ''relu'' then Some (inplace (\<lambda>v. if v < Fin 0 then Fin 0 else v))
      else if name = ''softmax'' then Some softmax
      else None)"

text \<open>
  \<open>Derivatives64\<close> maps a name to a function that multiplies \<open>deltas\<close> in place by the
  derivative of the activation, read from the activation output \<open>Z\<close>. The loops run over
  the rows and columns of \<open>Z\<close> and address \<open>deltas\<close> by its own stride. \<open>Z\<close> is only read.
\<close>

definition inplace2 ::
  "(float64 \<Rightarrow> float64 \<Rightarrow> float64) \<Rightarrow> blas64General \<Rightarrow> blas64General \<Rightarrow> panic + blas64General" where
  "inplace2 g Z deltas =
     (if spans (Rows Z) (Cols Z) (Stride Z) (Data Z) \<and> spans (Rows Z) (Cols Z) (Stride deltas) (Data deltas)
      then Inr (deltas\<lparr>Data :=
             fold (\<lambda>(row, col) d.
                     d[row * Stride deltas + col :=
                         g (Data Z ! (row * Stride Z + col)) (d ! (row * Stride deltas + col))])
               (rowcols (Rows Z) (Cols Z)) (Data deltas)\<rparr>)
      else Inl IndexOutOfRange)"

definition Derivatives64 ::
  "string \<Rightarrow> (blas64General \<Rightarrow> blas64General \<Rightarrow> panic + blas64General) option" where
  "Derivatives64 name =
     (if name = ''identity'' then Some (\<lambda>Z deltas. Inr deltas)
      else if name = ''logistic'' then Some (inplace2 (\<lambda>z d. d * (z * (Fin 1 - z))))
      else if name = ''tanh'' then Some (inplace2 (\<lambda>z d. d * (Fin 1 - z * z)))
      else if name = ''relu'' then Some (inplace2 (\<lambda>z d. if feq z (Fin 0) then Fin 0 else d))
      else None)"

section \<open>Strings\<close>

text \<open>
  \<open>strings.EqualFold\<close> compares two strings without regard to case. The names compared in
  this code are ASCII, and the model folds the ASCII letters only.
\<close>

definition ascii_lower :: "char \<Rightarrow> char" where
  "ascii_lower c =
     (case map_of (zip ''ABCDEFGHIJKLMNOPQRSTUVWXYZ'' ''abcdefghijklmnopqrstuvwxyz'') c of
        Some l \<Rightarrow> l | None \<Rightarrow> c)"

definition EqualFold :: "string \<Rightarrow> string \<Rightarrow> bool" where
  "EqualFold s t = (map ascii_lower s = map ascii_lower t)"

section \<open>Optimizers\<close>

text \<open>
  Both optimizers hold \<open>Params\<close>, a slice that shares its storage with the network's
  \<open>packedParameters\<close>: a step of the optimizer is a write to the network's parameters, and
  the weight decay of \<open>backprop\<close> is seen by the optimizer. The model keeps the one buffer in
  the network and hands it to \<open>updateParams\<close>, which returns it updated. The fields of the
  two structs carry the prefixes \<open>sgd_\<close> and \<open>adam_\<close>, since several names occur in both
  and in the network. Printing (\<open>verbose\<close>) has no effect on the state and is left out.
\<close>

record SGDOptimizer64 =
  sgd_LearningRateInit :: float64
  sgd_LearningRate :: float64
  sgd_PowerT :: float64
  sgd_LRSchedule :: string
  sgd_Momentum :: float64
  sgd_Nesterov :: bool
  velocities :: "float64 list option"

definition SGDOptimizer64_iterationEnds :: "SGDOptimizer64 \<Rightarrow> float64 \<Rightarrow> SGDOptimizer64" where
  "SGDOptimizer64_iterationEnds opt timeStep =
     (if EqualFold (sgd_LRSchedule opt) ''invscaling''
      then opt\<lparr>sgd_LearningRate :=
             sgd_LearningRateInit opt / M64_Pow (timeStep + Fin 1) (sgd_PowerT opt)\<rparr>
      else opt)"

definition SGDOptimizer64_triggerStopping ::
  "SGDOptimizer64 \<Rightarrow> string \<Rightarrow> bool \<Rightarrow> SGDOptimizer64 \<times> bool" where
  "SGDOptimizer64_triggerStopping opt msg verbose =
     (if \<not> EqualFold (sgd_LRSchedule opt) ''adaptive'' then (opt, True)
      else if sgd_LearningRate opt \<le> Fin (1 / 10 ^ 6) then (opt, True)
      else (opt\<lparr>sgd_LearningRate := sgd_LearningRate opt / Fin 5\<rparr>, False))"

definition sgd_iter ::
  "float64 list \<Rightarrow> nat \<Rightarrow> SGDOptimizer64 \<times> float64 list \<Rightarrow> panic + SGDOptimizer64 \<times> float64 list" where
  "sgd_iter grads i = (\<lambda>(opt, Params).
     case velocities opt of
       None \<Rightarrow> Inl IndexOutOfRange
     | Some vel \<Rightarrow>
         if i < length vel \<and> i < length Params then
           let update = sgd_Momentum opt * vel ! i - sgd_LearningRate opt * grads ! i;
               velocity = update;
               opt' = opt\<lparr>velocities := Some (vel[i := velocity])\<rparr>
           in if sgd_Nesterov opt
              then Inr (opt', Params[i := Params ! i
                           + (sgd_Momentum opt * velocity - sgd_LearningRate opt * grads ! i)])
              else Inr (opt', Params[i := Params ! i + update])
         else Inl IndexOutOfRange)"

definition SGDOptimizer64_updateParams ::
  "SGDOptimizer64 \<Rightarrow> float64 list \<Rightarrow> float64 list \<Rightarrow> panic + SGDOptimizer64 \<times> float64 list" where
  "SGDOptimizer64_updateParams opt Params grads =
     (let opt1 = (case velocities opt of
                    None \<Rightarrow> opt\<lparr>velocities := Some (replicate (length grads) (Fin 0))\<rparr>
                  | Some vel \<Rightarrow> opt)
      in foldM (sgd_iter grads) [0..<length grads] (opt1, Params))"

record AdamOptimizer64 =
  adam_LearningRateInit :: float64
  adam_LearningRate :: float64
  adam_Beta1 :: float64
  adam_Beta2 :: float64
  adam_Epsilon :: float64
  adam_t :: float64
  ms :: "float64 list"
  vs :: "float64 list"
  beta1t :: float64
  beta2t :: float64

definition AdamOptimizer64_iterationEnds :: "AdamOptimizer64 \<Rightarrow> float64 \<Rightarrow> AdamOptimizer64" where
  "AdamOptimizer64_iterationEnds opt timeStep = opt"

definition AdamOptimizer64_triggerStopping :: "AdamOptimizer64 \<Rightarrow> string \<Rightarrow> bool \<Rightarrow> bool" where
  "AdamOptimizer64_triggerStopping opt msg verbose = True"

text \<open>
  One pass of the body of \<open>for i, grad := range grads\<close> in \<open>updateParams\<close>. The running
  products \<open>beta1t\<close>, \<open>beta2t\<close> and the learning rate are updated in this body, once for
  every parameter \<open>i\<close>, and the learning rate it leaves is the one applied to parameter \<open>i\<close>.
\<close>

definition adam_iter ::
  "float64 list \<Rightarrow> nat \<Rightarrow> AdamOptimizer64 \<times> float64 list \<Rightarrow> panic + AdamOptimizer64 \<times> float64 list" where
  "adam_iter grads i = (\<lambda>(opt, Params).
     if i < length (ms opt) \<and> i < length (vs opt) \<and> i < length Params then
       let grad = grads ! i;
           m = adam_Beta1 opt * ms opt ! i + (Fin 1 - adam_Beta1 opt) * grad;
           v = adam_Beta2 opt * vs opt ! i + (Fin 1 - adam_Beta2 opt) * grad * grad;
           b1 = beta1t opt * adam_Beta1 opt;
           b2 = beta2t opt * adam_Beta2 opt;
           rate = adam_LearningRateInit opt * M64_Sqrt (Fin 1 - b2) / (Fin 1 - b1);
           update = - rate * m / (M64_Sqrt v + adam_Epsilon opt)
       in Inr (opt\<lparr>ms := (ms opt)[i := m], vs := (vs opt)[i := v], beta1t := b1, beta2t := b2,
                   adam_LearningRate := rate\<rparr>,
               Params[i := Params ! i + update])
     else Inl IndexOutOfRange)"

definition AdamOptimizer64_updateParams ::
  "AdamOptimizer64 \<Rightarrow> float64 list \<Rightarrow> float64 list \<Rightarrow> panic + AdamOptimizer64 \<times> float64 list" where
  "AdamOptimizer64_updateParams opt Params grads =
     (let opt1 = (if feq (adam_t opt) (Fin 0)
                  then opt\<lparr>ms := replicate (length grads) (Fin 0),
                           vs := replicate (length grads) (Fin 0),
                           beta1t := Fin 1, beta2t := Fin 1\<rparr>
                  else opt);
          opt2 = opt1\<lparr>adam_t := adam_t opt1 + Fin 1\<rparr>
      in foldM (adam_iter grads) [0..<length grads] (opt2, Params))"

text \<open>The interface \<open>Optimizer64\<close>, with its two implementations.\<close>

datatype Optimizer64 = SGD SGDOptimizer64 | Adam AdamOptimizer64

fun iterationEnds :: "Optimizer64 \<Rightarrow> float64 \<Rightarrow> Optimizer64" where
  "iterationEnds (SGD opt) timeStep = SGD (SGDOptimizer64_iterationEnds opt timeStep)"
| "iterationEnds (Adam opt) timeStep = Adam (AdamOptimizer64_iterationEnds opt timeStep)"

fun triggerStopping :: "Optimizer64 \<Rightarrow> string \<Rightarrow> bool \<Rightarrow> Optimizer64 \<times> bool" where
  "triggerStopping (SGD opt) msg verbose =
     (case SGDOptimizer64_triggerStopping opt msg verbose of (opt', stop) \<Rightarrow> (SGD opt', stop))"
| "triggerStopping (Adam opt) msg verbose = (Adam opt, AdamOptimizer64_triggerStopping opt msg verbose)"

fun updateParams :: "Optimizer64 \<Rightarrow> float64 list \<Rightarrow> float64 list \<Rightarrow> panic + Optimizer64 \<times> float64 list" where
  "updateParams (SGD opt) Params grads =
     (case SGDOptimizer64_updateParams opt Params grads of
        Inl e \<Rightarrow> Inl e | Inr (opt', Params') \<Rightarrow> Inr (SGD opt', Params'))"
| "updateParams (Adam opt) Params grads =
     (case AdamOptimizer64_updateParams opt Params grads of
        Inl e \<Rightarrow> Inl e | Inr (opt', Params') \<Rightarrow> Inr (Adam opt', Params'))"

section \<open>Sorting through \<open>sort.Interface\<close>\<close>

text \<open>
  \<open>sort.Sort\<close> of Go's standard library sorts any value that offers \<open>Len\<close>, \<open>Less(i, j)\<close>
  and \<open>Swap(i, j)\<close>, and touches the data through these only. It is modelled by the
  insertion sort that the library runs on ranges of fewer than twelve elements,
  \<open>for i := 1; i < n; i++ { for j := i; j > 0 && Less(j, j-1); j-- { Swap(j, j-1) } }\<close>.
  Where no two elements are equivalent under \<open>Less\<close> the sorted order is unique, and every
  correct sort returns what this one returns.
\<close>

fun insert_down ::
  "('s \<Rightarrow> nat \<Rightarrow> nat \<Rightarrow> bool) \<Rightarrow> ('s \<Rightarrow> nat \<Rightarrow> nat \<Rightarrow> panic + 's) \<Rightarrow> nat \<Rightarrow> 's \<Rightarrow> panic + 's" where
  "insert_down lt sw 0 s = Inr s"
| "insert_down lt sw (Suc j) s =
     (if lt s (Suc j) j
      then (case sw s (Suc j) j of Inl e \<Rightarrow> Inl e | Inr s' \<Rightarrow> insert_down lt sw j s')
      else Inr s)"

definition sort_Sort ::
  "('s \<Rightarrow> nat \<Rightarrow> nat \<Rightarrow> bool) \<Rightarrow> ('s \<Rightarrow> nat \<Rightarrow> nat \<Rightarrow> panic + 's) \<Rightarrow> nat \<Rightarrow> 's \<Rightarrow> panic + 's" where
  "sort_Sort lt sw n s = foldM (insert_down lt sw) [1..<n] s"

text \<open>\<open>Float64Slice\<close>: ascending, with \<open>NaN\<close> before every other value.\<close>

definition Float64Slice_Less :: "float64 list \<Rightarrow> nat \<Rightarrow> nat \<Rightarrow> bool" where
  "Float64Slice_Less p i j = (p ! i < p ! j \<or> M64_IsNaN (p ! i) \<and> \<not> M64_IsNaN (p ! j))"

definition Float64Slice_Swap :: "float64 list \<Rightarrow> nat \<Rightarrow> nat \<Rightarrow> panic + float64 list" where
  "Float64Slice_Swap p i j =
     (if i < length p \<and> j < length p then Inr (p[i := p ! j, j := p ! i]) else Inl IndexOutOfRange)"

section \<open>Label binarizer\<close>

record LabelBinarizer64 =
  NegLabel :: float64
  PosLabel :: float64
  Classes :: "float64 list list"

definition NewLabelBinarizer64 :: "float64 \<Rightarrow> float64 \<Rightarrow> LabelBinarizer64" where
  "NewLabelBinarizer64 neg pos = \<lparr>NegLabel = neg, PosLabel = pos, Classes = []\<rparr>"

text \<open>
  \<open>Fit\<close> walks down every column of the labels and appends a value to the classes of the
  column unless the map \<open>cmap\<close> holds it already, that is unless an appended value is equal
  to it (a \<open>NaN\<close> is never found in a map, and is appended every time). Then it sorts the
  classes of the column.
\<close>

definition column_classes :: "float64 list \<Rightarrow> float64 list" where
  "column_classes yvals =
     fold (\<lambda>yval classes. if list_ex (\<lambda>c. feq c yval) classes then classes else classes @ [yval])
       yvals []"

definition LabelBinarizer64_Fit ::
  "LabelBinarizer64 \<Rightarrow> blas64General \<Rightarrow> blas64General \<Rightarrow> panic + LabelBinarizer64" where
  "LabelBinarizer64_Fit m X Y =
     (let m1 = (if feq (PosLabel m) (NegLabel m) then m\<lparr>PosLabel := PosLabel m + Fin 1\<rparr> else m)
      in if spans (Rows Y) (Cols Y) (Stride Y) (Data Y)
         then (case mapM (\<lambda>j. let classes = column_classes (map (\<lambda>i. Data Y ! (i * Stride Y + j)) [0..<Rows Y])
                               in sort_Sort Float64Slice_Less Float64Slice_Swap (length classes) classes)
                      [0..<Cols Y] of
                 Inl e \<Rightarrow> Inl e
               | Inr cs \<Rightarrow> Inr (m1\<lparr>Classes := cs\<rparr>))
         else Inl IndexOutOfRange)"

text \<open>
  The map \<open>cmap\<close> of \<open>Transform\<close>, from a class value to its number: a later class with an
  equal value overwrites an earlier one.
\<close>

definition cmap_of :: "float64 list \<Rightarrow> float64 \<Rightarrow> nat option" where
  "cmap_of classes val =
     fold (\<lambda>(classNo, v) found. if feq v val then Some classNo else found) (enumerate 0 classes) None"

definition store :: "nat \<Rightarrow> float64 \<Rightarrow> float64 list \<Rightarrow> panic + float64 list" where
  "store pos v d = (if pos < length d then Inr (d[pos := v]) else Inl IndexOutOfRange)"

text \<open>
  One pass of the row loop of \<open>Transform\<close> for column \<open>j\<close>. In the branch of a value that
  is not in the map, \<open>classNo\<close> is the zero value that the failed lookup left in it: the
  negative code is written to the first entry of the block, and to no other.
\<close>

definition Transform_row ::
  "LabelBinarizer64 \<Rightarrow> blas64General \<Rightarrow> nat \<Rightarrow> nat \<Rightarrow> nat \<Rightarrow> nat \<Rightarrow> float64 list \<Rightarrow> panic + float64 list" where
  "Transform_row m y NOutputs j baseCol i yo =
     (let yi = i * Stride y; yo0 = i * NOutputs
      in if yi + j < length (Data y) then
           (case cmap_of (Classes m ! j) (Data y ! (yi + j)) of
              Some classNo \<Rightarrow> store (yo0 + baseCol + classNo) (PosLabel m) yo
            | None \<Rightarrow> store (yo0 + baseCol + 0) (NegLabel m) yo)
         else Inl IndexOutOfRange)"

definition Transform_col ::
  "LabelBinarizer64 \<Rightarrow> blas64General \<Rightarrow> nat \<Rightarrow> nat \<Rightarrow> float64 list \<times> nat \<Rightarrow> panic + float64 list \<times> nat" where
  "Transform_col m y NOutputs j = (\<lambda>(yo, baseCol).
     if j < length (Classes m) then
       (case foldM (Transform_row m y NOutputs j baseCol) [0..<Rows y] yo of
          Inl e \<Rightarrow> Inl e
        | Inr yo' \<Rightarrow> Inr (yo', baseCol + length (Classes m ! j)))
     else Inl IndexOutOfRange)"

definition LabelBinarizer64_Transform ::
  "LabelBinarizer64 \<Rightarrow> blas64General \<Rightarrow> blas64General \<Rightarrow> panic + blas64General \<times> blas64General" where
  "LabelBinarizer64_Transform m X Y =
     (let NSamples = Rows Y;
          NOutputs = fold (\<lambda>classes n. n + length classes) (Classes m) 0
      in case foldM (Transform_col m Y NOutputs) [0..<Cols Y] (replicate (NSamples * NOutputs) (Fin 0), 0) of
           Inl e \<Rightarrow> Inl e
         | Inr (yo, baseCol) \<Rightarrow>
             Inr (X, \<lparr>Rows = NSamples, Cols = NOutputs, Stride = NOutputs, Data = yo\<rparr>))"

definition LabelBinarizer64_FitTransform ::
  "LabelBinarizer64 \<Rightarrow> blas64General \<Rightarrow> blas64General
     \<Rightarrow> panic + LabelBinarizer64 \<times> blas64General \<times> blas64General" where
  "LabelBinarizer64_FitTransform m X Y =
     (case LabelBinarizer64_Fit m X Y of
        Inl e \<Rightarrow> Inl e
      | Inr m' \<Rightarrow> (case LabelBinarizer64_Transform m' X Y of
                     Inl e \<Rightarrow> Inl e | Inr (Xout, Yout) \<Rightarrow> Inr (m', Xout, Yout)))"

text \<open>
  Modelled from the spec: \<open>MaxIdx64\<close> is declared outside the files at hand; by the spec it
  picks the position of the arithmetic maximum, the lowest one on a tie. (On the empty
  slice the model returns 0; no caller uses that value without failing.)
\<close>

definition MaxIdx64 :: "float64 list \<Rightarrow> nat" where
  "MaxIdx64 a = fold (\<lambda>i best. if a ! best < a ! i then i else best) [0..<length a] 0"

text \<open>
  One pass of the row loop of \<open>InverseTransform\<close> for label column \<open>j\<close>, whose block of
  codes is taken to start at \<open>baseCol\<close>. Slicing \<open>y.Data\<close> beyond its end panics.
\<close>

definition InverseTransform_row ::
  "LabelBinarizer64 \<Rightarrow> blas64General \<Rightarrow> nat \<Rightarrow> nat \<Rightarrow> nat \<Rightarrow> nat \<Rightarrow> float64 list \<Rightarrow> panic + float64 list" where
  "InverseTransform_row m y NOutputs j baseCol i yo =
     (let yi = i * Stride y; yo0 = i * NOutputs; n = length (Classes m ! j)
      in if yi + baseCol + n \<le> length (Data y) then
           (let classNo = MaxIdx64 (take n (drop (yi + baseCol) (Data y)))
            in if classNo < n then store (yo0 + j) (Classes m ! j ! classNo) yo
               else Inl IndexOutOfRange)
         else Inl IndexOutOfRange)"

text \<open>
  The column loop of \<open>InverseTransform\<close>,
  \<open>for j, baseCol := 0, 0; baseCol < y.Cols; j, baseCol = j+1, baseCol+len(m.Classes[j])\<close>,
  whose body ends with \<open>baseCol += len(m.Classes[j])\<close>: the body and the post statement
  both advance \<open>baseCol\<close>, so it moves on by twice the width of the block. Reading
  \<open>m.Classes[j]\<close> with \<open>j\<close> out of range panics.
\<close>

function InverseTransform_loop ::
  "LabelBinarizer64 \<Rightarrow> blas64General \<Rightarrow> nat \<Rightarrow> nat \<Rightarrow> nat \<Rightarrow> float64 list \<Rightarrow> panic + float64 list" where
  "InverseTransform_loop m y NOutputs j baseCol yo =
     (if baseCol < Cols y then
        (if j < length (Classes m) then
           (case foldM (InverseTransform_row m y NOutputs j baseCol) [0..<Rows y] yo of
              Inl e \<Rightarrow> Inl e
            | Inr yo' \<Rightarrow>
                InverseTransform_loop m y NOutputs (j + 1)
                  (baseCol + length (Classes m ! j) + length (Classes m ! j)) yo')
         else Inl IndexOutOfRange)
      else Inr yo)"
  by pat_completeness auto
termination
  by (relation "measure (\<lambda>(m, y, NOutputs, j, baseCol, yo). length (Classes m) - j)") auto

definition LabelBinarizer64_InverseTransform ::
  "LabelBinarizer64 \<Rightarrow> blas64General \<Rightarrow> blas64General \<Rightarrow> panic + blas64General \<times> blas64General" where
  "LabelBinarizer64_InverseTransform m X Y =
     (let NSamples = Rows Y; NOutputs = length (Classes m)
      in case InverseTransform_loop m Y NOutputs 0 0 (replicate (NSamples * NOutputs) (Fin 0)) of
           Inl e \<Rightarrow> Inl e
         | Inr yo \<Rightarrow> Inr (X, \<lparr>Rows = NSamples, Cols = NOutputs, Stride = NOutputs, Data = yo\<rparr>))"

section \<open>Loss registry\<close>

text \<open>
  The three losses run the same double loop, over the rows and columns of the target \<open>y\<close>,
  addressing the prediction \<open>h\<close> by its own stride, and add one term per entry to \<open>sum\<close>.
  The result is divided by \<open>h.Rows\<close>. Nothing in them tests the sum or the result.
\<close>

definition loss_sum ::
  "(float64 \<Rightarrow> float64 \<Rightarrow> float64 \<Rightarrow> float64) \<Rightarrow> blas64General \<Rightarrow> blas64General \<Rightarrow> panic + float64" where
  "loss_sum addend y h =
     (if spans (Rows y) (Cols y) (Stride h) (Data h) \<and> spans (Rows y) (Cols y) (Stride y) (Data y)
      then Inr (fold (\<lambda>(row, col) sum.
                        addend sum (Data y ! (row * Stride y + col)) (Data h ! (row * Stride h + col)))
                  (rowcols (Rows y) (Cols y)) (Fin 0))
      else Inl IndexOutOfRange)"

definition clamp_h :: "float64 \<Rightarrow> float64" where
  "clamp_h hval = (if hval < hmin then hmin else if hmax < hval then hmax else hval)"

definition square_loss :: "blas64General \<Rightarrow> blas64General \<Rightarrow> panic + float64" where
  "square_loss y h =
     andThen (loss_sum (\<lambda>sum yv hv. let e = hv - yv in sum + e * e) y h)
       (\<lambda>sum. Inr (sum / Fin 2 / float64_of_nat (Rows h)))"

definition log_loss :: "blas64General \<Rightarrow> blas64General \<Rightarrow> panic + float64" where
  "log_loss y h =
     andThen (loss_sum (\<lambda>sum yv hv. let hval = clamp_h hv
                                     in if \<not> feq yv (Fin 0) then sum + - yv * M64_Log hval else sum) y h)
       (\<lambda>sum. Inr (sum / float64_of_nat (Rows h)))"

definition binary_log_loss :: "blas64General \<Rightarrow> blas64General \<Rightarrow> panic + float64" where
  "binary_log_loss y h =
     andThen (loss_sum (\<lambda>sum yv hv. let hval = clamp_h hv
                                     in sum + (- yv * M64_Log hval - (Fin 1 - yv) * M64_Log1p (- hval))) y h)
       (\<lambda>sum. Inr (sum / float64_of_nat (Rows h)))"

definition LossFunctions64 :: "string \<Rightarrow> (blas64General \<Rightarrow> blas64General \<Rightarrow> panic + float64) option" where
  "LossFunctions64 name =
     (if name = ''square_loss'' then Some square_loss
      else if name = ''log_loss'' then Some log_loss
      else if name = ''binary_log_loss'' then Some binary_log_loss
      else None)"

section \<open>The numeric library\<close>

text \<open>
  Modelled from the spec: \<open>gemm64\<close>, \<open>axpy64\<close> and the row slice of a matrix are declared
  outside the files at hand. By the spec's numeric library boundary they are the matrix
  multiply, optionally transposing either operand, into a preallocated destination
  (\<open>C = alpha * op(A) * op(B) + beta * C\<close>, the destination not being read when \<open>beta\<close> is 0),
  the scaled in-place accumulate \<open>y += alpha * x\<close> over the first \<open>n\<close> entries, and the
  axis-aligned row-range slice, a view of the rows \<open>i\<close> to \<open>j - 1\<close>. As in BLAS, the
  dimensions of the product are those of \<open>op(A)\<close> and \<open>op(B)\<close>; of the destination only the
  stride and the storage are used. The flags are \<open>True\<close> for \<open>blas.Trans\<close>.
\<close>

definition gemm64 ::
  "bool \<Rightarrow> bool \<Rightarrow> float64 \<Rightarrow> blas64General \<Rightarrow> blas64General \<Rightarrow> float64 \<Rightarrow> blas64General
     \<Rightarrow> panic + blas64General" where
  "gemm64 tA tB alpha A B beta C =
     (let m = (if tA then Cols A else Rows A);
          k = (if tA then Rows A else Cols A);
          n = (if tB then Rows B else Cols B);
          a = (\<lambda>i l. Data A ! (if tA then l * Stride A + i else i * Stride A + l));
          b = (\<lambda>l j. Data B ! (if tB then j * Stride B + l else l * Stride B + j));
          dot = (\<lambda>i j. fold (\<lambda>l sum. sum + a i l * b l j) [0..<k] (Fin 0))
      in if spans (Rows A) (Cols A) (Stride A) (Data A)
            \<and> (if tB then spans n k (Stride B) (Data B) else spans k n (Stride B) (Data B))
            \<and> spans m n (Stride C) (Data C)
         then Inr (C\<lparr>Data :=
                fold (\<lambda>(i, j) d.
                        d[i * Stride C + j :=
                            (if feq beta (Fin 0) then alpha * dot i j
                             else alpha * dot i j + beta * d ! (i * Stride C + j))])
                  (rowcols m n) (Data C)\<rparr>)
         else Inl IndexOutOfRange)"

definition axpy64 :: "nat \<Rightarrow> float64 \<Rightarrow> float64 list \<Rightarrow> float64 list \<Rightarrow> panic + float64 list" where
  "axpy64 n alpha x y =
     (if n \<le> length x \<and> n \<le> length y
      then Inr (fold (\<lambda>i y. y[i := y ! i + alpha * x ! i]) [0..<n] y)
      else Inl IndexOutOfRange)"

definition RowSlice :: "blas64General \<Rightarrow> int \<Rightarrow> int \<Rightarrow> panic + blas64General" where
  "RowSlice M i j =
     (if 0 \<le> i \<and> i \<le> j \<and> j \<le> int (Rows M)
      then Inr (M\<lparr>Rows := nat (j - i),
                  Data := take (nat (j - i) * Stride M) (drop (nat i * Stride M) (Data M))\<rparr>)
      else Inl IndexOutOfRange)"

definition addIntercepts64 :: "blas64General \<Rightarrow> float64 list \<Rightarrow> panic + blas64General" where
  "addIntercepts64 a b =
     (if spans (Rows a) (Cols a) (Stride a) (Data a) \<and> (Rows a = 0 \<or> Cols a \<le> length b)
      then Inr (a\<lparr>Data :=
             fold (\<lambda>(arow, c) d. d[arow * Stride a + c := d ! (arow * Stride a + c) + b ! c])
               (rowcols (Rows a) (Cols a)) (Data a)\<rparr>)
      else Inl IndexOutOfRange)"

definition matRowMean64 :: "blas64General \<Rightarrow> float64 list \<Rightarrow> panic + float64 list" where
  "matRowMean64 a b =
     (if Cols a \<le> length b \<and> spans (Rows a) (Cols a) (Stride a) (Data a)
      then (let b0 = fold (\<lambda>c b. b[c := Fin 0]) [0..<Cols a] b;
                b1 = fold (\<lambda>(arow, c) b. b[c := b ! c + Data a ! (arow * Stride a + c)])
                       (rowcols (Rows a) (Cols a)) b0
            in Inr (fold (\<lambda>c b. b[c := b ! c / float64_of_nat (Rows a)]) [0..<Cols a] b1))
      else Inl IndexOutOfRange)"

section \<open>The network\<close>

text \<open>
  \<open>initialize\<close> allocates one slice \<open>mem\<close> for all parameters and makes \<open>packedParameters\<close>,
  every \<open>Intercepts[i]\<close> and the storage of every \<open>Coefs[i]\<close> a part of it, layer by layer:
  the intercepts of the layer first, then its coefficients. \<open>fit\<close> lays the gradients out in
  \<open>packedGrads\<close> in the same way. The model keeps the shared buffer and makes the parts
  windows on it: \<open>Intercepts[i]\<close> is an offset and a length, \<open>Coefs[i]\<close> an offset and the
  dimensions of the matrix (its stride is its column count).
\<close>

record vecview =
  v_off :: nat
  v_len :: nat

record matview =
  m_off :: nat
  m_Rows :: nat
  m_Cols :: nat

definition vec_at :: "float64 list \<Rightarrow> vecview \<Rightarrow> float64 list" where
  "vec_at mem v = take (v_len v) (drop (v_off v) mem)"

definition mat_at :: "float64 list \<Rightarrow> matview \<Rightarrow> blas64General" where
  "mat_at mem v =
     \<lparr>Rows = m_Rows v, Cols = m_Cols v, Stride = m_Cols v,
      Data = take (m_Rows v * m_Cols v) (drop (m_off v) mem)\<rparr>"

text \<open>Writing through a window: the entries of \<open>mem\<close> from \<open>pos\<close> on are replaced by \<open>d\<close>.\<close>

definition put_at :: "float64 list \<Rightarrow> nat \<Rightarrow> float64 list \<Rightarrow> float64 list" where
  "put_at mem pos d = take pos mem @ d @ drop (pos + length d) mem"

text \<open>
  The struct of the network. \<open>RandomState\<close> and \<open>beforeMinimize\<close> are not fields of the
  model: the random numbers drawn are arguments of the functions that draw them.
  \<open>mlp_t\<close> is the field \<open>t\<close>.
\<close>

record BaseMultilayerPerceptron64 =
  Activation :: string
  Solver :: string
  Alpha :: float64
  WeightDecay :: float64
  BatchSize :: int
  BatchNormalize :: bool
  LearningRate :: string
  LearningRateInit :: float64
  PowerT :: float64
  MaxIter :: int
  LossFuncName :: string
  HiddenLayerSizes :: "nat list"
  Shuffle :: bool
  Tol :: float64
  Verbose :: bool
  WarmStart :: bool
  Momentum :: float64
  NesterovsMomentum :: bool
  EarlyStopping :: bool
  ValidationFraction :: float64
  Beta1 :: float64
  Beta2 :: float64
  Epsilon :: float64
  NIterNoChange :: int
  NLayers :: nat
  NIter :: nat
  NOutputs :: nat
  Intercepts :: "vecview list"
  Coefs :: "matview list"
  OutActivation :: string
  Loss :: float64
  mlp_t :: nat
  LossCurve :: "float64 list"
  ValidationScores :: "float64 list"
  BestValidationScore :: float64
  BestLoss :: float64
  NoImprovementCount :: int
  optimizer :: "Optimizer64 option"
  packedParameters :: "float64 list"
  packedGrads :: "float64 list"
  bestParameters :: "float64 list"
  batchNorm :: "float64 list list"
  lb :: "LabelBinarizer64 option"

subsection \<open>Forward pass\<close>

definition forward_layer ::
  "BaseMultilayerPerceptron64 \<Rightarrow> nat \<Rightarrow> blas64General list \<Rightarrow> panic + blas64General list" where
  "forward_layer mlp i activations =
     (if i + 1 < length activations \<and> i < length (Coefs mlp) \<and> i < length (Intercepts mlp) then
        andThen (gemm64 False False (Fin 1) (activations ! i)
                   (mat_at (packedParameters mlp) (Coefs mlp ! i)) (Fin 0) (activations ! (i + 1))) (\<lambda>a.
        andThen (addIntercepts64 a (vec_at (packedParameters mlp) (Intercepts mlp ! i))) (\<lambda>a.
        andThen (if i + 1 \<noteq> NLayers mlp - 1 then call (Activations64 (Activation mlp)) a else Inr a) (\<lambda>a.
        Inr (activations[i + 1 := a]))))
      else Inl IndexOutOfRange)"

definition forwardPass ::
  "BaseMultilayerPerceptron64 \<Rightarrow> blas64General list \<Rightarrow> panic + blas64General list" where
  "forwardPass mlp activations =
     andThen (foldM (forward_layer mlp) [0..<NLayers mlp - 1] activations) (\<lambda>activations.
       if 0 < NLayers mlp \<and> NLayers mlp - 1 < length activations then
         andThen (call (Activations64 (OutActivation mlp)) (activations ! (NLayers mlp - 1))) (\<lambda>a.
         Inr (activations[NLayers mlp - 1 := a]))
       else Inl IndexOutOfRange)"

subsection \<open>Batch normalization\<close>

definition batchNormalize_col ::
  "blas64General \<Rightarrow> nat \<Rightarrow> float64 list \<times> float64 list \<Rightarrow> panic + float64 list \<times> float64 list" where
  "batchNormalize_col activation o' = (\<lambda>(d, bnorm).
     let M = fold (\<lambda>r M. let a = M64_Abs (d ! (r * Stride activation + o')) in if M < a then a else M)
               [0..<Rows activation] (Fin 0);
         d' = (if Fin 0 < M
               then fold (\<lambda>r d. d[r * Stride activation + o' := d ! (r * Stride activation + o') / M])
                      [0..<Rows activation] d
               else d)
     in if o' < length bnorm then Inr (d', bnorm[o' := M]) else Inl IndexOutOfRange)"

definition batchNormalize_layer ::
  "nat \<Rightarrow> blas64General list \<times> float64 list list \<Rightarrow> panic + blas64General list \<times> float64 list list" where
  "batchNormalize_layer i = (\<lambda>(activations, bnorms).
     if i + 1 < length activations \<and> i < length bnorms then
       (let activation = activations ! (i + 1)
        in if spans (Rows activation) (Cols activation) (Stride activation) (Data activation) then
             andThen (foldM (batchNormalize_col activation) [0..<Cols activation]
                        (Data activation, bnorms ! i)) (\<lambda>(d, bnorm).
             Inr (activations[i + 1 := activation\<lparr>Data := d\<rparr>], bnorms[i := bnorm]))
           else Inl IndexOutOfRange)
     else Inl IndexOutOfRange)"

definition batchNormalize ::
  "BaseMultilayerPerceptron64 \<Rightarrow> blas64General list
     \<Rightarrow> panic + BaseMultilayerPerceptron64 \<times> blas64General list" where
  "batchNormalize mlp activations =
     andThen (foldM batchNormalize_layer [0..<NLayers mlp - 2] (activations, batchNorm mlp))
       (\<lambda>(activations, bnorms). Inr (mlp\<lparr>batchNorm := bnorms\<rparr>, activations))"

definition batchNormalizeDeltas :: "blas64General \<Rightarrow> float64 list \<Rightarrow> panic + blas64General" where
  "batchNormalizeDeltas deltas bnorm =
     (if spans (Rows deltas) (Cols deltas) (Stride deltas) (Data deltas)
         \<and> (Rows deltas = 0 \<or> Cols deltas \<le> length bnorm)
      then Inr (deltas\<lparr>Data :=
             fold (\<lambda>(r, o') d. d[r * Stride deltas + o' := d ! (r * Stride deltas + o') / bnorm ! o'])
               (rowcols (Rows deltas) (Cols deltas)) (Data deltas)\<rparr>)
      else Inl IndexOutOfRange)"

subsection \<open>Backpropagation\<close>

text \<open>\<open>sumCoefSquares\<close> ranges over \<open>mlp.Coefs\<close>, the coefficient windows; no intercept is read.\<close>

definition sumCoefSquares :: "BaseMultilayerPerceptron64 \<Rightarrow> float64" where
  "sumCoefSquares mlp =
     fold (\<lambda>c s. fold (\<lambda>co s. s + co * co) (Data (mat_at (packedParameters mlp) c)) s)
       (Coefs mlp) (Fin 0)"

definition computeLossGrad ::
  "BaseMultilayerPerceptron64 \<Rightarrow> nat \<Rightarrow> nat \<Rightarrow> blas64General list \<Rightarrow> blas64General list
     \<Rightarrow> matview list \<Rightarrow> vecview list \<Rightarrow> float64 list \<Rightarrow> panic + float64 list" where
  "computeLossGrad mlp layer NSamples activations deltas coefGrads interceptGrads grads =
     (if layer < length activations \<and> layer < length deltas \<and> layer < length coefGrads
         \<and> layer < length (Coefs mlp) \<and> layer < length interceptGrads then
        andThen (gemm64 True False (Fin 1 / float64_of_nat NSamples) (activations ! layer)
                   (deltas ! layer) (Fin 0) (mat_at grads (coefGrads ! layer))) (\<lambda>cg.
        andThen (axpy64 (length (Data cg)) (Alpha mlp / float64_of_nat NSamples)
                   (Data (mat_at (packedParameters mlp) (Coefs mlp ! layer))) (Data cg)) (\<lambda>cgd.
        let grads1 = put_at grads (m_off (coefGrads ! layer)) cgd in
        andThen (matRowMean64 (deltas ! layer) (vec_at grads1 (interceptGrads ! layer))) (\<lambda>ig.
        Inr (put_at grads1 (v_off (interceptGrads ! layer)) ig))))
      else Inl IndexOutOfRange)"

text \<open>
  The first block of \<open>backprop\<close>: the weight decay, the forward pass and the batch
  normalization. It leaves the network (its parameters decayed, its norms recorded) and
  the activations.
\<close>

definition backprop_forward ::
  "BaseMultilayerPerceptron64 \<Rightarrow> blas64General list
     \<Rightarrow> panic + BaseMultilayerPerceptron64 \<times> blas64General list" where
  "backprop_forward mlp activations =
     (let mlp1 = (if Fin 0 < WeightDecay mlp
                  then mlp\<lparr>packedParameters :=
                         map (\<lambda>w. w * (Fin 1 - WeightDecay mlp)) (packedParameters mlp)\<rparr>
                  else mlp)
      in andThen (forwardPass mlp1 activations) (\<lambda>activations.
         if BatchNormalize mlp1 then batchNormalize mlp1 activations else Inr (mlp1, activations)))"

text \<open>The name under which \<open>backprop\<close> looks the loss up.\<close>

definition backprop_lossFuncName :: "BaseMultilayerPerceptron64 \<Rightarrow> string" where
  "backprop_lossFuncName mlp =
     (if EqualFold (LossFuncName mlp) ''log_loss'' \<and> EqualFold (OutActivation mlp) ''logistic''
      then ''binary_log_loss'' else LossFuncName mlp)"

text \<open>
  The last block of \<open>backprop\<close>, from \<open>last := mlp.NLayers - 2\<close> on: the delta of the
  output layer, its gradient, and the loop down the hidden layers. The loss is not an
  input of this block.
\<close>

definition output_delta :: "blas64General \<Rightarrow> blas64General \<Rightarrow> blas64General \<Rightarrow> panic + blas64General" where
  "output_delta y H D =
     (if spans (Rows y) (Cols y) (Stride y) (Data y) \<and> spans (Rows y) (Cols y) (Stride y) (Data H)
         \<and> spans (Rows y) (Cols y) (Stride y) (Data D)
      then Inr (D\<lparr>Data :=
             fold (\<lambda>(r, o') d. d[r * Stride y + o' := Data H ! (r * Stride y + o') - Data y ! (r * Stride y + o')])
               (rowcols (Rows y) (Cols y)) (Data D)\<rparr>)
      else Inl IndexOutOfRange)"

definition backward_layer ::
  "BaseMultilayerPerceptron64 \<Rightarrow> nat \<Rightarrow> blas64General list \<Rightarrow> matview list \<Rightarrow> vecview list \<Rightarrow> nat
     \<Rightarrow> blas64General list \<times> float64 list \<Rightarrow> panic + blas64General list \<times> float64 list" where
  "backward_layer mlp nSamples activations coefGrads interceptGrads i = (\<lambda>(deltas, grads).
     if 0 < i \<and> i < length deltas \<and> i < length (Coefs mlp) \<and> i < length activations
        \<and> (BatchNormalize mlp \<longrightarrow> i - 1 < length (batchNorm mlp)) then
       andThen (gemm64 False True (Fin 1) (deltas ! i)
                  (mat_at (packedParameters mlp) (Coefs mlp ! i)) (Fin 0) (deltas ! (i - 1))) (\<lambda>d.
       andThen (call2 (Derivatives64 (Activation mlp)) (activations ! i) d) (\<lambda>d.
       andThen (if BatchNormalize mlp then batchNormalizeDeltas d (batchNorm mlp ! (i - 1)) else Inr d) (\<lambda>d.
       let deltas' = deltas[i - 1 := d] in
       andThen (computeLossGrad mlp (i - 1) nSamples activations deltas' coefGrads interceptGrads grads)
         (\<lambda>grads'. Inr (deltas', grads')))))
     else Inl IndexOutOfRange)"

definition backprop_backward ::
  "BaseMultilayerPerceptron64 \<Rightarrow> nat \<Rightarrow> blas64General \<Rightarrow> blas64General list \<Rightarrow> blas64General list
     \<Rightarrow> matview list \<Rightarrow> vecview list \<Rightarrow> float64 list \<Rightarrow> panic + blas64General list \<times> float64 list" where
  "backprop_backward mlp nSamples y activations deltas coefGrads interceptGrads grads =
     (if 2 \<le> NLayers mlp \<and> NLayers mlp - 2 < length deltas \<and> activations \<noteq> [] then
        (let last' = NLayers mlp - 2 in
         andThen (output_delta y (last activations) (deltas ! last')) (\<lambda>D.
         let deltas1 = deltas[last' := D] in
         andThen (computeLossGrad mlp last' nSamples activations deltas1 coefGrads interceptGrads grads)
           (\<lambda>grads1.
         foldM (backward_layer mlp nSamples activations coefGrads interceptGrads)
           (rev [1..<NLayers mlp - 1]) (deltas1, grads1))))
      else Inl IndexOutOfRange)"

text \<open>
  \<open>backprop\<close> returns the loss; the network, the activations, the deltas and the gradients
  that it has written in place are returned with it.
\<close>

definition backprop ::
  "BaseMultilayerPerceptron64 \<Rightarrow> blas64General \<Rightarrow> blas64General \<Rightarrow> blas64General list
     \<Rightarrow> blas64General list \<Rightarrow> matview list \<Rightarrow> vecview list \<Rightarrow> float64 list
     \<Rightarrow> panic + float64 \<times> BaseMultilayerPerceptron64 \<times> blas64General list \<times> blas64General list \<times> float64 list" where
  "backprop mlp X y activations deltas coefGrads interceptGrads grads =
     (let nSamples = Rows X in
      andThen (backprop_forward mlp activations) (\<lambda>(mlp, activations).
      if activations = [] then Inl IndexOutOfRange else
      andThen (call2 (LossFunctions64 (backprop_lossFuncName mlp)) y (last activations)) (\<lambda>loss.
      let loss = loss + (Fin (1 / 2) * Alpha mlp) * sumCoefSquares mlp / float64_of_nat nSamples in
      andThen (backprop_backward mlp nSamples y activations deltas coefGrads interceptGrads grads)
        (\<lambda>(deltas, grads). Inr (loss, mlp, activations, deltas, grads)))))"

subsection \<open>Initialization\<close>

text \<open>
  The windows of the layers on a buffer laid out from \<open>pos\<close> on: for the layer from \<open>fanIn\<close>
  to \<open>fanOut\<close> units, \<open>fanOut\<close> intercepts, then \<open>fanIn * fanOut\<close> coefficients.
\<close>

fun layout :: "nat list \<Rightarrow> nat \<Rightarrow> (vecview \<times> matview) list" where
  "layout (fanIn # fanOut # layerUnits) pos =
     (\<lparr>v_off = pos, v_len = fanOut\<rparr>, \<lparr>m_off = pos + fanOut, m_Rows = fanIn, m_Cols = fanOut\<rparr>)
       # layout (fanOut # layerUnits) (pos + fanOut + fanIn * fanOut)"
| "layout layerUnits pos = []"

text \<open>
  The initial value of \<open>mem\<close>: entry \<open>pos\<close> of a layer is \<open>rndFloat64() * initBound\<close>, and the
  entries are drawn in the order of their positions, so the draw for entry \<open>pos\<close> is draw
  number \<open>pos\<close> of the random source, \<open>rnd pos\<close>.
\<close>

fun initial_mem :: "string \<Rightarrow> (nat \<Rightarrow> float64) \<Rightarrow> nat list \<Rightarrow> nat \<Rightarrow> float64 list" where
  "initial_mem activation rnd (fanIn # fanOut # layerUnits) pos =
     (let factor = (if EqualFold activation ''logistic'' then Fin 2 else Fin 6);
          initBound = M64_Sqrt (factor / float64_of_nat (fanIn + fanOut))
      in map (\<lambda>pos. rnd pos * initBound) [pos..<pos + fanOut + fanIn * fanOut]
           @ initial_mem activation rnd (fanOut # layerUnits) (pos + fanOut + fanIn * fanOut))"
| "initial_mem activation rnd layerUnits pos = []"

definition initialize ::
  "(nat \<Rightarrow> float64) \<Rightarrow> BaseMultilayerPerceptron64 \<Rightarrow> nat \<Rightarrow> nat list \<Rightarrow> bool \<Rightarrow> bool
     \<Rightarrow> panic + BaseMultilayerPerceptron64" where
  "initialize rnd mlp yCols layerUnits isClassifier isMultiClass =
     (if layerUnits = [] \<or> (BatchNormalize mlp \<and> length layerUnits < 2) then Inl IndexOutOfRange
      else Inr (mlp\<lparr>
        NIter := 0, mlp_t := 0, NOutputs := yCols, NLayers := length layerUnits,
        OutActivation := (if \<not> isClassifier then ''identity''
                          else if isMultiClass then ''softmax'' else ''logistic''),
        LossFuncName := (if \<not> isClassifier then ''square_loss''
                         else if isMultiClass then ''log_loss'' else ''binary_log_loss''),
        Coefs := map snd (layout layerUnits 0),
        Intercepts := map fst (layout layerUnits 0),
        packedParameters := initial_mem (Activation mlp) rnd layerUnits 0,
        batchNorm := (if BatchNormalize mlp
                      then map (\<lambda>i. replicate (layerUnits ! (i + 1)) (Fin 0)) [0..<length layerUnits - 2]
                      else batchNorm mlp),
        BestLoss := PInf\<rparr>))"

definition validateHyperparameters :: "BaseMultilayerPerceptron64 \<Rightarrow> panic + unit" where
  "validateHyperparameters mlp =
     (if MaxIter mlp \<le> 0 then Inl InvalidHyperparameter
      else if Alpha mlp < Fin 0 then Inl InvalidHyperparameter
      else if LearningRateInit mlp \<le> Fin 0 then Inl InvalidHyperparameter
      else if Fin 1 < Momentum mlp \<or> Momentum mlp < Fin 0 then Inl InvalidHyperparameter
      else if ValidationFraction mlp < Fin 0 \<or> Fin 1 \<le> ValidationFraction mlp then Inl InvalidHyperparameter
      else if Beta1 mlp < Fin 0 \<or> Fin 1 \<le> Beta1 mlp then Inl InvalidHyperparameter
      else if Beta2 mlp < Fin 0 \<or> Fin 1 \<le> Beta2 mlp then Inl InvalidHyperparameter
      else if Epsilon mlp \<le> Fin 0 then Inl InvalidHyperparameter
      else if NIterNoChange mlp \<le> 0 then Inl InvalidHyperparameter
      else if Activations64 (Activation mlp) = None then Inl InvalidHyperparameter
      else if LearningRate mlp \<notin> {''constant'', ''invscaling'', ''adaptive''} then Inl InvalidHyperparameter
      else if Solver mlp \<notin> {''sgd'', ''adam'', ''lbfgs''} then Inl InvalidHyperparameter
      else Inr ())"

subsection \<open>Prediction and scores\<close>

definition toLogits64 :: "blas64General \<Rightarrow> panic + blas64General" where
  "toLogits64 ym =
     (if spans (Rows ym) (Cols ym) (Stride ym) (Data ym) then
        Inr (ym\<lparr>Data :=
          fold (\<lambda>i d.
                  let ypos = i * Stride ym in
                  if Cols ym = 1 then d[ypos := (if Fin (1 / 2) < d ! ypos then Fin 1 else Fin 0)]
                  else (let M = MaxIdx64 (take (Cols ym) (drop ypos d))
                        in fold (\<lambda>c d. d[ypos + c := (if c = M then Fin 1 else Fin 0)]) [0..<Cols ym] d))
            [0..<Rows ym] (Data ym)\<rparr>)
      else Inl IndexOutOfRange)"

definition r2Score64_col :: "blas64General \<Rightarrow> blas64General \<Rightarrow> nat \<Rightarrow> float64 \<Rightarrow> panic + float64" where
  "r2Score64_col yTrue yPred c r2acc =
     (let yTrueAvg = fold (\<lambda>r avg. avg + Data yTrue ! (r * Stride yTrue + c)) [0..<Rows yTrue] (Fin 0)
                       / float64_of_nat (Rows yTrue);
          (yNum, yDen) =
             fold (\<lambda>r (yNum, yDen).
                     let t1 = Data yPred ! (r * Stride yTrue + c) - Data yTrue ! (r * Stride yTrue + c);
                         t2 = Data yTrue ! (r * Stride yTrue + c) - yTrueAvg
                     in (yNum + t1 * t1, yDen + t2 * t2))
               [0..<Rows yTrue] (Fin 0, Fin 0)
      in if feq yDen (Fin 0) then Inl YDenZero
         else Inr (r2acc + (Fin 1 - yNum / yDen)))"

definition r2Score64 :: "blas64General \<Rightarrow> blas64General \<Rightarrow> panic + float64" where
  "r2Score64 yTrue yPred =
     (if spans (Rows yTrue) (Cols yTrue) (Stride yTrue) (Data yTrue)
         \<and> spans (Rows yTrue) (Cols yTrue) (Stride yTrue) (Data yPred)
      then andThen (foldM (r2Score64_col yTrue yPred) [0..<Cols yTrue] (Fin 0))
             (\<lambda>r2acc. Inr (r2acc / float64_of_nat (Cols yTrue)))
      else Inl IndexOutOfRange)"

definition accuracyScore64 :: "blas64General \<Rightarrow> blas64General \<Rightarrow> panic + float64" where
  "accuracyScore64 Y H =
     (if spans (Rows Y) (Cols Y) (Stride Y) (Data Y) \<and> spans (Rows Y) (Cols Y) (Stride H) (Data H)
      then Inr (fold (\<lambda>i N.
                        if list_all (\<lambda>c. feq (Data H ! (i * Stride H + c)) (Data Y ! (i * Stride Y + c)))
                             [0..<Cols Y]
                        then N + Fin 1 else N)
                  [0..<Rows Y] (Fin 0)
                / float64_of_nat (Rows Y))
      else Inl IndexOutOfRange)"

definition IsClassifier :: "BaseMultilayerPerceptron64 \<Rightarrow> bool" where
  "IsClassifier mlp = (LossFuncName mlp \<noteq> ''square_loss'')"

text \<open>
  \<open>predictProbas\<close> runs the forward pass with fresh hidden buffers and with \<open>Y\<close> as the
  buffer of the output layer; the model returns \<open>Y\<close> as the pass leaves it.
\<close>

definition predictProbas ::
  "BaseMultilayerPerceptron64 \<Rightarrow> blas64General \<Rightarrow> blas64General \<Rightarrow> panic + blas64General" where
  "predictProbas mlp X Y =
     (let layerUnits = Cols X # HiddenLayerSizes mlp @ [NOutputs mlp];
          activations =
            X # map (\<lambda>i. if i = length layerUnits - 2 then Y
                          else \<lparr>Rows = Rows X, Cols = layerUnits ! (i + 1), Stride = layerUnits ! (i + 1),
                                Data = replicate (Rows X * layerUnits ! (i + 1)) (Fin 0)\<rparr>)
                  [0..<length layerUnits - 1]
      in andThen (forwardPass mlp activations) (\<lambda>activations. Inr (last activations)))"

text \<open>
  \<open>predict\<close> writes the prediction into the storage of \<open>Y\<close>; the model returns \<open>Y\<close> as the
  caller sees it afterwards. With a label binarizer the classes found are handed to \<open>Y\<close>
  by \<open>General64.Copy\<close>, which is declared outside the files at hand, and of which the spec
  says nothing: what the caller sees of \<open>Y\<close> after \<open>tmp.Copy(Yclasses)\<close> is the parameter
  \<open>Copy\<close> of the model, applied to \<open>Y\<close> and the classes.
\<close>

definition predict ::
  "(blas64General \<Rightarrow> blas64General \<Rightarrow> blas64General) \<Rightarrow> BaseMultilayerPerceptron64
     \<Rightarrow> blas64General \<Rightarrow> blas64General \<Rightarrow> panic + blas64General" where
  "predict Copy mlp X Y =
     (case lb mlp of
        None \<Rightarrow>
          andThen (predictProbas mlp X Y) (\<lambda>Y. if IsClassifier mlp then toLogits64 Y else Inr Y)
      | Some binarizer \<Rightarrow>
          andThen (LabelBinarizer64_Transform binarizer X Y) (\<lambda>(Xout, ybin).
          andThen (predictProbas mlp X ybin) (\<lambda>ybin.
          andThen (LabelBinarizer64_InverseTransform binarizer X ybin) (\<lambda>(Xout, Yclasses).
          Inr (Copy Y Yclasses)))))"

definition score ::
  "(blas64General \<Rightarrow> blas64General \<Rightarrow> blas64General) \<Rightarrow> BaseMultilayerPerceptron64
     \<Rightarrow> blas64General \<Rightarrow> blas64General \<Rightarrow> panic + float64" where
  "score Copy mlp X Y =
     (let H = \<lparr>Rows = Rows Y, Cols = Cols Y, Stride = Stride Y,
                Data = replicate (length (Data Y)) (Fin 0)\<rparr>
      in andThen (predict Copy mlp X H) (\<lambda>H.
         if LossFuncName mlp \<noteq> ''square_loss'' then accuracyScore64 Y H else r2Score64 Y H))"

subsection \<open>The stochastic training loop\<close>

text \<open>Go's built-in \<open>copy(dst, src)\<close>: as many entries as the shorter of the two holds.\<close>

definition copy :: "float64 list \<Rightarrow> float64 list \<Rightarrow> float64 list" where
  "copy dst src = take (length dst) src @ drop (length src) dst"

definition updateNoImprovementCount ::
  "(blas64General \<Rightarrow> blas64General \<Rightarrow> blas64General) \<Rightarrow> BaseMultilayerPerceptron64 \<Rightarrow> bool
     \<Rightarrow> blas64General \<Rightarrow> blas64General \<Rightarrow> panic + BaseMultilayerPerceptron64" where
  "updateNoImprovementCount Copy mlp earlyStopping XVal yVal =
     andThen
       (if earlyStopping then
          andThen (score Copy mlp XVal yVal) (\<lambda>lastValidScore.
          let mlp = mlp\<lparr>ValidationScores := ValidationScores mlp @ [lastValidScore]\<rparr>;
              mlp = (if lastValidScore < BestValidationScore mlp + Tol mlp
                     then mlp\<lparr>NoImprovementCount := NoImprovementCount mlp + 1\<rparr>
                     else mlp\<lparr>NoImprovementCount := 0\<rparr>)
          in Inr (if BestValidationScore mlp < lastValidScore
                  then mlp\<lparr>BestValidationScore := lastValidScore,
                           bestParameters := copy (bestParameters mlp) (packedParameters mlp)\<rparr>
                  else mlp))
        else Inr mlp)
       (\<lambda>mlp.
          if LossCurve mlp = [] then Inl IndexOutOfRange
          else (let lastLoss = last (LossCurve mlp);
                    mlp = (if \<not> earlyStopping
                           then (if BestLoss mlp - Tol mlp < lastLoss
                                 then mlp\<lparr>NoImprovementCount := NoImprovementCount mlp + 1\<rparr>
                                 else mlp\<lparr>NoImprovementCount := 0\<rparr>)
                           else mlp)
                in Inr (if lastLoss < BestLoss mlp then mlp\<lparr>BestLoss := lastLoss\<rparr> else mlp)))"

text \<open>
  Modelled from the spec: \<open>indexedXY\<close> and \<open>general64FastSwap\<close> are declared outside the
  files at hand. By their use and by the spec's joint permutation of the rows of inputs
  and targets, \<open>indexedXY\<close> is the \<open>sort.Interface\<close> of the triple of \<open>idx\<close>, \<open>X\<close> and \<open>Y\<close>:
  its length is that of \<open>idx\<close>, \<open>Less(i, j)\<close> compares \<open>idx[i]\<close> with \<open>idx[j]\<close>, and
  \<open>Swap(i, j)\<close> exchanges entries \<open>i\<close> and \<open>j\<close> of \<open>idx\<close>, rows \<open>i\<close> and \<open>j\<close> of \<open>X\<close> and rows \<open>i\<close>
  and \<open>j\<close> of \<open>Y\<close>. Exchanging two rows exchanges their \<open>Cols\<close> entries in the storage, and
  panics when a row is not inside the storage.
\<close>

definition swap_rows :: "nat \<Rightarrow> nat \<Rightarrow> blas64General \<Rightarrow> panic + blas64General" where
  "swap_rows i j M =
     (if Cols M = 0 \<or> (i * Stride M + Cols M \<le> length (Data M) \<and> j * Stride M + Cols M \<le> length (Data M))
      then Inr (M\<lparr>Data :=
             map (\<lambda>p. if i * Stride M \<le> p \<and> p < i * Stride M + Cols M
                         then Data M ! (j * Stride M + (p - i * Stride M))
                       else if j * Stride M \<le> p \<and> p < j * Stride M + Cols M
                         then Data M ! (i * Stride M + (p - j * Stride M))
                       else Data M ! p)
               [0..<length (Data M)]\<rparr>)
      else Inl IndexOutOfRange)"

type_synonym indexedXY = "nat list \<times> blas64General \<times> blas64General"

definition indexedXY_Less :: "indexedXY \<Rightarrow> nat \<Rightarrow> nat \<Rightarrow> bool" where
  "indexedXY_Less s i j = (case s of (idx, X, Y) \<Rightarrow> idx ! i < idx ! j)"

definition indexedXY_Swap :: "indexedXY \<Rightarrow> nat \<Rightarrow> nat \<Rightarrow> panic + indexedXY" where
  "indexedXY_Swap s i j =
     (case s of (idx, X, Y) \<Rightarrow>
        if i < length idx \<and> j < length idx then
          andThen (swap_rows i j X) (\<lambda>X'.
          andThen (swap_rows i j Y) (\<lambda>Y'.
          Inr (idx[i := idx ! j, j := idx ! i], X', Y')))
        else Inl IndexOutOfRange)"

text \<open>
  \<open>rndShuffle(nSamples, swap)\<close> calls \<open>swap\<close> on pairs of positions that the random source
  picks; the pairs of one call are an argument of the model.
\<close>

definition rndShuffle :: "(nat \<times> nat) list \<Rightarrow> indexedXY \<Rightarrow> panic + indexedXY" where
  "rndShuffle pairs s = foldM (\<lambda>(i, j) s. indexedXY_Swap s i j) pairs s"

text \<open>
  The bounds of the minibatches,
  \<open>for batch := [2]int{0, batchSize}; batch[0] < limit; batch = [2]int{batch[1], batch[1] + batchSize}\<close>
  with \<open>batch[1]\<close> cut down to \<open>limit\<close> in the body. The loop is entered with a positive
  \<open>batchSize\<close> only (see \<open>fitStochastic\<close>).
\<close>

function batches :: "nat \<Rightarrow> nat \<Rightarrow> nat \<Rightarrow> (nat \<times> nat) list" where
  "batches b0 batchSize limit =
     (if b0 < limit \<and> 0 < batchSize
      then (b0, min (b0 + batchSize) limit) # batches (min (b0 + batchSize) limit) batchSize limit
      else [])"
  by pat_completeness auto
termination
  by (relation "measure (\<lambda>(b0, batchSize, limit). limit - b0)") auto

text \<open>
  The state that the training loop changes in place besides the rows of \<open>X\<close> and \<open>y\<close>:
  the network, the activations, the deltas and the gradients.
\<close>

type_synonym training =
  "BaseMultilayerPerceptron64 \<times> blas64General list \<times> blas64General list \<times> float64 list"

text \<open>
  The body of the minibatch loop. The loop \<open>for _, a := range activations { a.Rows = Xbatch.Rows }\<close>
  assigns to a copy of each element and changes no activation; it has no counterpart here.
\<close>

definition minibatch ::
  "blas64General \<Rightarrow> blas64General \<Rightarrow> matview list \<Rightarrow> vecview list \<Rightarrow> nat \<times> nat
     \<Rightarrow> training \<times> float64 \<Rightarrow> panic + training \<times> float64" where
  "minibatch X y coefGrads interceptGrads batch = (\<lambda>((mlp, activations, deltas, grads), accumulatedLoss).
     andThen (RowSlice X (int (fst batch)) (int (snd batch))) (\<lambda>Xbatch.
     andThen (RowSlice y (int (fst batch)) (int (snd batch))) (\<lambda>Ybatch.
     if activations = [] then Inl IndexOutOfRange else
     andThen (backprop mlp Xbatch Ybatch (activations[0 := Xbatch]) deltas coefGrads interceptGrads grads)
       (\<lambda>(batchLoss, mlp, activations, deltas, grads).
     let accumulatedLoss = accumulatedLoss + batchLoss * float64_of_nat (snd batch - fst batch) in
     case optimizer mlp of
       None \<Rightarrow> Inl NilDereference
     | Some opt \<Rightarrow>
         andThen (updateParams opt (packedParameters mlp) grads) (\<lambda>(opt, params).
         Inr ((mlp\<lparr>optimizer := Some opt, packedParameters := params\<rparr>, activations, deltas, grads),
              accumulatedLoss))))))"

text \<open>
  The stopping test at the end of an epoch. The message handed to the optimizer is only
  printed; its numbers are left out.
\<close>

definition checkStopping ::
  "BaseMultilayerPerceptron64 \<Rightarrow> bool \<Rightarrow> panic + BaseMultilayerPerceptron64 \<times> bool" where
  "checkStopping mlp earlyStopping =
     (if NIterNoChange mlp < NoImprovementCount mlp then
        (let msg = (if earlyStopping then ''Validation score did not improve''
                    else ''Training loss did not improve'')
         in case optimizer mlp of
              None \<Rightarrow> Inl NilDereference
            | Some opt \<Rightarrow>
                (case triggerStopping opt msg (Verbose mlp) of
                   (opt, isStopping) \<Rightarrow>
                     if isStopping then Inr (mlp\<lparr>optimizer := Some opt\<rparr>, True)
                     else Inr (mlp\<lparr>optimizer := Some opt, NoImprovementCount := 0\<rparr>, False)))
      else Inr (mlp, False))"

text \<open>
  One pass of \<open>for it := 0; it < mlp.MaxIter; it++\<close> after the shuffle. \<open>XVal\<close> and \<open>yVal\<close> are
  views of the last \<open>testSize\<close> rows of \<open>X\<close> and \<open>y\<close>, and show the rows that stand there
  after the shuffle. The result says whether the loop is left by a \<open>break\<close>.
\<close>

definition epoch ::
  "(blas64General \<Rightarrow> blas64General \<Rightarrow> blas64General) \<Rightarrow> bool \<Rightarrow> bool \<Rightarrow> nat \<Rightarrow> nat
     \<Rightarrow> matview list \<Rightarrow> vecview list \<Rightarrow> blas64General \<Rightarrow> blas64General \<Rightarrow> training
     \<Rightarrow> panic + training \<times> bool" where
  "epoch Copy incremental earlyStopping nSamples testSize coefGrads interceptGrads X y tr =
     (case tr of (mlp0, _) \<Rightarrow>
      if 0 < nSamples - testSize \<and> BatchSize mlp0 < 0 then Inl IndexOutOfRange
      else if 0 < nSamples - testSize \<and> BatchSize mlp0 = 0 then Inl NeverReturns
      else
      andThen (foldM (minibatch X y coefGrads interceptGrads)
                 (batches 0 (nat (BatchSize mlp0)) (nSamples - testSize)) (tr, Fin 0))
        (\<lambda>((mlp, activations, deltas, grads), accumulatedLoss).
      let mlp = mlp\<lparr>NIter := NIter mlp + 1\<rparr>;
          mlp = mlp\<lparr>Loss := accumulatedLoss / float64_of_nat nSamples\<rparr>;
          mlp = mlp\<lparr>mlp_t := mlp_t mlp + nSamples\<rparr>;
          mlp = mlp\<lparr>LossCurve := LossCurve mlp @ [Loss mlp]\<rparr>
      in
      andThen (RowSlice X (int nSamples - int testSize) (int nSamples)) (\<lambda>XVal.
      andThen (RowSlice y (int nSamples - int testSize) (int nSamples)) (\<lambda>yVal.
      andThen (updateNoImprovementCount Copy mlp earlyStopping XVal yVal) (\<lambda>mlp.
      case optimizer mlp of
        None \<Rightarrow> Inl NilDereference
      | Some opt \<Rightarrow>
          (let mlp = mlp\<lparr>optimizer := Some (iterationEnds opt (float64_of_nat (mlp_t mlp)))\<rparr>
           in andThen (checkStopping mlp earlyStopping) (\<lambda>(mlp, stop).
              Inr ((mlp, activations, deltas, grads), stop \<or> incremental))))))))"

text \<open>
  The loop over the epochs, \<open>k\<close> passes from pass number \<open>it\<close> on. \<open>swaps it\<close> are the
  swaps of the shuffle of pass \<open>it\<close>.
\<close>

fun epochs ::
  "(blas64General \<Rightarrow> blas64General \<Rightarrow> blas64General) \<Rightarrow> (nat \<Rightarrow> (nat \<times> nat) list) \<Rightarrow> bool \<Rightarrow> bool
     \<Rightarrow> bool \<Rightarrow> nat \<Rightarrow> nat \<Rightarrow> matview list \<Rightarrow> vecview list \<Rightarrow> nat \<Rightarrow> nat
     \<Rightarrow> indexedXY \<times> training \<Rightarrow> panic + indexedXY \<times> training" where
  "epochs Copy swaps doShuffle incremental earlyStopping nSamples testSize coefGrads interceptGrads
     0 it st = Inr st"
| "epochs Copy swaps doShuffle incremental earlyStopping nSamples testSize coefGrads interceptGrads
     (Suc k) it st =
     (case st of (xy, tr) \<Rightarrow>
        andThen (if doShuffle then rndShuffle (swaps it) xy else Inr xy) (\<lambda>xy.
        case xy of (idx, X, y) \<Rightarrow>
        andThen (epoch Copy incremental earlyStopping nSamples testSize coefGrads interceptGrads X y tr)
          (\<lambda>(tr, stop).
        if stop then Inr (xy, tr)
        else epochs Copy swaps doShuffle incremental earlyStopping nSamples testSize coefGrads
               interceptGrads k (Suc it) (xy, tr))))"

text \<open>The optimizer that \<open>fitStochastic\<close> builds; another solver name leaves the field as it is.\<close>

definition new_optimizer :: "BaseMultilayerPerceptron64 \<Rightarrow> Optimizer64 option" where
  "new_optimizer mlp =
     (if Solver mlp = ''sgd'' then
        Some (SGD \<lparr>sgd_LearningRateInit = LearningRateInit mlp, sgd_LearningRate = LearningRateInit mlp,
                   sgd_PowerT = PowerT mlp, sgd_LRSchedule = LearningRate mlp,
                   sgd_Momentum = Momentum mlp, sgd_Nesterov = NesterovsMomentum mlp,
                   velocities = None\<rparr>)
      else if Solver mlp = ''adam'' then
        Some (Adam \<lparr>adam_LearningRateInit = LearningRateInit mlp, adam_LearningRate = LearningRateInit mlp,
                    adam_Beta1 = Beta1 mlp, adam_Beta2 = Beta2 mlp, adam_Epsilon = Epsilon mlp,
                    adam_t = Fin 0, ms = [], vs = [], beta1t = Fin 0, beta2t = Fin 0\<rparr>)
      else optimizer mlp)"

text \<open>
  The block of \<open>fitStochastic\<close> that carves the validation slice: the size of the slice,
  and the network with \<open>bestParameters\<close> allocated. Slicing \<open>X\<close> or \<open>y\<close> out of range panics.
\<close>

definition fitStochastic_validation ::
  "BaseMultilayerPerceptron64 \<Rightarrow> bool \<Rightarrow> blas64General \<Rightarrow> blas64General
     \<Rightarrow> panic + nat \<times> BaseMultilayerPerceptron64" where
  "fitStochastic_validation mlp earlyStopping X y =
     (let nSamples = Rows X in
      if earlyStopping
      then (case int_Ceil (ValidationFraction mlp * float64_of_nat nSamples) of
              None \<Rightarrow> Inl BadConversion
            | Some testSize \<Rightarrow>
                andThen (RowSlice X (int nSamples - testSize) (int nSamples)) (\<lambda>XVal.
                andThen (RowSlice y (int nSamples - testSize) (int nSamples)) (\<lambda>yVal.
                Inr (nat testSize,
                     mlp\<lparr>bestParameters := replicate (length (packedParameters mlp)) (Fin 0)\<rparr>))))
      else Inr (0, mlp))"

text \<open>
  The end of \<open>fitStochastic\<close>, after the loop: with early stopping the best parameters are
  copied back, and with shuffling the rows are sorted back by \<open>idx\<close>.
\<close>

definition fitStochastic_finish ::
  "bool \<Rightarrow> indexedXY \<times> training
     \<Rightarrow> panic + BaseMultilayerPerceptron64 \<times> blas64General \<times> blas64General \<times> float64 list" where
  "fitStochastic_finish earlyStopping st =
     (case st of (xy, (mlp, activations, deltas, grads)) \<Rightarrow>
      let mlp = (if earlyStopping
                 then mlp\<lparr>packedParameters := copy (packedParameters mlp) (bestParameters mlp)\<rparr>
                 else mlp)
      in andThen (if Shuffle mlp then sort_Sort indexedXY_Less indexedXY_Swap (length (fst xy)) xy
                  else Inr xy) (\<lambda>(idx, X, y).
         Inr (mlp, X, y, grads)))"

text \<open>
  \<open>fitStochastic\<close>. The rows of \<open>X\<close> and \<open>y\<close> are exchanged in the caller's storage, so the
  two matrices are returned with the network, as the caller finds them.
\<close>

definition fitStochastic ::
  "(blas64General \<Rightarrow> blas64General \<Rightarrow> blas64General) \<Rightarrow> (nat \<Rightarrow> (nat \<times> nat) list)
     \<Rightarrow> BaseMultilayerPerceptron64 \<Rightarrow> blas64General \<Rightarrow> blas64General \<Rightarrow> blas64General list
     \<Rightarrow> blas64General list \<Rightarrow> matview list \<Rightarrow> vecview list \<Rightarrow> float64 list \<Rightarrow> bool
     \<Rightarrow> panic + BaseMultilayerPerceptron64 \<times> blas64General \<times> blas64General \<times> float64 list" where
  "fitStochastic Copy swaps mlp X y activations deltas coefGrads interceptGrads grads incremental =
     (let mlp = (if \<not> incremental \<or> optimizer mlp = None then mlp\<lparr>optimizer := new_optimizer mlp\<rparr> else mlp);
          earlyStopping = (EarlyStopping mlp \<and> \<not> incremental);
          nSamples = Rows X
      in
      andThen (fitStochastic_validation mlp earlyStopping X y) (\<lambda>(testSize, mlp).
      andThen (epochs Copy swaps (Shuffle mlp) incremental earlyStopping nSamples testSize coefGrads
                 interceptGrads (nat (MaxIter mlp)) 0
                 (([0..<nSamples], X, y), (mlp, activations, deltas, grads)))
        (fitStochastic_finish earlyStopping)))"

subsection \<open>\<open>fit\<close>\<close>

text \<open>
  \<open>fit\<close> validates, initializes unless it continues a fit, fixes the batch size, allocates
  the buffers and runs the solver; \<open>fit_solve\<close> is its part from the batch size on.
  \<open>rnd\<close> are the draws of \<open>initialize\<close>, \<open>swaps\<close> the swaps of the shuffles. Hidden layer sizes are natural numbers in the model, so the test
  for a negative size has no counterpart. With the solver \<open>lbfgs\<close> the optimization is
  handed to the minimizer of gonum, where the model ends.
\<close>

definition fit_solve ::
  "(blas64General \<Rightarrow> blas64General \<Rightarrow> blas64General) \<Rightarrow> (nat \<Rightarrow> (nat \<times> nat) list)
     \<Rightarrow> BaseMultilayerPerceptron64 \<Rightarrow> blas64General \<Rightarrow> blas64General \<Rightarrow> nat list \<Rightarrow> bool
     \<Rightarrow> panic + BaseMultilayerPerceptron64 \<times> blas64General \<times> blas64General" where
  "fit_solve Copy swaps mlp X y layerUnits incremental =
     (let nSamples = Rows X;
          mlp = (if EqualFold (Solver mlp) ''lbfgs'' then mlp\<lparr>BatchSize := int nSamples\<rparr>
                 else if BatchSize mlp \<le> 0 then mlp\<lparr>BatchSize := min (int nSamples) 200\<rparr>
                 else if int nSamples < BatchSize mlp then mlp\<lparr>BatchSize := int nSamples\<rparr>
                 else mlp);
          buffers = map (\<lambda>nFanOut. \<lparr>Rows = nat (BatchSize mlp), Cols = nFanOut, Stride = nFanOut,
                                    Data = replicate (nat (BatchSize mlp) * nFanOut) (Fin 0)\<rparr>)
                      (tl layerUnits);
          activations = X # buffers;
          deltas = buffers;
          grads = replicate (length (packedParameters mlp)) (Fin 0)
      in
      if NLayers mlp = 0 \<or> length layerUnits < NLayers mlp then Inl IndexOutOfRange
      else
      let views = take (NLayers mlp - 1) (layout layerUnits 0);
          CoefsGrads = map snd views;
          InterceptsGrads = map fst views
      in
      if EqualFold (Solver mlp) ''lbfgs'' then Inl ExternalMinimizer
      else
      andThen (fitStochastic Copy swaps mlp X y activations deltas CoefsGrads InterceptsGrads grads
                 incremental) (\<lambda>(mlp, X, y, grads).
      Inr (mlp\<lparr>packedGrads := grads\<rparr>, X, y)))"

definition fit ::
  "(blas64General \<Rightarrow> blas64General \<Rightarrow> blas64General) \<Rightarrow> (nat \<Rightarrow> float64) \<Rightarrow> (nat \<Rightarrow> (nat \<times> nat) list)
     \<Rightarrow> BaseMultilayerPerceptron64 \<Rightarrow> blas64General \<Rightarrow> blas64General \<Rightarrow> bool
     \<Rightarrow> panic + BaseMultilayerPerceptron64 \<times> blas64General \<times> blas64General" where
  "fit Copy rnd swaps mlp X y incremental =
     andThen (validateHyperparameters mlp) (\<lambda>_.
     let nFeatures = Cols X;
         mlp = mlp\<lparr>NOutputs := Cols y\<rparr>;
         layerUnits = nFeatures # HiddenLayerSizes mlp @ [NOutputs mlp]
     in
     andThen (if \<not> WarmStart mlp \<and> \<not> incremental
              then initialize rnd mlp (Cols y) layerUnits
                     (list_all (\<lambda>yval. feq yval (Fin 0) \<or> feq yval (Fin 1)) (Data y)) (1 < Cols y)
              else Inr mlp) (\<lambda>mlp.
     fit_solve Copy swaps mlp X y layerUnits incremental))"

text \<open>
  \<open>NewBaseMultilayerPerceptron64\<close>: the defaults; every field that the constructor does
  not name has the zero value of its type.
\<close>

definition NewBaseMultilayerPerceptron64 :: BaseMultilayerPerceptron64 where
  "NewBaseMultilayerPerceptron64 =
     \<lparr>Activation = ''relu'', Solver = ''adam'', Alpha = Fin (1 / 10000), WeightDecay = Fin 0,
      BatchSize = 200, BatchNormalize = False, LearningRate = ''constant'',
      LearningRateInit = Fin (1 / 1000), PowerT = Fin (1 / 2), MaxIter = 200, LossFuncName = [],
      HiddenLayerSizes = [100], Shuffle = True, Tol = Fin (1 / 10000), Verbose = False,
      WarmStart = False, Momentum = Fin (9 / 10), NesterovsMomentum = True, EarlyStopping = False,
      ValidationFraction = Fin (1 / 10), Beta1 = Fin (9 / 10), Beta2 = Fin (999 / 1000),
      Epsilon = Fin (1 / 100000000), NIterNoChange = 10, NLayers = 0, NIter = 0, NOutputs = 0,
      Intercepts = [], Coefs = [], OutActivation = [], Loss = Fin 0, mlp_t = 0, LossCurve = [],
      ValidationScores = [], BestValidationScore = Fin 0, BestLoss = Fin 0, NoImprovementCount = 0,
      optimizer = None, packedParameters = [], packedGrads = [], bestParameters = [],
      batchNorm = [], lb = None\<rparr>"

section \<open>Concrete inputs\<close>

text \<open>A buffer of one row and two columns, and a delta buffer of the same shape.\<close>

definition tanh_buf :: blas64General where
  "tanh_buf = \<lparr>Rows = 1, Cols = 2, Stride = 2, Data = [Fin 0, Fin 1]\<rparr>"

definition delta_buf :: blas64General where
  "delta_buf = \<lparr>Rows = 1, Cols = 2, Stride = 2, Data = [Fin 3, Fin 5]\<rparr>"

text \<open>
  An Adam optimizer as \<open>fitStochastic\<close> builds it, with \<open>beta_1 = 0.5\<close>, \<open>beta_2 = 0.96\<close>,
  \<open>epsilon = 0.2\<close> and the initial rate 1, before its first step.
\<close>

definition adam_ex :: AdamOptimizer64 where
  "adam_ex = \<lparr>adam_LearningRateInit = Fin 1, adam_LearningRate = Fin 1,
     adam_Beta1 = Fin (1 / 2), adam_Beta2 = Fin (24 / 25), adam_Epsilon = Fin (1 / 5),
     adam_t = Fin 0, ms = [], vs = [], beta1t = Fin 0, beta2t = Fin 0\<rparr>"

text \<open>
  A network with the defaults (solver \<open>adam\<close>, \<open>NIterNoChange = 10\<close>), its optimizer built,
  after eleven epochs without improvement.
\<close>

definition adam_default :: AdamOptimizer64 where
  "adam_default = \<lparr>adam_LearningRateInit = Fin (1 / 1000), adam_LearningRate = Fin (1 / 1000),
     adam_Beta1 = Fin (9 / 10), adam_Beta2 = Fin (999 / 1000), adam_Epsilon = Fin (1 / 100000000),
     adam_t = Fin 0, ms = [], vs = [], beta1t = Fin 0, beta2t = Fin 0\<rparr>"

definition mlp_stalled :: BaseMultilayerPerceptron64 where
  "mlp_stalled = NewBaseMultilayerPerceptron64
     \<lparr>optimizer := Some (Adam adam_default), NoImprovementCount := 11\<rparr>"

text \<open>Labels in two columns, labels in one column, and a label that the fit has not seen.\<close>

definition labels2 :: blas64General where
  "labels2 = \<lparr>Rows = 2, Cols = 2, Stride = 2, Data = [Fin 1, Fin 5, Fin 2, Fin 6]\<rparr>"

definition labels1 :: blas64General where
  "labels1 = \<lparr>Rows = 2, Cols = 1, Stride = 1, Data = [Fin 1, Fin 2]\<rparr>"

definition unseen1 :: blas64General where
  "unseen1 = \<lparr>Rows = 1, Cols = 1, Stride = 1, Data = [Fin 3]\<rparr>"

text \<open>
  A regression on four rows with one feature and one target, with no hidden layer:
  the solver is plain gradient descent (no momentum) at the constant rate \<open>0.5\<close>, without
  L2 term, in batches of two rows, for one epoch, without shuffling, with early stopping on
  the last half of the rows. The random source draws \<open>0.5\<close> every time, so the intercept and
  the coefficient both start at \<open>0.5\<close> (the bound of the initialization is
  \<open>sqrt(2 / (1 + 1)) = 1\<close>). No label binarizer is attached, and \<open>Copy\<close> is not reached.
\<close>

definition mlp_ex :: BaseMultilayerPerceptron64 where
  "mlp_ex = NewBaseMultilayerPerceptron64
     \<lparr>Activation := ''logistic'', Solver := ''sgd'', Alpha := Fin 0, BatchSize := 2,
      LearningRateInit := Fin (1 / 2), MaxIter := 1, HiddenLayerSizes := [], Shuffle := False,
      Momentum := Fin 0, NesterovsMomentum := False, EarlyStopping := True,
      ValidationFraction := Fin (1 / 2)\<rparr>"

definition X_ex :: blas64General where
  "X_ex = \<lparr>Rows = 4, Cols = 1, Stride = 1, Data = [Fin 0, Fin 2, Fin 0, Fin 1]\<rparr>"

definition y_ex :: blas64General where
  "y_ex = \<lparr>Rows = 4, Cols = 1, Stride = 1, Data = [Fin 1, Fin 3, Fin 10, Fin 20]\<rparr>"

definition keep_Y :: "blas64General \<Rightarrow> blas64General \<Rightarrow> blas64General" where
  "keep_Y Y Yclasses = Y"

definition no_swaps :: "nat \<Rightarrow> (nat \<times> nat) list" where
  "no_swaps it = []"

definition rnd_half :: "nat \<Rightarrow> float64" where
  "rnd_half k = Fin (1 / 2)"

text \<open>The network of the example as \<open>initialize\<close> leaves it.\<close>

definition mlp_init :: BaseMultilayerPerceptron64 where
  "mlp_init = mlp_ex
     \<lparr>NOutputs := 1, NIter := 0, mlp_t := 0, NLayers := 2, OutActivation := ''identity'',
      LossFuncName := ''square_loss'', Coefs := [\<lparr>m_off = 1, m_Rows = 1, m_Cols = 1\<rparr>],
      Intercepts := [\<lparr>v_off = 0, v_len = 1\<rparr>], packedParameters := [Fin (1 / 2), Fin (1 / 2)],
      BestLoss := PInf\<rparr>"

text \<open>
  The only minibatch of the example, rows 0 and 1, and the buffer of two rows that \<open>fit\<close>
  allocates for the output layer.
\<close>

definition X_batch :: blas64General where
  "X_batch = \<lparr>Rows = 2, Cols = 1, Stride = 1, Data = [Fin 0, Fin 2]\<rparr>"

definition y_batch :: blas64General where
  "y_batch = \<lparr>Rows = 2, Cols = 1, Stride = 1, Data = [Fin 1, Fin 3]\<rparr>"

definition out_buf :: blas64General where
  "out_buf = \<lparr>Rows = 2, Cols = 1, Stride = 1, Data = [Fin 0, Fin 0]\<rparr>"

text \<open>The targets of the example with a \<open>NaN\<close> in the first row.\<close>

definition y_nan :: blas64General where
  "y_nan = \<lparr>Rows = 4, Cols = 1, Stride = 1, Data = [NaN, Fin 3, Fin 10, Fin 20]\<rparr>"

text \<open>
  The network of the example with the L2 strength 1, its optimizer built, as the first
  minibatch finds it; and the first minibatch of the targets with the \<open>NaN\<close>.
\<close>

definition mlp_l2 :: BaseMultilayerPerceptron64 where
  "mlp_l2 = mlp_init\<lparr>Alpha := Fin 1, optimizer := new_optimizer mlp_init\<rparr>"

definition y_nan_batch :: blas64General where
  "y_nan_batch = \<lparr>Rows = 2, Cols = 1, Stride = 1, Data = [NaN, Fin 3]\<rparr>"

text \<open>
  A network with two inputs and one output: intercept 1, coefficients \<open>1/2\<close> and 2, L2
  strength 1; and two rows of inputs for it.
\<close>

definition mlp_w2 :: BaseMultilayerPerceptron64 where
  "mlp_w2 = mlp_l2\<lparr>Coefs := [\<lparr>m_off = 1, m_Rows = 2, m_Cols = 1\<rparr>],
                    packedParameters := [Fin 1, Fin (1 / 2), Fin 2]\<rparr>"

definition X_two :: blas64General where
  "X_two = \<lparr>Rows = 2, Cols = 2, Stride = 2, Data = [Fin 0, Fin 1, Fin 2, Fin 0]\<rparr>"

text \<open>
  One pass of the training loop with the Adam optimizer \<open>adam_ex\<close>: the network of the
  example with both parameters 0, ten epochs without improvement behind it and the best loss
  0, on two rows with the input 1 and the target \<open>-1\<close>. Both gradients of the only
  minibatch are 1. \<open>adam_ex1\<close> is the optimizer after its step, \<open>mlp_adam1\<close> the network
  after the minibatch, \<open>mlp_adam2\<close> the network after the pass, and \<open>empty_rows\<close> the
  validation slice of a fit without early stopping.
\<close>

definition mlp_adam :: BaseMultilayerPerceptron64 where
  "mlp_adam = mlp_init\<lparr>Solver := ''adam'', packedParameters := [Fin 0, Fin 0],
                        optimizer := Some (Adam adam_ex), NoImprovementCount := 10,
                        BestLoss := Fin 0\<rparr>"

definition X_ones :: blas64General where
  "X_ones = \<lparr>Rows = 2, Cols = 1, Stride = 1, Data = [Fin 1, Fin 1]\<rparr>"

definition y_neg :: blas64General where
  "y_neg = \<lparr>Rows = 2, Cols = 1, Stride = 1, Data = [Fin (- 1), Fin (- 1)]\<rparr>"

definition adam_ex1 :: AdamOptimizer64 where
  "adam_ex1 = adam_ex\<lparr>adam_t := Fin 1, ms := [Fin (1 / 2), Fin (1 / 2)],
                       vs := [Fin (1 / 25), Fin (1 / 25)], beta1t := Fin (1 / 4),
                       beta2t := Fin (576 / 625), adam_LearningRate := Fin (28 / 75)\<rparr>"

definition mlp_adam1 :: BaseMultilayerPerceptron64 where
  "mlp_adam1 = mlp_adam\<lparr>optimizer := Some (Adam adam_ex1),
                          packedParameters := [Fin (- 1 / 2), Fin (- 7 / 15)]\<rparr>"

definition mlp_adam2 :: BaseMultilayerPerceptron64 where
  "mlp_adam2 = mlp_adam1\<lparr>NIter := 1, Loss := Fin (1 / 2), mlp_t := 2, LossCurve := [Fin (1 / 2)],
                           NoImprovementCount := 11\<rparr>"

definition empty_rows :: blas64General where
  "empty_rows = \<lparr>Rows = 0, Cols = 1, Stride = 1, Data = []\<rparr>"

text \<open>
  The example with the \<open>NaN\<close> target after its first minibatch: the optimizer, the network
  and a buffer of the output layer.
\<close>

definition sgd_nan :: SGDOptimizer64 where
  "sgd_nan = \<lparr>sgd_LearningRateInit = Fin (1 / 2), sgd_LearningRate = Fin (1 / 2),
     sgd_PowerT = Fin (1 / 2), sgd_LRSchedule = ''constant'', sgd_Momentum = Fin 0,
     sgd_Nesterov = False, velocities = Some [NaN, NaN]\<rparr>"

definition mlp_nan :: BaseMultilayerPerceptron64 where
  "mlp_nan = mlp_l2\<lparr>optimizer := Some (SGD sgd_nan), packedParameters := [NaN, NaN]\<rparr>"

definition nan_buf :: blas64General where
  "nan_buf = \<lparr>Rows = 2, Cols = 1, Stride = 1, Data = [NaN, NaN]\<rparr>"

text \<open>
  The example with shuffling and without early stopping, and the swaps of its shuffle:
  \<open>rand.Shuffle\<close> calls \<open>swap(i, j)\<close> for \<open>i\<close> from \<open>n - 1\<close> down to 1 with a \<open>j\<close> of its choice
  in \<open>0..i\<close>.
\<close>

definition mlp_shuffle :: BaseMultilayerPerceptron64 where
  "mlp_shuffle = mlp_ex\<lparr>Shuffle := True, EarlyStopping := False\<rparr>"

definition ex_shuffle :: "nat \<Rightarrow> (nat \<times> nat) list" where
  "ex_shuffle it = [(3, 1), (2, 2), (1, 0)]"

section \<open>Rows under a permutation\<close>

text \<open>
  \<open>permuted idx M\<close> is the matrix \<open>M\<close> with row \<open>idx[r]\<close> of \<open>M\<close> standing in row \<open>r\<close>, for
  every \<open>r\<close> below the length of \<open>idx\<close>; the storage outside these rows is that of \<open>M\<close>.
\<close>

definition permuted :: "nat list \<Rightarrow> blas64General \<Rightarrow> blas64General" where
  "permuted idx M =
     M\<lparr>Data := map (\<lambda>p. if p mod Stride M < Cols M \<and> p div Stride M < length idx
                          then Data M ! (idx ! (p div Stride M) * Stride M + p mod Stride M)
                          else Data M ! p)
                  [0..<length (Data M)]\<rparr>"

text \<open>
  The invariant of the training loop: \<open>idx\<close> is a permutation of \<open>0..n-1\<close>, and \<open>X\<close> and \<open>y\<close>
  are the matrices the caller passed with their rows permuted by \<open>idx\<close>.
\<close>

definition tracks :: "nat \<Rightarrow> blas64General \<Rightarrow> blas64General \<Rightarrow> indexedXY \<Rightarrow> bool" where
  "tracks n X0 y0 s =
     (case s of (idx, X, y) \<Rightarrow>
        mset idx = mset [0..<n] \<and> X = permuted idx X0 \<and> y = permuted idx y0)"

text \<open>The inner loop of the insertion sort, as it acts on \<open>idx\<close> alone.\<close>

fun insert_down_idx :: "nat \<Rightarrow> nat list \<Rightarrow> nat list" where
  "insert_down_idx 0 idx = idx"
| "insert_down_idx (Suc j) idx =
     (if idx ! Suc j < idx ! j
      then insert_down_idx j (idx[Suc j := idx ! j, j := idx ! Suc j])
      else idx)"

section \<open>Evaluation\<close>

text \<open>
  Closed terms are evaluated by rewriting with the defining equations. The equations of
  \<open>exp\<close>, \<open>ln\<close> and \<open>root\<close> are no rewrite rules; they are taken out of the equations used,
  and a value of one of them stays as it is.
\<close>

declare exp_def [code del] raw_ln_real_def [code del] root_def [code del]

lemmas float64_simps =
  zero_float64_def one_float64_def minus_float64_def less_eq_float64_def feq_def float64_of_nat_def

lemma andThen_simps [simp]:
  "andThen (Inl e) f = Inl e"
  "andThen (Inr x) f = f x"
  by (simp_all add: andThen_def)

lemma andThen_InrE:
  assumes "andThen r f = Inr z"
  obtains x where "r = Inr x" "f x = Inr z"
  using assms by (cases r) simp_all

declare batches.simps [simp del] InverseTransform_loop.simps [simp del]

section \<open>Activations\<close>

lemma fold_upd_length:
  "length (fold (\<lambda>x d. d[k x := g x (d ! k x)]) xs d) = length d"
  by (induction xs arbitrary: d) auto

lemma fold_upd_other:
  "q \<notin> k ` set xs \<Longrightarrow> fold (\<lambda>x d. d[k x := g x (d ! k x)]) xs d ! q = d ! q"
  by (induction xs arbitrary: d) auto

lemma fold_upd_nth:
  "distinct (map k xs) \<Longrightarrow> x \<in> set xs \<Longrightarrow> k x < length d \<Longrightarrow>
   fold (\<lambda>x d. d[k x := g x (d ! k x)]) xs d ! k x = g x (d ! k x)"
proof (induction xs arbitrary: d)
  case Nil
  then show ?case by simp
next
  case (Cons y ys)
  show ?case
  proof (cases "x = y")
    case True
    with Cons.prems have "k y \<notin> k ` set ys" by auto
    then show ?thesis using True Cons.prems(3) by (simp add: fold_upd_other)
  next
    case False
    with Cons.prems have xin: "x \<in> set ys" by auto
    have "k y \<notin> k ` set ys" using Cons.prems by auto
    with xin have ne: "k x \<noteq> k y" by (metis imageI)
    show ?thesis using Cons.IH[OF _ xin, of "d[k y := g y (d ! k y)]"] Cons.prems ne by simp
  qed
qed

lemma position_inj:
  assumes "cols \<le> stride" "c < cols" "c' < cols" "r * stride + c = r' * stride + c'"
  shows "r = r' \<and> c = (c'::nat)"
proof -
  have c: "c < stride" "c' < stride" using assms by auto
  have "(r * stride + c) div stride = r" using c by simp
  moreover have "(r' * stride + c') div stride = r'" using c by simp
  ultimately have "r = r'" using assms(4) by metis
  then show ?thesis using assms(4) by simp
qed

lemma distinct_positions:
  "cols \<le> stride \<Longrightarrow> distinct (map (\<lambda>(row, col). row * stride + col) (rowcols rows cols))"
  unfolding rowcols_def distinct_map
  by (auto simp: distinct_product inj_on_def dest: position_inj)

lemma spans_bound:
  assumes "spans rows cols stride d" "row < rows" "col < cols"
  shows "row * stride + col < length d"
proof -
  have "row \<le> rows - 1" using assms by simp
  then have "row * stride \<le> (rows - 1) * stride" by (rule mult_le_mono1)
  moreover have "(rows - 1) * stride + cols \<le> length d" using assms unfolding spans_def by auto
  ultimately show ?thesis using assms(3) by linarith
qed

lemma inplace_nth:
  assumes "Cols z \<le> Stride z" "spans (Rows z) (Cols z) (Stride z) (Data z)"
  shows "\<exists>z'. inplace f z = Inr z'
           \<and> (\<forall>row<Rows z. \<forall>col<Cols z.
                 Data z' ! (row * Stride z + col) = f (Data z ! (row * Stride z + col)))"
proof -
  let ?k = "\<lambda>(row, col). row * Stride z + col"
  let ?g = "\<lambda>(x::nat \<times> nat) v. f v"
  let ?F = "\<lambda>(row, col) d. d[row * Stride z + col := f (d ! (row * Stride z + col))]"
  have F: "?F = (\<lambda>x d. d[?k x := ?g x (d ! ?k x)])"
    by (auto simp: fun_eq_iff)
  have "\<forall>row<Rows z. \<forall>col<Cols z.
          fold ?F (rowcols (Rows z) (Cols z)) (Data z) ! (row * Stride z + col)
            = f (Data z ! (row * Stride z + col))"
  proof (intro allI impI)
    fix row col assume rc: "row < Rows z" "col < Cols z"
    have in_set: "(row, col) \<in> set (rowcols (Rows z) (Cols z))"
      using rc by (simp add: rowcols_def)
    have "fold (\<lambda>x d. d[?k x := ?g x (d ! ?k x)]) (rowcols (Rows z) (Cols z)) (Data z) ! ?k (row, col)
            = ?g (row, col) (Data z ! ?k (row, col))"
      by (rule fold_upd_nth[OF distinct_positions[OF assms(1)] in_set])
         (use spans_bound[OF assms(2) rc] in simp)
    then show "fold ?F (rowcols (Rows z) (Cols z)) (Data z) ! (row * Stride z + col)
            = f (Data z ! (row * Stride z + col))"
      unfolding F by simp
  qed
  then show ?thesis using assms(2) by (simp add: inplace_def)
qed

lemma inplace2_nth:
  assumes "Cols Z \<le> Stride D" "spans (Rows Z) (Cols Z) (Stride Z) (Data Z)"
    "spans (Rows Z) (Cols Z) (Stride D) (Data D)"
  shows "\<exists>D'. inplace2 g Z D = Inr D'
           \<and> (\<forall>row<Rows Z. \<forall>col<Cols Z.
                 Data D' ! (row * Stride D + col)
                   = g (Data Z ! (row * Stride Z + col)) (Data D ! (row * Stride D + col)))"
proof -
  let ?k = "\<lambda>(row, col). row * Stride D + col"
  let ?g = "\<lambda>(row, col) v. g (Data Z ! (row * Stride Z + col)) v"
  let ?F = "\<lambda>(row, col) d. d[row * Stride D + col :=
                         g (Data Z ! (row * Stride Z + col)) (d ! (row * Stride D + col))]"
  have F: "?F = (\<lambda>x d. d[?k x := ?g x (d ! ?k x)])"
    by (auto simp: fun_eq_iff)
  have "\<forall>row<Rows Z. \<forall>col<Cols Z.
          fold ?F (rowcols (Rows Z) (Cols Z)) (Data D) ! (row * Stride D + col)
            = g (Data Z ! (row * Stride Z + col)) (Data D ! (row * Stride D + col))"
  proof (intro allI impI)
    fix row col assume rc: "row < Rows Z" "col < Cols Z"
    have in_set: "(row, col) \<in> set (rowcols (Rows Z) (Cols Z))"
      using rc by (simp add: rowcols_def)
    have "fold (\<lambda>x d. d[?k x := ?g x (d ! ?k x)]) (rowcols (Rows Z) (Cols Z)) (Data D) ! ?k (row, col)
            = ?g (row, col) (Data D ! ?k (row, col))"
      by (rule fold_upd_nth[OF distinct_positions[OF assms(1)] in_set])
         (use spans_bound[OF assms(3) rc] in simp)
    then show "fold ?F (rowcols (Rows Z) (Cols Z)) (Data D) ! (row * Stride D + col)
            = g (Data Z ! (row * Stride Z + col)) (Data D ! (row * Stride D + col))"
      unfolding F by simp
  qed
  then show ?thesis using assms(2,3) by (simp add: inplace2_def)
qed

lemma tanh_of_negation_differs: "M64_Tanh (- Fin 1) \<noteq> M64_Tanh (Fin 1)"
  using tanh_real_pos_iff[of 1] by simp

text \<open>
  Claim C10. For every 2-D buffer \<open>z\<close> (a valid one: its rows do not overlap and lie in its
  storage), the activation registered as "tanh" succeeds and leaves \<open>tanh(-v)\<close> in every entry
  that held \<open>v\<close>. The derivative registered as "tanh" multiplies every delta by \<open>1 - z * z\<close>,
  where \<open>z\<close> is the entry of the activation output \<open>Z\<close> at the same row and column. The
  function applied forward is \<open>v \<mapsto> tanh(-v)\<close>, which is not \<open>tanh\<close>: the two differ at 1.
\<close>

theorem tanh_activation_stores_tanh_of_negation:
  assumes "Cols z \<le> Stride z" and "spans (Rows z) (Cols z) (Stride z) (Data z)"
    and "Cols Z \<le> Stride D" and "spans (Rows Z) (Cols Z) (Stride Z) (Data Z)"
    and "spans (Rows Z) (Cols Z) (Stride D) (Data D)"
  shows "(\<exists>z'. call (Activations64 ''tanh'') z = Inr z'
            \<and> (\<forall>row<Rows z. \<forall>col<Cols z.
                  Data z' ! (row * Stride z + col) = M64_Tanh (- (Data z ! (row * Stride z + col)))))
       \<and> (\<exists>D'. call2 (Derivatives64 ''tanh'') Z D = Inr D'
            \<and> (\<forall>row<Rows Z. \<forall>col<Cols Z.
                  Data D' ! (row * Stride D + col)
                    = Data D ! (row * Stride D + col)
                      * (Fin 1 - Data Z ! (row * Stride Z + col) * Data Z ! (row * Stride Z + col))))
       \<and> M64_Tanh (- Fin 1) \<noteq> M64_Tanh (Fin 1)"
  using inplace_nth[OF assms(1,2), of "\<lambda>v. M64_Tanh (- v)"]
    inplace2_nth[OF assms(3,4,5), of "\<lambda>z d. d * (Fin 1 - z * z)"]
    tanh_of_negation_differs
  by (simp add: Activations64_def Derivatives64_def)

theorem tanh_activation_witness:
  "Cols tanh_buf \<le> Stride tanh_buf
   \<and> spans (Rows tanh_buf) (Cols tanh_buf) (Stride tanh_buf) (Data tanh_buf)
   \<and> Cols tanh_buf \<le> Stride delta_buf
   \<and> spans (Rows tanh_buf) (Cols tanh_buf) (Stride delta_buf) (Data delta_buf)
   \<and> map_sum id (\<lambda>z'. Data z' ! 1) (call (Activations64 ''tanh'') tanh_buf) = Inr (M64_Tanh (- Fin 1))
   \<and> map_sum id (\<lambda>D'. Data D' ! 1) (call2 (Derivatives64 ''tanh'') tanh_buf delta_buf)
       = Inr (Fin 5 * (Fin 1 - Fin 1 * Fin 1))"
proof -
  have h1: "Cols tanh_buf \<le> Stride tanh_buf"
    and h2: "spans (Rows tanh_buf) (Cols tanh_buf) (Stride tanh_buf) (Data tanh_buf)"
    and h3: "Cols tanh_buf \<le> Stride delta_buf"
    and h5: "spans (Rows tanh_buf) (Cols tanh_buf) (Stride delta_buf) (Data delta_buf)"
    by (simp_all add: tanh_buf_def delta_buf_def spans_def)
  note T = tanh_activation_stores_tanh_of_negation[OF h1 h2 h3 h2 h5]
  from T obtain z' where z': "call (Activations64 ''tanh'') tanh_buf = Inr z'"
    and zq: "\<forall>row<Rows tanh_buf. \<forall>col<Cols tanh_buf.
               Data z' ! (row * Stride tanh_buf + col)
                 = M64_Tanh (- (Data tanh_buf ! (row * Stride tanh_buf + col)))"
    by blast
  from T obtain D' where D': "call2 (Derivatives64 ''tanh'') tanh_buf delta_buf = Inr D'"
    and Dq: "\<forall>row<Rows tanh_buf. \<forall>col<Cols tanh_buf.
               Data D' ! (row * Stride delta_buf + col)
                 = Data delta_buf ! (row * Stride delta_buf + col)
                   * (Fin 1 - Data tanh_buf ! (row * Stride tanh_buf + col)
                              * Data tanh_buf ! (row * Stride tanh_buf + col))"
    by blast
  have "Data z' ! 1 = M64_Tanh (- Fin 1)"
    using zq[rule_format, of 0 1] by (simp add: tanh_buf_def)
  moreover have "Data D' ! 1 = Fin 5 * (Fin 1 - Fin 1 * Fin 1)"
    using Dq[rule_format, of 0 1] by (simp add: tanh_buf_def delta_buf_def)
  ultimately show ?thesis
    using h1 h2 h3 h5 z' D' by simp
qed

section \<open>The training loop, step by step\<close>

text \<open>
  What \<open>backprop\<close>, a minibatch, a sweep over the minibatches and an epoch return when the
  operations they call return, and which fields of the network they leave as they are.
\<close>

lemma batchNormalize_fields:
  "batchNormalize mlp a = Inr (mlp', a') \<Longrightarrow> \<exists>bn. mlp' = mlp\<lparr>batchNorm := bn\<rparr>"
  unfolding batchNormalize_def by (auto elim!: andThen_InrE)

lemma backprop_forward_fields:
  assumes "backprop_forward mlp activations = Inr (mlp', activations')"
  shows "\<exists>pp bn. mlp' = mlp\<lparr>packedParameters := pp, batchNorm := bn\<rparr>"
proof -
  define m1 where "m1 = (if Fin 0 < WeightDecay mlp
                  then mlp\<lparr>packedParameters :=
                         map (\<lambda>w. w * (Fin 1 - WeightDecay mlp)) (packedParameters mlp)\<rparr>
                  else mlp)"
  have m1: "\<exists>pp. m1 = mlp\<lparr>packedParameters := pp\<rparr>"
  proof (cases "Fin 0 < WeightDecay mlp")
    case True
    then show ?thesis unfolding m1_def by auto
  next
    case False
    then have "m1 = mlp\<lparr>packedParameters := packedParameters mlp\<rparr>" unfolding m1_def by simp
    then show ?thesis ..
  qed
  from assms have "andThen (forwardPass m1 activations) (\<lambda>activations.
         if BatchNormalize m1 then batchNormalize m1 activations else Inr (m1, activations))
       = Inr (mlp', activations')"
    unfolding backprop_forward_def Let_def m1_def .
  then obtain a where
    r: "(if BatchNormalize m1 then batchNormalize m1 a else Inr (m1, a)) = Inr (mlp', activations')"
    by (rule andThen_InrE)
  have "\<exists>bn. mlp' = m1\<lparr>batchNorm := bn\<rparr>"
  proof (cases "BatchNormalize m1")
    case True
    with r show ?thesis by (auto dest: batchNormalize_fields)
  next
    case False
    with r have "mlp' = m1\<lparr>batchNorm := batchNorm m1\<rparr>" by simp
    then show ?thesis ..
  qed
  with m1 show ?thesis by auto
qed

lemma backprop_fields:
  assumes "backprop mlp X y activations deltas coefGrads interceptGrads grads
             = Inr (loss, mlp', activations', deltas', grads')"
  shows "\<exists>pp bn. mlp' = mlp\<lparr>packedParameters := pp, batchNorm := bn\<rparr>"
proof -
  from assms obtain m1 a1 where fwd: "backprop_forward mlp activations = Inr (m1, a1)"
    by (cases "backprop_forward mlp activations") (auto simp: backprop_def)
  from assms fwd have ne: "a1 \<noteq> []"
    by (auto simp: backprop_def split: if_splits)
  from assms fwd ne obtain l where
    l: "call2 (LossFunctions64 (backprop_lossFuncName m1)) y (last a1) = Inr l"
    by (cases "call2 (LossFunctions64 (backprop_lossFuncName m1)) y (last a1)")
       (auto simp: backprop_def)
  from assms fwd ne l obtain d g where
    "backprop_backward m1 (Rows X) y a1 deltas coefGrads interceptGrads grads = Inr (d, g)"
    by (cases "backprop_backward m1 (Rows X) y a1 deltas coefGrads interceptGrads grads")
       (auto simp: backprop_def)
  with assms fwd ne l have "mlp' = m1"
    by (auto simp: backprop_def)
  with backprop_forward_fields[OF fwd] show ?thesis by simp
qed

lemma updateParams_Adam:
  "updateParams (Adam opt) Params grads = Inr (opt', Params') \<Longrightarrow> \<exists>o'. opt' = Adam o'"
  by (auto split: sum.splits)

lemma minibatch_result:
  assumes "minibatch X y coefGrads interceptGrads batch ((mlp, a, d, g), acc)
             = Inr ((mlp', a', d', g'), acc')"
  shows "\<exists>pp bn opt opt' loss.
           optimizer mlp = Some opt \<and> updateParams opt pp g' = Inr (opt', packedParameters mlp')
           \<and> mlp' = mlp\<lparr>packedParameters := packedParameters mlp', batchNorm := bn, optimizer := Some opt'\<rparr>
           \<and> acc' = acc + loss * float64_of_nat (snd batch - fst batch)"
proof -
  from assms obtain Xb Yb r where
    ne: "a \<noteq> []"
    and bp: "backprop mlp Xb Yb (a[0 := Xb]) d coefGrads interceptGrads g = Inr r"
    and rest: "(case r of (batchLoss, mlp, activations, deltas, grads) \<Rightarrow>
     let accumulatedLoss = acc + batchLoss * float64_of_nat (snd batch - fst batch) in
     case optimizer mlp of
       None \<Rightarrow> Inl NilDereference
     | Some opt \<Rightarrow>
         andThen (updateParams opt (packedParameters mlp) grads) (\<lambda>(opt, params).
         Inr ((mlp\<lparr>optimizer := Some opt, packedParameters := params\<rparr>, activations, deltas, grads),
              accumulatedLoss))) = Inr ((mlp', a', d', g'), acc')"
    unfolding minibatch_def by (auto elim!: andThen_InrE split: if_splits)
  obtain loss m1 a1 d1 g1 where r: "r = (loss, m1, a1, d1, g1)" by (cases r) auto
  from backprop_fields[OF bp[unfolded r]] obtain pp bn where
    m1: "m1 = mlp\<lparr>packedParameters := pp, batchNorm := bn\<rparr>" by blast
  from rest r obtain opt where opt: "optimizer m1 = Some opt"
    by (cases "optimizer m1") (auto simp: Let_def)
  from rest r opt obtain opt' params where
    up: "updateParams opt (packedParameters m1) g1 = Inr (opt', params)"
    and res: "mlp' = m1\<lparr>optimizer := Some opt', packedParameters := params\<rparr>" "g' = g1"
      "acc' = acc + loss * float64_of_nat (snd batch - fst batch)"
    by (auto simp: Let_def elim!: andThen_InrE)
  show ?thesis
    apply (rule exI[of _ pp], rule exI[of _ bn], rule exI[of _ opt], rule exI[of _ opt'],
        rule exI[of _ loss])
    using opt up res m1 by simp
qed

lemma minibatch_Adam:
  assumes "minibatch X y coefGrads interceptGrads batch ((mlp, a, d, g), acc)
             = Inr ((mlp', a', d', g'), acc')"
    and "\<exists>opt. optimizer mlp = Some (Adam opt)"
  shows "\<exists>opt. optimizer mlp' = Some (Adam opt)"
proof -
  from minibatch_result[OF assms(1)] obtain pp bn opt opt' where
    o: "optimizer mlp = Some opt" and u: "updateParams opt pp g' = Inr (opt', packedParameters mlp')"
    and m: "mlp' = mlp\<lparr>packedParameters := packedParameters mlp', batchNorm := bn, optimizer := Some opt'\<rparr>"
    by blast
  from o assms(2) obtain ao where "opt = Adam ao" by auto
  with u have "updateParams (Adam ao) pp g' = Inr (opt', packedParameters mlp')" by simp
  from updateParams_Adam[OF this] obtain ao' where "opt' = Adam ao'" ..
  with m have "mlp' = mlp\<lparr>packedParameters := packedParameters mlp', batchNorm := bn,
                          optimizer := Some (Adam ao')\<rparr>" by simp
  then have "optimizer mlp' = optimizer (mlp\<lparr>packedParameters := packedParameters mlp', batchNorm := bn,
                          optimizer := Some (Adam ao')\<rparr>)" by (rule arg_cong)
  then have "optimizer mlp' = Some (Adam ao')" by simp
  then show ?thesis ..
qed

lemma sweep_Adam:
  "foldM (minibatch X y coefGrads interceptGrads) bs st = Inr st' \<Longrightarrow>
   \<exists>opt. optimizer (fst (fst st)) = Some (Adam opt) \<Longrightarrow>
   \<exists>opt. optimizer (fst (fst st')) = Some (Adam opt)"
proof (induction bs arbitrary: st)
  case Nil
  then show ?case by simp
next
  case (Cons b bs)
  from Cons.prems(1) obtain st1 where s1: "minibatch X y coefGrads interceptGrads b st = Inr st1"
    and rest: "foldM (minibatch X y coefGrads interceptGrads) bs st1 = Inr st'"
    by (auto split: sum.splits)
  obtain mlp a d g acc where st: "st = ((mlp, a, d, g), acc)" by (cases st) auto
  obtain mlp1 a1 d1 g1 acc1 where st1: "st1 = ((mlp1, a1, d1, g1), acc1)" by (cases st1) auto
  from Cons.prems(2) st have "\<exists>opt. optimizer mlp = Some (Adam opt)" by simp
  from minibatch_Adam[OF s1[unfolded st st1] this] st1
  have "\<exists>opt. optimizer (fst (fst st1)) = Some (Adam opt)" by simp
  from Cons.IH[OF rest this] show ?case .
qed

lemma updateNoImprovementCount_fields:
  "updateNoImprovementCount Copy mlp earlyStopping XVal yVal = Inr mlp' \<Longrightarrow>
   optimizer mlp' = optimizer mlp \<and> NIterNoChange mlp' = NIterNoChange mlp
   \<and> Loss mlp' = Loss mlp \<and> LossCurve mlp' = LossCurve mlp \<and> NIter mlp' = NIter mlp"
  unfolding updateNoImprovementCount_def Let_def
  by (auto elim!: andThen_InrE split: if_splits)

lemma checkStopping_Adam:
  "optimizer mlp = Some (Adam opt) \<Longrightarrow>
   checkStopping mlp earlyStopping = Inr (mlp, NIterNoChange mlp < NoImprovementCount mlp)"
  by (simp add: checkStopping_def AdamOptimizer64_triggerStopping_def)

lemma epoch_Adam:
  assumes "optimizer mlp = Some (Adam opt)"
    and "epoch Copy incremental earlyStopping nSamples testSize coefGrads interceptGrads X y
           (mlp, a, d, g) = Inr ((mlp', a', d', g'), stop)"
  shows "stop = (NIterNoChange mlp' < NoImprovementCount mlp' \<or> incremental)
       \<and> (\<exists>opt'. optimizer mlp' = Some (Adam opt'))"
proof -
  from assms(2) obtain sw where
    sw: "foldM (minibatch X y coefGrads interceptGrads)
           (batches 0 (nat (BatchSize mlp)) (nSamples - testSize)) ((mlp, a, d, g), Fin 0) = Inr sw"
    and rest: "(case sw of ((mlp, activations, deltas, grads), accumulatedLoss) \<Rightarrow>
      let mlp = mlp\<lparr>NIter := NIter mlp + 1\<rparr>;
          mlp = mlp\<lparr>Loss := accumulatedLoss / float64_of_nat nSamples\<rparr>;
          mlp = mlp\<lparr>mlp_t := mlp_t mlp + nSamples\<rparr>;
          mlp = mlp\<lparr>LossCurve := LossCurve mlp @ [Loss mlp]\<rparr>
      in
      andThen (RowSlice X (int nSamples - int testSize) (int nSamples)) (\<lambda>XVal.
      andThen (RowSlice y (int nSamples - int testSize) (int nSamples)) (\<lambda>yVal.
      andThen (updateNoImprovementCount Copy mlp earlyStopping XVal yVal) (\<lambda>mlp.
      case optimizer mlp of
        None \<Rightarrow> Inl NilDereference
      | Some opt \<Rightarrow>
          (let mlp = mlp\<lparr>optimizer := Some (iterationEnds opt (float64_of_nat (mlp_t mlp)))\<rparr>
           in andThen (checkStopping mlp earlyStopping) (\<lambda>(mlp, stop).
              Inr ((mlp, activations, deltas, grads), stop \<or> incremental))))))) = Inr ((mlp', a', d', g'), stop)"
    unfolding epoch_def by (auto elim!: andThen_InrE split: if_splits)
  obtain m1 a1 d1 g1 acc where swv: "sw = ((m1, a1, d1, g1), acc)" by (cases sw) auto
  from sweep_Adam[OF sw] assms(1) swv obtain o1 where o1: "optimizer m1 = Some (Adam o1)" by auto
  define m2 where "m2 = m1\<lparr>NIter := NIter m1 + 1, Loss := acc / float64_of_nat nSamples,
                            mlp_t := mlp_t m1 + nSamples,
                            LossCurve := LossCurve m1 @ [acc / float64_of_nat nSamples]\<rparr>"
  from rest swv obtain XVal yVal m3 where
    u: "updateNoImprovementCount Copy m2 earlyStopping XVal yVal = Inr m3"
    and tail: "(case optimizer m3 of
        None \<Rightarrow> Inl NilDereference
      | Some opt \<Rightarrow>
          (let mlp = m3\<lparr>optimizer := Some (iterationEnds opt (float64_of_nat (mlp_t m3)))\<rparr>
           in andThen (checkStopping mlp earlyStopping) (\<lambda>(mlp, stop).
              Inr ((mlp, a1, d1, g1), stop \<or> incremental)))) = Inr ((mlp', a', d', g'), stop)"
    unfolding m2_def by (auto simp: Let_def elim!: andThen_InrE)
  from updateNoImprovementCount_fields[OF u] o1 have o3: "optimizer m3 = Some (Adam o1)"
    by (simp add: m2_def)
  define m4 where "m4 = m3\<lparr>optimizer := Some (Adam o1)\<rparr>"
  have o4: "optimizer m4 = Some (Adam o1)" by (simp add: m4_def)
  from tail o3 have "andThen (checkStopping m4 earlyStopping) (\<lambda>(mlp, stop).
              Inr ((mlp, a1, d1, g1), stop \<or> incremental)) = Inr ((mlp', a', d', g'), stop)"
    by (simp add: m4_def AdamOptimizer64_iterationEnds_def)
  then have "mlp' = m4" "stop = (NIterNoChange m4 < NoImprovementCount m4 \<or> incremental)"
    unfolding checkStopping_Adam[OF o4] by auto
  with o4 show ?thesis by auto
qed

lemma epochs_step:
  assumes "(if doShuffle then rndShuffle (swaps it) xy else Inr xy) = Inr (idx, X, y)"
    and "epoch Copy incremental earlyStopping nSamples testSize coefGrads interceptGrads X y tr
           = Inr (tr1, stop)"
  shows "epochs Copy swaps doShuffle incremental earlyStopping nSamples testSize coefGrads
           interceptGrads (Suc k) it (xy, tr)
         = (if stop then Inr ((idx, X, y), tr1)
            else epochs Copy swaps doShuffle incremental earlyStopping nSamples testSize coefGrads
                   interceptGrads k (Suc it) ((idx, X, y), tr1))"
  using assms by simp


lemma backprop_returns:
  assumes "backprop_forward mlp activations = Inr (mlp1, a1)" and "a1 \<noteq> []"
    and "call2 (LossFunctions64 (backprop_lossFuncName mlp1)) y (last a1) = Inr l"
    and "backprop_backward mlp1 (Rows X) y a1 deltas coefGrads interceptGrads grads = Inr (deltas', grads')"
  shows "backprop mlp X y activations deltas coefGrads interceptGrads grads
           = Inr (l + Fin (1 / 2) * Alpha mlp1 * sumCoefSquares mlp1 / float64_of_nat (Rows X),
                  mlp1, a1, deltas', grads')"
  using assms by (simp add: backprop_def Let_def)

lemma minibatch_returns:
  assumes "RowSlice X (int b0) (int b1) = Inr Xb" and "RowSlice y (int b0) (int b1) = Inr Yb"
    and "activations \<noteq> []"
    and "backprop mlp Xb Yb (activations[0 := Xb]) deltas coefGrads interceptGrads grads
           = Inr (loss, mlp1, a1, d1, g1)"
    and "optimizer mlp1 = Some opt"
    and "updateParams opt (packedParameters mlp1) g1 = Inr (opt', params)"
  shows "minibatch X y coefGrads interceptGrads (b0, b1) ((mlp, activations, deltas, grads), acc)
           = Inr ((mlp1\<lparr>optimizer := Some opt', packedParameters := params\<rparr>, a1, d1, g1),
                  acc + loss * float64_of_nat (b1 - b0))"
  using assms by (simp add: minibatch_def Let_def)

lemma non_finite_plus:
  "x = NaN \<or> x = PInf \<Longrightarrow> x + v = NaN \<or> x + v = PInf"
  "x = NaN \<or> x = PInf \<Longrightarrow> v + x = NaN \<or> v + x = PInf"
  by (cases v; auto)+

lemma non_finite_times_rows:
  "x = NaN \<or> x = PInf \<Longrightarrow> 0 < n \<Longrightarrow> x * float64_of_nat n = NaN \<or> x * float64_of_nat n = PInf"
  by (auto simp: float64_of_nat_def)

lemma non_finite_over_rows:
  "x = NaN \<or> x = PInf \<Longrightarrow> x / float64_of_nat n = NaN \<or> x / float64_of_nat n = PInf"
  by (auto simp: float64_of_nat_def)

lemma sweep_non_finite:
  "foldM (minibatch X y coefGrads interceptGrads) bs (tr, acc) = Inr (tr', acc') \<Longrightarrow>
   acc = NaN \<or> acc = PInf \<Longrightarrow> acc' = NaN \<or> acc' = PInf"
proof (induction bs arbitrary: tr acc)
  case Nil
  then show ?case by simp
next
  case (Cons b bs)
  from Cons.prems(1) obtain st1 where
    s1: "minibatch X y coefGrads interceptGrads b (tr, acc) = Inr st1"
    and rest: "foldM (minibatch X y coefGrads interceptGrads) bs st1 = Inr (tr', acc')"
    by (auto split: sum.splits)
  obtain mlp a d g where tr: "tr = (mlp, a, d, g)" by (cases tr) auto
  obtain mlp1 a1 d1 g1 acc1 where st1: "st1 = ((mlp1, a1, d1, g1), acc1)" by (cases st1) auto
  from minibatch_result[OF s1[unfolded tr st1]] obtain v where "acc1 = acc + v" by blast
  with Cons.prems(2) have "acc1 = NaN \<or> acc1 = PInf" by (simp add: non_finite_plus)
  from Cons.IH[OF rest[unfolded st1] this] show ?case .
qed

lemma checkStopping_returns:
  assumes "optimizer mlp = Some opt"
  shows "\<exists>m stop. checkStopping mlp earlyStopping = Inr (m, stop) \<and> Loss m = Loss mlp
           \<and> LossCurve m = LossCurve mlp \<and> NIter m = NIter mlp"
  using assms by (auto simp: checkStopping_def Let_def split: prod.splits)

lemma epoch_returns:
  assumes "\<not> (0 < nSamples - testSize \<and> BatchSize mlp \<le> 0)"
    and "foldM (minibatch X y coefGrads interceptGrads)
           (batches 0 (nat (BatchSize mlp)) (nSamples - testSize)) ((mlp, a, d, g), Fin 0)
         = Inr ((m1, a1, d1, g1), acc)"
    and "RowSlice X (int nSamples - int testSize) (int nSamples) = Inr XVal"
    and "RowSlice y (int nSamples - int testSize) (int nSamples) = Inr yVal"
    and "updateNoImprovementCount Copy
           (m1\<lparr>NIter := NIter m1 + 1, Loss := acc / float64_of_nat nSamples,
               mlp_t := mlp_t m1 + nSamples,
               LossCurve := LossCurve m1 @ [acc / float64_of_nat nSamples]\<rparr>)
           earlyStopping XVal yVal = Inr m3"
    and "optimizer m3 = Some o3"
  shows "epoch Copy incremental earlyStopping nSamples testSize coefGrads interceptGrads X y
           (mlp, a, d, g)
         = andThen (checkStopping (m3\<lparr>optimizer := Some (iterationEnds o3 (float64_of_nat (mlp_t m3)))\<rparr>)
                      earlyStopping)
             (\<lambda>(mlp, stop). Inr ((mlp, a1, d1, g1), stop \<or> incremental))"
proof -
  have g: "(0 < nSamples - testSize \<and> BatchSize mlp < 0) = False"
    "(0 < nSamples - testSize \<and> BatchSize mlp = 0) = False"
    using assms(1) by auto
  show ?thesis
    unfolding epoch_def prod.case g if_False assms(2) andThen_simps Let_def
    using assms(3-6) by simp
qed

section \<open>The stopping test with Adam\<close>

text \<open>
  Claim C2, as stated, fails: the trigger of the Adam optimizer answers \<open>true\<close>, which
  \<open>fitStochastic\<close> reads as "stop", and the stopping test of a network with the defaults
  (solver \<open>adam\<close>) leaves the loop after eleven epochs without improvement.
\<close>

theorem adam_trigger_counterexample:
  "AdamOptimizer64_triggerStopping adam_ex ''Training loss did not improve'' False = True
   \<and> map_sum id snd (checkStopping mlp_stalled False) = Inr True"
  by (simp add: AdamOptimizer64_triggerStopping_def checkStopping_def mlp_stalled_def
      NewBaseMultilayerPerceptron64_def new_optimizer_def)

lemma sqrt_1_25: "sqrt (1 / 25) = 1 / 5"
  by (rule real_sqrt_unique) (simp_all add: power2_eq_square)

lemma sqrt_49_625: "sqrt (49 / 625) = 7 / 25"
  by (rule real_sqrt_unique) (simp_all add: power2_eq_square)

text \<open>
  The pass of the example with Adam: the minibatch moves the parameters from \<open>[0, 0]\<close> to
  \<open>[-1/2, -7/15]\<close>, the loss \<open>1/2\<close> is no improvement on the best loss 0, the count goes
  from 10 to 11, and the pass ends in the stopping test on \<open>mlp_adam2\<close>.
\<close>

lemma adam_ex_step:
  "updateParams (Adam adam_ex) (packedParameters mlp_adam) [Fin 1, Fin 1]
     = Inr (Adam adam_ex1, [Fin (- 1 / 2), Fin (- 7 / 15)])"
  by (simp add: AdamOptimizer64_updateParams_def adam_ex_def adam_ex1_def adam_iter_def
      float64_simps Let_def upt_rec sqrt_1_25 sqrt_49_625 mlp_adam_def mlp_init_def)

lemma adam_pass_sweep:
  "foldM (minibatch X_ones y_neg (Coefs mlp_adam) (Intercepts mlp_adam))
     (batches 0 (nat (BatchSize mlp_adam)) (2 - 0))
     ((mlp_adam, [X_ones, out_buf], [out_buf], [Fin 0, Fin 0]), Fin 0)
   = Inr ((mlp_adam1, [X_ones, out_buf], [X_ones], [Fin 1, Fin 1]), Fin 1)"
proof -
  have b: "batches 0 (nat (BatchSize mlp_adam)) (2 - 0) = [(0, 2)]"
    by code_simp
  have rs: "RowSlice X_ones (int 0) (int 2) = Inr X_ones" "RowSlice y_neg (int 0) (int 2) = Inr y_neg"
    by code_simp+
  have bp: "backprop mlp_adam X_ones y_neg ([X_ones, out_buf][0 := X_ones]) [out_buf]
              (Coefs mlp_adam) (Intercepts mlp_adam) [Fin 0, Fin 0]
            = Inr (Fin (1 / 2), mlp_adam, [X_ones, out_buf], [X_ones], [Fin 1, Fin 1])"
    by code_simp
  have o: "optimizer mlp_adam = Some (Adam adam_ex)"
    by (simp add: mlp_adam_def)
  have "minibatch X_ones y_neg (Coefs mlp_adam) (Intercepts mlp_adam) (0, 2)
          ((mlp_adam, [X_ones, out_buf], [out_buf], [Fin 0, Fin 0]), Fin 0)
        = Inr ((mlp_adam\<lparr>optimizer := Some (Adam adam_ex1),
                          packedParameters := [Fin (- 1 / 2), Fin (- 7 / 15)]\<rparr>,
                [X_ones, out_buf], [X_ones], [Fin 1, Fin 1]),
               Fin 0 + Fin (1 / 2) * float64_of_nat (2 - 0))"
    by (rule minibatch_returns[OF rs _ bp o adam_ex_step]) simp
  then show ?thesis
    unfolding b by (simp add: mlp_adam1_def float64_of_nat_def)
qed

lemma adam_pass:
  "epoch keep_Y False False 2 0 (Coefs mlp_adam) (Intercepts mlp_adam) X_ones y_neg
     (mlp_adam, [X_ones, out_buf], [out_buf], [Fin 0, Fin 0])
   = andThen (checkStopping mlp_adam2 False)
       (\<lambda>(mlp, stop). Inr ((mlp, [X_ones, out_buf], [X_ones], [Fin 1, Fin 1]), stop \<or> False))"
proof -
  have g: "\<not> (0 < 2 - 0 \<and> BatchSize mlp_adam \<le> 0)"
    by (simp add: mlp_adam_def mlp_init_def mlp_ex_def)
  have rs: "RowSlice X_ones (int 2 - int 0) (int 2) = Inr empty_rows"
    "RowSlice y_neg (int 2 - int 0) (int 2) = Inr empty_rows"
    by code_simp+
  have u: "updateNoImprovementCount keep_Y
             (mlp_adam1\<lparr>NIter := NIter mlp_adam1 + 1, Loss := Fin 1 / float64_of_nat 2,
                 mlp_t := mlp_t mlp_adam1 + 2,
                 LossCurve := LossCurve mlp_adam1 @ [Fin 1 / float64_of_nat 2]\<rparr>)
             False empty_rows empty_rows = Inr mlp_adam2"
    by code_simp
  have o: "optimizer mlp_adam2 = Some (Adam adam_ex1)"
    by (simp add: mlp_adam2_def mlp_adam1_def)
  have i: "mlp_adam2\<lparr>optimizer := Some (iterationEnds (Adam adam_ex1) (float64_of_nat (mlp_t mlp_adam2)))\<rparr>
           = mlp_adam2"
    by (simp add: mlp_adam2_def mlp_adam1_def AdamOptimizer64_iterationEnds_def)
  show ?thesis
    using epoch_returns[OF g adam_pass_sweep rs u o, of False] unfolding i .
qed

text \<open>
  Claim C2, amended. The trigger of the Adam optimizer returns \<open>true\<close>, that is "stop", for
  every optimizer state, message and verbosity, and leaves the optimizer as it is; the
  stopping test of a network with this optimizer answers "stop" exactly when the count of
  epochs without improvement exceeds \<open>NIterNoChange\<close>. So with the solver "adam" every
  pass of the training loop that returns leaves the loop exactly when the count then
  exceeds \<open>NIterNoChange\<close> or the fit is incremental; otherwise the loop goes on with the
  next pass, the optimizer still Adam's, and it ends when no pass is left of the \<open>MaxIter\<close>
  passes.
\<close>

theorem adam_trigger_always_stops:
  "AdamOptimizer64_triggerStopping opt msg verbose = True
   \<and> triggerStopping (Adam opt) msg verbose = (Adam opt, True)
   \<and> (optimizer mlp = Some (Adam opt) \<longrightarrow>
        checkStopping mlp earlyStopping = Inr (mlp, NIterNoChange mlp < NoImprovementCount mlp))
   \<and> (optimizer (fst tr) = Some (Adam opt) \<longrightarrow>
       (if doShuffle then rndShuffle (swaps it) xy else Inr xy) = Inr (idx, X, y) \<longrightarrow>
       epoch Copy incremental earlyStopping nSamples testSize coefGrads interceptGrads X y tr
         = Inr (tr1, stop) \<longrightarrow>
       stop = (NIterNoChange (fst tr1) < NoImprovementCount (fst tr1) \<or> incremental)
       \<and> (\<exists>opt1. optimizer (fst tr1) = Some (Adam opt1))
       \<and> epochs Copy swaps doShuffle incremental earlyStopping nSamples testSize coefGrads
            interceptGrads (Suc k) it (xy, tr)
          = (if NIterNoChange (fst tr1) < NoImprovementCount (fst tr1) \<or> incremental
             then Inr ((idx, X, y), tr1)
             else epochs Copy swaps doShuffle incremental earlyStopping nSamples testSize coefGrads
                    interceptGrads k (Suc it) ((idx, X, y), tr1)))
   \<and> epochs Copy swaps doShuffle incremental earlyStopping nSamples testSize coefGrads
        interceptGrads 0 it st = Inr st"
proof (intro conjI impI)
  show "AdamOptimizer64_triggerStopping opt msg verbose = True"
    by (simp add: AdamOptimizer64_triggerStopping_def)
  show "triggerStopping (Adam opt) msg verbose = (Adam opt, True)"
    by (simp add: AdamOptimizer64_triggerStopping_def)
  show "epochs Copy swaps doShuffle incremental earlyStopping nSamples testSize coefGrads
          interceptGrads 0 it st = Inr st"
    by simp
next
  assume "optimizer mlp = Some (Adam opt)"
  then show "checkStopping mlp earlyStopping = Inr (mlp, NIterNoChange mlp < NoImprovementCount mlp)"
    by (rule checkStopping_Adam)
next
  assume o: "optimizer (fst tr) = Some (Adam opt)"
    and s: "(if doShuffle then rndShuffle (swaps it) xy else Inr xy) = Inr (idx, X, y)"
    and e: "epoch Copy incremental earlyStopping nSamples testSize coefGrads interceptGrads X y tr
              = Inr (tr1, stop)"
  obtain mlp0 a d g where tr: "tr = (mlp0, a, d, g)" by (cases tr) auto
  obtain mlp' a' d' g' where tr1: "tr1 = (mlp', a', d', g')" by (cases tr1) auto
  from o tr have o': "optimizer mlp0 = Some (Adam opt)" by simp
  from epoch_Adam[OF o' e[unfolded tr tr1]] tr1
  have st: "stop = (NIterNoChange (fst tr1) < NoImprovementCount (fst tr1) \<or> incremental)"
    and ad: "\<exists>opt1. optimizer (fst tr1) = Some (Adam opt1)"
    by simp_all
  show "stop = (NIterNoChange (fst tr1) < NoImprovementCount (fst tr1) \<or> incremental)"
    by (rule st)
  show "\<exists>opt1. optimizer (fst tr1) = Some (Adam opt1)"
    by (rule ad)
  show "epochs Copy swaps doShuffle incremental earlyStopping nSamples testSize coefGrads
            interceptGrads (Suc k) it (xy, tr)
          = (if NIterNoChange (fst tr1) < NoImprovementCount (fst tr1) \<or> incremental
             then Inr ((idx, X, y), tr1)
             else epochs Copy swaps doShuffle incremental earlyStopping nSamples testSize coefGrads
                    interceptGrads k (Suc it) ((idx, X, y), tr1))"
    unfolding epochs_step[where swaps = swaps and it = it, OF s e] st ..
qed

text \<open>
  The network with the defaults after eleven epochs without improvement, and the pass of
  the example: it answers "stop" with the count at 11, and the loop of 200 passes is left
  after this first one.
\<close>

theorem adam_trigger_always_stops_witness:
  "new_optimizer NewBaseMultilayerPerceptron64 = Some (Adam adam_default)
   \<and> optimizer mlp_stalled = Some (Adam adam_default)
   \<and> NIterNoChange mlp_stalled < NoImprovementCount mlp_stalled
   \<and> checkStopping mlp_stalled True = Inr (mlp_stalled, True)
   \<and> optimizer mlp_adam = Some (Adam adam_ex)
   \<and> epoch keep_Y False False 2 0 (Coefs mlp_adam) (Intercepts mlp_adam) X_ones y_neg
         (mlp_adam, [X_ones, out_buf], [out_buf], [Fin 0, Fin 0])
       = Inr ((mlp_adam2, [X_ones, out_buf], [X_ones], [Fin 1, Fin 1]), True)
   \<and> NIterNoChange mlp_adam2 = 10 \<and> NoImprovementCount mlp_adam2 = 11
   \<and> epochs keep_Y no_swaps False False False 2 0 (Coefs mlp_adam) (Intercepts mlp_adam) (Suc 199) 0
         (([0, 1], X_ones, y_neg), (mlp_adam, [X_ones, out_buf], [out_buf], [Fin 0, Fin 0]))
       = Inr (([0, 1], X_ones, y_neg), (mlp_adam2, [X_ones, out_buf], [X_ones], [Fin 1, Fin 1]))"
proof -
  note check = adam_trigger_always_stops[THEN conjunct2, THEN conjunct2, THEN conjunct1, rule_format]
  note pass = adam_trigger_always_stops[THEN conjunct2, THEN conjunct2, THEN conjunct2,
      THEN conjunct1, rule_format]
  have d: "new_optimizer NewBaseMultilayerPerceptron64 = Some (Adam adam_default)"
    "optimizer mlp_stalled = Some (Adam adam_default)"
    "NIterNoChange mlp_stalled < NoImprovementCount mlp_stalled"
    by (simp_all add: mlp_stalled_def NewBaseMultilayerPerceptron64_def new_optimizer_def
        adam_default_def)
  have c1: "checkStopping mlp_stalled True = Inr (mlp_stalled, True)"
    using check[where mlp = mlp_stalled and opt = adam_default and earlyStopping = True] d(2,3)
    by simp
  have n: "NIterNoChange mlp_adam2 = 10" "NoImprovementCount mlp_adam2 = 11"
    "optimizer mlp_adam2 = Some (Adam adam_ex1)" "optimizer mlp_adam = Some (Adam adam_ex)"
    by (simp_all add: mlp_adam2_def mlp_adam1_def mlp_adam_def mlp_init_def mlp_ex_def
        NewBaseMultilayerPerceptron64_def)
  have c2: "checkStopping mlp_adam2 False = Inr (mlp_adam2, True)"
    using check[where mlp = mlp_adam2 and opt = adam_ex1 and earlyStopping = False] n(1,2,3)
    by simp
  have e: "epoch keep_Y False False 2 0 (Coefs mlp_adam) (Intercepts mlp_adam) X_ones y_neg
             (mlp_adam, [X_ones, out_buf], [out_buf], [Fin 0, Fin 0])
           = Inr ((mlp_adam2, [X_ones, out_buf], [X_ones], [Fin 1, Fin 1]), True)"
    unfolding adam_pass c2 by simp
  have s: "(if False then rndShuffle (no_swaps 0) ([0, 1], X_ones, y_neg)
            else Inr ([0, 1], X_ones, y_neg)) = Inr ([0, 1], X_ones, y_neg)"
    by simp
  have o: "optimizer (fst (mlp_adam, [X_ones, out_buf], [out_buf], [Fin 0, Fin 0]))
             = Some (Adam adam_ex)"
    using n(4) by simp
  from pass[where swaps = no_swaps and it = 0 and k = 199, OF o s e]
  have l: "epochs keep_Y no_swaps False False False 2 0 (Coefs mlp_adam) (Intercepts mlp_adam)
             (Suc 199) 0
             (([0, 1], X_ones, y_neg), (mlp_adam, [X_ones, out_buf], [out_buf], [Fin 0, Fin 0]))
           = Inr (([0, 1], X_ones, y_neg), (mlp_adam2, [X_ones, out_buf], [X_ones], [Fin 1, Fin 1]))"
    using n(1,2) by simp
  from d c1 n e l show ?thesis by simp
qed

section \<open>The Adam update\<close>

text \<open>
  Claim C5 fails on the code. \<open>updateParams\<close> multiplies the running products and
  recomputes the learning rate inside the loop over the parameters, so at one step the
  parameters get different rates. First step, two parameters, both gradients 1,
  \<open>beta_1 = 0.5\<close>, \<open>beta_2 = 0.96\<close>, \<open>epsilon = 0.2\<close>, initial rate 1: the rate of the claim
  is \<open>sqrt(1 - 0.96) / (1 - 0.5) = 2/5\<close> for both, which moves both parameters by \<open>-1/2\<close>.
  The code applies \<open>2/5\<close> to the first and \<open>sqrt(1 - 0.96^2) / (1 - 0.5^2) = 28/75\<close> to
  the second, which it moves by \<open>-7/15\<close>; after the step the products are \<open>beta_1^2\<close> and
  \<open>beta_2^2\<close>.
\<close>

theorem adam_rate_differs_between_parameters:
  "AdamOptimizer64_updateParams adam_ex [Fin 0, Fin 0] [Fin 1, Fin 1]
     = Inr (adam_ex\<lparr>adam_t := Fin 1, ms := [Fin (1 / 2), Fin (1 / 2)],
                    vs := [Fin (1 / 25), Fin (1 / 25)], beta1t := Fin (1 / 4),
                    beta2t := Fin (576 / 625), adam_LearningRate := Fin (28 / 75)\<rparr>,
            [Fin (- 1 / 2), Fin (- 7 / 15)])"
  by (simp add: AdamOptimizer64_updateParams_def adam_ex_def adam_iter_def float64_simps Let_def
      upt_rec sqrt_1_25 sqrt_49_625)

section \<open>Labels through the binarizer and back\<close>

text \<open>
  Claim C3 fails on the code for labels in more than one column. Fit with the codes 0 and
  1 on the labels \<open>[[1, 5], [2, 6]]\<close>; \<open>Transform\<close> gives \<open>[[1, 0, 1, 0], [0, 1, 0, 1]]\<close>.
  \<open>InverseTransform\<close> decodes the first column; then its loop has moved \<open>baseCol\<close> on by
  twice the width of the first block, to 4, and ends: the second column of the result is
  left at 0, and the result is \<open>[[1, 0], [2, 0]]\<close>, not the labels.
\<close>

theorem inverse_transform_loses_second_column:
  "andThen (LabelBinarizer64_FitTransform (NewLabelBinarizer64 (Fin 0) (Fin 1)) labels2 labels2)
     (\<lambda>(m, Xout, Yout). LabelBinarizer64_InverseTransform m Xout Yout)
   = Inr (labels2, \<lparr>Rows = 2, Cols = 2, Stride = 2, Data = [Fin 1, Fin 0, Fin 2, Fin 0]\<rparr>)"
  by code_simp

text \<open>
  Claim C4 fails on the code when the negative code is not 0. Fit with the codes -1 and 1
  on the labels \<open>[[1], [2]]\<close> and transform the unseen label \<open>[[3]]\<close>: the block comes out
  as \<open>[-1, 0]\<close>. The negative code is written to the first entry of the block only; the
  other entries keep the 0 of the allocation.
\<close>

theorem transform_unseen_label_block:
  "andThen (LabelBinarizer64_Fit (NewLabelBinarizer64 (Fin (- 1)) (Fin 1)) labels1 labels1)
     (\<lambda>m. LabelBinarizer64_Transform m unseen1 unseen1)
   = Inr (unseen1, \<lparr>Rows = 1, Cols = 2, Stride = 2, Data = [Fin (- 1), Fin 0]\<rparr>)"
  by code_simp

section \<open>The example fit\<close>

lemma fit_ex_initialized:
  "fit keep_Y rnd_half no_swaps (mlp_ex\<lparr>EarlyStopping := es\<rparr>) X_ex y False
     = (if Cols y = 1 \<and> \<not> list_all (\<lambda>yval. feq yval (Fin 0) \<or> feq yval (Fin 1)) (Data y)
        then fit_solve keep_Y no_swaps (mlp_init\<lparr>EarlyStopping := es\<rparr>) X_ex y [1, 1] False
        else fit keep_Y rnd_half no_swaps (mlp_ex\<lparr>EarlyStopping := es\<rparr>) X_ex y False)"
  by (simp add: fit_def validateHyperparameters_def initialize_def mlp_ex_def mlp_init_def
      NewBaseMultilayerPerceptron64_def Activations64_def rnd_half_def X_ex_def
      EqualFold_def float64_simps upt_rec numeral_2_eq_2)

lemma fit_ex_early_stopping:
  "fit keep_Y rnd_half no_swaps mlp_ex X_ex y_ex False
     = fit_solve keep_Y no_swaps mlp_init X_ex y_ex [1, 1] False"
  using fit_ex_initialized[of True y_ex]
  by (simp add: mlp_ex_def mlp_init_def NewBaseMultilayerPerceptron64_def y_ex_def float64_simps)

lemma fit_ex_nan:
  "fit keep_Y rnd_half no_swaps (mlp_ex\<lparr>EarlyStopping := False\<rparr>) X_ex y_nan False
     = fit_solve keep_Y no_swaps (mlp_init\<lparr>EarlyStopping := False\<rparr>) X_ex y_nan [1, 1] False"
  using fit_ex_initialized[of False y_nan]
  by (simp add: y_nan_def float64_simps)

section \<open>Epoch loss\<close>

text \<open>
  Claim C1 fails on the code as soon as the validation slice is not empty. In the example
  two of the four rows are held out, and the only minibatch is rows 0 and 1. Its loss, as
  \<open>backprop\<close> returns it, is \<open>5/8\<close>; the sum of loss times rows is \<open>5/4\<close>; by the claim the
  epoch loss is \<open>5/4\<close> over the 2 rows trained on, \<open>5/8\<close>. The code divides by \<open>nSamples\<close>,
  all 4 rows, and records \<open>5/16\<close> in \<open>Loss\<close> and in \<open>LossCurve\<close>.
\<close>

theorem epoch_loss_divided_by_all_rows:
  "map_sum id (\<lambda>r. (Loss (fst r), LossCurve (fst r)))
     (fit keep_Y rnd_half no_swaps mlp_ex X_ex y_ex False)
   = Inr (Fin (5 / 16), [Fin (5 / 16)])
   \<and> map_sum id fst
       (backprop (mlp_init\<lparr>optimizer := new_optimizer mlp_init\<rparr>) X_batch y_batch
          [X_batch, out_buf] [out_buf] (Coefs mlp_init) (Intercepts mlp_init) [Fin 0, Fin 0])
     = Inr (Fin (5 / 8))"
  unfolding fit_ex_early_stopping by code_simp

section \<open>Early stopping\<close>

text \<open>
  Claim C8 fails on the code when no validation score exceeds the \<open>BestValidationScore\<close>
  that the fit starts with, which is 0 on a new network: \<open>initialize\<close> resets \<open>BestLoss\<close>
  but not \<open>BestValidationScore\<close>. In the example the only epoch moves the parameters from
  \<open>[1/2, 1/2]\<close> by the velocities \<open>[1/2, 3/4]\<close> to \<open>[1, 5/4]\<close> and scores \<open>-5537/800\<close> on the
  validation rows, the best score observed. No snapshot is taken, \<open>bestParameters\<close> stays as
  allocated, and the fit returns the parameters \<open>[0, 0]\<close>.
\<close>

theorem early_stopping_restores_zeros:
  "map_sum id (\<lambda>r. (packedParameters (fst r), bestParameters (fst r), ValidationScores (fst r),
              BestValidationScore (fst r), packedGrads (fst r), optimizer (fst r)))
     (fit keep_Y rnd_half no_swaps mlp_ex X_ex y_ex False)
   = Inr ([Fin 0, Fin 0], [Fin 0, Fin 0], [Fin (- 5537 / 800)], Fin 0, [Fin (- 1), Fin (- 3 / 2)],
          Some (SGD \<lparr>sgd_LearningRateInit = Fin (1 / 2), sgd_LearningRate = Fin (1 / 2),
                      sgd_PowerT = Fin (1 / 2), sgd_LRSchedule = ''constant'', sgd_Momentum = Fin 0,
                      sgd_Nesterov = False, velocities = Some [Fin (1 / 2), Fin (3 / 4)]\<rparr>))"
  unfolding fit_ex_early_stopping by code_simp

section \<open>The loss of a backprop call\<close>

lemma sumCoefSquares_cong:
  assumes "\<forall>c\<in>set (Coefs mlp). mat_at params c = mat_at (packedParameters mlp) c"
  shows "sumCoefSquares (mlp\<lparr>packedParameters := params\<rparr>) = sumCoefSquares mlp"
proof -
  have "fold (\<lambda>c s. fold (\<lambda>co s. s + co * co) (Data (mat_at params c)) s) cs s0
      = fold (\<lambda>c s. fold (\<lambda>co s. s + co * co) (Data (mat_at (packedParameters mlp) c)) s) cs s0"
    if "set cs \<subseteq> set (Coefs mlp)" for cs s0
    using that assms by (induction cs arbitrary: s0) auto
  then show ?thesis by (simp add: sumCoefSquares_def)
qed

text \<open>
  Addition of \<open>float64\<close> in the model is associative and commutative, and \<open>0\<close> is neutral
  (rounding is outside the model), so the sum of a list of \<open>float64\<close>s is defined and does
  not depend on the order of its terms.
\<close>

lemma plus_float64_assoc: "x + y + z = x + (y + z)" for x y z :: float64
  by (cases x; cases y; cases z) simp_all

lemma plus_float64_commute: "x + y = y + x" for x y :: float64
  by (cases x; cases y) simp_all

lemma plus_float64_zero: "0 + x = x" for x :: float64
  by (cases x) (simp_all add: zero_float64_def)

instance float64 :: comm_monoid_add
  by standard (fact plus_float64_assoc plus_float64_commute plus_float64_zero)+

lemma fold_squares:
  "fold (\<lambda>co s. s + co * co) ws s = s + (\<Sum>w\<leftarrow>ws. w * w)" for s :: float64
  by (induction ws arbitrary: s) (simp_all add: add.assoc zero_float64_def[symmetric])

lemma fold_windows_squares:
  "fold (\<lambda>c s. fold (\<lambda>co s. s + co * co) (D c) s) cs s
     = s + (\<Sum>c\<leftarrow>cs. \<Sum>w\<leftarrow>D c. w * w)" for s :: float64
  by (induction cs arbitrary: s) (simp_all add: fold_squares add.assoc)

lemma sumCoefSquares_is_sum:
  "sumCoefSquares mlp = (\<Sum>c\<leftarrow>Coefs mlp. \<Sum>w\<leftarrow>Data (mat_at (packedParameters mlp) c). w * w)"
  unfolding sumCoefSquares_def fold_windows_squares by (simp add: zero_float64_def[symmetric])

text \<open>
  Claim C7. Whenever a call of \<open>backprop\<close> on \<open>X.Rows = nSamples\<close> rows returns, the loss it
  returns is the loss that the registry function gives on the target \<open>y\<close> and the
  activations of the last layer (those that the forward block has left), plus
  \<open>0.5 * Alpha\<close> times the sum of the squares of the entries of the coefficient windows,
  divided by \<open>nSamples\<close>. No intercept enters the sum: \<open>sumCoefSquares\<close> is the same for any
  parameter buffer that agrees with the network's on the coefficient windows, whatever the
  intercepts are.
\<close>

theorem backprop_loss_is_registry_loss_plus_L2:
  assumes "backprop mlp X y activations deltas coefGrads interceptGrads grads
             = Inr (loss, mlp', activations', deltas', grads')"
  shows "backprop_forward mlp activations = Inr (mlp', activations')
       \<and> (\<exists>l. call2 (LossFunctions64 (backprop_lossFuncName mlp')) y (last activations') = Inr l
              \<and> loss = l + Fin (1 / 2) * Alpha mlp'
                          * (\<Sum>c\<leftarrow>Coefs mlp'. \<Sum>w\<leftarrow>Data (mat_at (packedParameters mlp') c). w * w)
                          / float64_of_nat (Rows X))
       \<and> (\<forall>params. (\<forall>c\<in>set (Coefs mlp'). mat_at params c = mat_at (packedParameters mlp') c)
              \<longrightarrow> sumCoefSquares (mlp'\<lparr>packedParameters := params\<rparr>) = sumCoefSquares mlp')"
proof -
  from assms obtain m1 a1 where fwd: "backprop_forward mlp activations = Inr (m1, a1)"
    by (cases "backprop_forward mlp activations") (auto simp: backprop_def)
  from assms fwd have ne: "a1 \<noteq> []"
    by (auto simp: backprop_def split: if_splits)
  from assms fwd ne obtain l where
    l: "call2 (LossFunctions64 (backprop_lossFuncName m1)) y (last a1) = Inr l"
    by (cases "call2 (LossFunctions64 (backprop_lossFuncName m1)) y (last a1)")
       (auto simp: backprop_def)
  from assms fwd ne l obtain d g where
    "backprop_backward m1 (Rows X) y a1 deltas coefGrads interceptGrads grads = Inr (d, g)"
    by (cases "backprop_backward m1 (Rows X) y a1 deltas coefGrads interceptGrads grads")
       (auto simp: backprop_def)
  with assms fwd ne l have
    eq: "loss = l + Fin (1 / 2) * Alpha m1 * sumCoefSquares m1 / float64_of_nat (Rows X)"
      "mlp' = m1" "activations' = a1"
    by (auto simp: backprop_def)
  show ?thesis
  proof (intro conjI exI[of _ l] allI impI)
    show "backprop_forward mlp activations = Inr (mlp', activations')"
      using fwd eq(2,3) by simp
    show "call2 (LossFunctions64 (backprop_lossFuncName mlp')) y (last activations') = Inr l"
      using l eq(2,3) by simp
    show "loss = l + Fin (1 / 2) * Alpha mlp'
                   * (\<Sum>c\<leftarrow>Coefs mlp'. \<Sum>w\<leftarrow>Data (mat_at (packedParameters mlp') c). w * w)
                   / float64_of_nat (Rows X)"
      using eq(1) unfolding sumCoefSquares_is_sum eq(2) .
  next
    fix params
    assume "\<forall>c\<in>set (Coefs mlp'). mat_at params c = mat_at (packedParameters mlp') c"
    then show "sumCoefSquares (mlp'\<lparr>packedParameters := params\<rparr>) = sumCoefSquares mlp'"
      by (rule sumCoefSquares_cong)
  qed
qed

text \<open>
  The network with the coefficients \<open>1/2\<close> and 2 and the intercept 1: the registry loss is
  \<open>5/4\<close>, the sum of squares \<open>1/4 + 4 = 17/4\<close> (with the intercept it would be \<open>21/4\<close>), and
  the loss returned \<open>5/4 + 0.5 * 1 * (17/4) / 2 = 37/16\<close>.
\<close>

theorem backprop_loss_witness:
  "\<exists>activations' deltas' grads'.
     backprop mlp_w2 X_two y_batch [X_two, out_buf] [out_buf] (Coefs mlp_w2) (Intercepts mlp_w2)
       [Fin 0, Fin 0, Fin 0] = Inr (Fin (37 / 16), mlp_w2, activations', deltas', grads')
     \<and> call2 (LossFunctions64 (backprop_lossFuncName mlp_w2)) y_batch (last activations')
         = Inr (Fin (5 / 4))
     \<and> Alpha mlp_w2 = Fin 1 \<and> float64_of_nat (Rows X_two) = Fin 2
     \<and> (\<Sum>c\<leftarrow>Coefs mlp_w2. \<Sum>w\<leftarrow>Data (mat_at (packedParameters mlp_w2) c). w * w) = Fin (17 / 4)
     \<and> Fin (37 / 16) = Fin (5 / 4) + Fin (1 / 2) * Fin 1 * Fin (17 / 4) / Fin 2"
proof -
  have "map_sum id (\<lambda>r. (fst r, fst (snd r)))
          (backprop mlp_w2 X_two y_batch [X_two, out_buf] [out_buf] (Coefs mlp_w2)
             (Intercepts mlp_w2) [Fin 0, Fin 0, Fin 0]) = Inr (Fin (37 / 16), mlp_w2)"
    by code_simp
  then obtain activations' deltas' grads' where
    r: "backprop mlp_w2 X_two y_batch [X_two, out_buf] [out_buf] (Coefs mlp_w2) (Intercepts mlp_w2)
          [Fin 0, Fin 0, Fin 0] = Inr (Fin (37 / 16), mlp_w2, activations', deltas', grads')"
    by (cases "backprop mlp_w2 X_two y_batch [X_two, out_buf] [out_buf] (Coefs mlp_w2)
                 (Intercepts mlp_w2) [Fin 0, Fin 0, Fin 0]") auto
  have s: "(\<Sum>c\<leftarrow>Coefs mlp_w2. \<Sum>w\<leftarrow>Data (mat_at (packedParameters mlp_w2) c). w * w) = Fin (17 / 4)"
    by code_simp
  have a: "Alpha mlp_w2 = Fin 1" "float64_of_nat (Rows X_two) = Fin 2"
    by (simp_all add: mlp_w2_def mlp_l2_def X_two_def float64_of_nat_def)
  from backprop_loss_is_registry_loss_plus_L2[OF r] obtain l where
    l: "call2 (LossFunctions64 (backprop_lossFuncName mlp_w2)) y_batch (last activations') = Inr l"
    and e: "Fin (37 / 16) = l + Fin (1 / 2) * Alpha mlp_w2
              * (\<Sum>c\<leftarrow>Coefs mlp_w2. \<Sum>w\<leftarrow>Data (mat_at (packedParameters mlp_w2) c). w * w)
              / float64_of_nat (Rows X_two)"
    by blast
  from e have v: "l = Fin (5 / 4)" unfolding s a by (cases l) simp_all
  show ?thesis
  proof (rule exI[of _ activations'], rule exI[of _ deltas'], rule exI[of _ grads'], intro conjI)
    show "Fin (37 / 16) = Fin (5 / 4) + Fin (1 / 2) * Fin 1 * Fin (17 / 4) / Fin 2"
      by simp
  qed (use r l v s a in simp_all)
qed

section \<open>A loss that is not a number\<close>

text \<open>
  Claim C6, as stated, fails: neither the registry nor \<open>backprop\<close> nor the training loop
  tests the loss. The example without early stopping and with a \<open>NaN\<close> among the targets:
  the fit returns normally, after its epoch, with \<open>NaN\<close> as \<open>Loss\<close> and in \<open>LossCurve\<close>.
\<close>

theorem nan_loss_counterexample:
  "map_sum id (Loss \<circ> fst)
     (fit keep_Y rnd_half no_swaps (mlp_ex\<lparr>EarlyStopping := False\<rparr>) X_ex y_nan False) = Inr NaN
   \<and> map_sum id (LossCurve \<circ> fst)
     (fit keep_Y rnd_half no_swaps (mlp_ex\<lparr>EarlyStopping := False\<rparr>) X_ex y_nan False) = Inr [NaN]
   \<and> map_sum id (NIter \<circ> fst)
     (fit keep_Y rnd_half no_swaps (mlp_ex\<lparr>EarlyStopping := False\<rparr>) X_ex y_nan False) = Inr 1"
  unfolding fit_ex_nan by code_simp

text \<open>
  Claim C6, amended. When the registry loss of a \<open>backprop\<close> call evaluates to \<open>NaN\<close> or
  \<open>+Inf\<close>, nothing fails on that account, and the training goes on with it. \<open>backprop\<close>
  returns whenever its forward block and its backward block do, and the loss it returns
  (the registry loss plus the L2 term) is \<open>NaN\<close> or \<open>+Inf\<close>; the minibatch step returns
  whenever the row slices and the update of the optimizer do, and the accumulated loss it
  leaves is \<open>NaN\<close> or \<open>+Inf\<close>. An accumulated loss that is \<open>NaN\<close> or \<open>+Inf\<close> stays so to the
  end of the sweep. And the epoch of such a sweep returns whenever the validation slices
  and the update of the no-improvement count do and the optimizer is there: it records
  \<open>NaN\<close> or \<open>+Inf\<close> as \<open>Loss\<close> and as the last entry of \<open>LossCurve\<close>, and counts the pass in
  \<open>NIter\<close>.
\<close>

theorem non_finite_loss_is_recorded:
  "(RowSlice X (int b0) (int b1) = Inr Xb \<longrightarrow> RowSlice y (int b0) (int b1) = Inr Yb \<longrightarrow>
    activations \<noteq> [] \<longrightarrow> b0 < b1 \<longrightarrow>
    backprop_forward mlp (activations[0 := Xb]) = Inr (mlp1, a1) \<longrightarrow> a1 \<noteq> [] \<longrightarrow>
    call2 (LossFunctions64 (backprop_lossFuncName mlp1)) Yb (last a1) = Inr l \<longrightarrow>
    (l = NaN \<or> l = PInf) \<longrightarrow>
    backprop_backward mlp1 (Rows Xb) Yb a1 deltas coefGrads interceptGrads grads = Inr (d1, g1) \<longrightarrow>
    optimizer mlp1 = Some opt \<longrightarrow>
    updateParams opt (packedParameters mlp1) g1 = Inr (opt', params) \<longrightarrow>
    (\<exists>loss acc1.
       backprop mlp Xb Yb (activations[0 := Xb]) deltas coefGrads interceptGrads grads
         = Inr (loss, mlp1, a1, d1, g1)
       \<and> (loss = NaN \<or> loss = PInf)
       \<and> minibatch X y coefGrads interceptGrads (b0, b1) ((mlp, activations, deltas, grads), acc0)
           = Inr ((mlp1\<lparr>optimizer := Some opt', packedParameters := params\<rparr>, a1, d1, g1), acc1)
       \<and> (acc1 = NaN \<or> acc1 = PInf)))
   \<and> (foldM (minibatch X y coefGrads interceptGrads) bs (tr2, acc2) = Inr (tr3, acc3) \<longrightarrow>
        (acc2 = NaN \<or> acc2 = PInf) \<longrightarrow> (acc3 = NaN \<or> acc3 = PInf))
   \<and> (\<not> (0 < nSamples - testSize \<and> BatchSize mlp \<le> 0) \<longrightarrow>
        foldM (minibatch X y coefGrads interceptGrads)
          (batches 0 (nat (BatchSize mlp)) (nSamples - testSize))
          ((mlp, activations, deltas, grads), Fin 0) = Inr ((mlp4, a4, d4, g4), acc4) \<longrightarrow>
        (acc4 = NaN \<or> acc4 = PInf) \<longrightarrow>
        RowSlice X (int nSamples - int testSize) (int nSamples) = Inr XVal \<longrightarrow>
        RowSlice y (int nSamples - int testSize) (int nSamples) = Inr yVal \<longrightarrow>
        updateNoImprovementCount Copy
          (mlp4\<lparr>NIter := NIter mlp4 + 1, Loss := acc4 / float64_of_nat nSamples,
                mlp_t := mlp_t mlp4 + nSamples,
                LossCurve := LossCurve mlp4 @ [acc4 / float64_of_nat nSamples]\<rparr>)
          earlyStopping XVal yVal = Inr mlp5 \<longrightarrow>
        optimizer mlp5 = Some opt5 \<longrightarrow>
        (\<exists>mlp6 stop.
           epoch Copy incremental earlyStopping nSamples testSize coefGrads interceptGrads X y
             (mlp, activations, deltas, grads) = Inr ((mlp6, a4, d4, g4), stop)
           \<and> (Loss mlp6 = NaN \<or> Loss mlp6 = PInf)
           \<and> LossCurve mlp6 = LossCurve mlp4 @ [Loss mlp6]
           \<and> NIter mlp6 = NIter mlp4 + 1))"
proof (intro conjI impI)
  assume rs: "RowSlice X (int b0) (int b1) = Inr Xb" "RowSlice y (int b0) (int b1) = Inr Yb"
    and ne: "activations \<noteq> []" and lt: "b0 < b1"
    and fwd: "backprop_forward mlp (activations[0 := Xb]) = Inr (mlp1, a1)" and ne1: "a1 \<noteq> []"
    and l: "call2 (LossFunctions64 (backprop_lossFuncName mlp1)) Yb (last a1) = Inr l"
    and nf: "l = NaN \<or> l = PInf"
    and bwd: "backprop_backward mlp1 (Rows Xb) Yb a1 deltas coefGrads interceptGrads grads
                = Inr (d1, g1)"
    and o: "optimizer mlp1 = Some opt"
    and up: "updateParams opt (packedParameters mlp1) g1 = Inr (opt', params)"
  let ?loss = "l + Fin (1 / 2) * Alpha mlp1 * sumCoefSquares mlp1 / float64_of_nat (Rows Xb)"
  let ?acc = "acc0 + ?loss * float64_of_nat (b1 - b0)"
  note bp = backprop_returns[OF fwd ne1 l bwd]
  note mb = minibatch_returns[OF rs ne bp o up, of acc0]
  have nl: "?loss = NaN \<or> ?loss = PInf"
    using nf by (rule non_finite_plus)
  have "?loss * float64_of_nat (b1 - b0) = NaN \<or> ?loss * float64_of_nat (b1 - b0) = PInf"
    using nl lt by (intro non_finite_times_rows) simp_all
  then have na: "?acc = NaN \<or> ?acc = PInf"
    by (rule non_finite_plus)
  show "\<exists>loss acc1.
       backprop mlp Xb Yb (activations[0 := Xb]) deltas coefGrads interceptGrads grads
         = Inr (loss, mlp1, a1, d1, g1)
       \<and> (loss = NaN \<or> loss = PInf)
       \<and> minibatch X y coefGrads interceptGrads (b0, b1) ((mlp, activations, deltas, grads), acc0)
           = Inr ((mlp1\<lparr>optimizer := Some opt', packedParameters := params\<rparr>, a1, d1, g1), acc1)
       \<and> (acc1 = NaN \<or> acc1 = PInf)"
    using bp mb nl na by blast
next
  assume "foldM (minibatch X y coefGrads interceptGrads) bs (tr2, acc2) = Inr (tr3, acc3)"
    and "acc2 = NaN \<or> acc2 = PInf"
  then show "acc3 = NaN \<or> acc3 = PInf"
    by (rule sweep_non_finite)
next
  assume g: "\<not> (0 < nSamples - testSize \<and> BatchSize mlp \<le> 0)"
    and sw: "foldM (minibatch X y coefGrads interceptGrads)
          (batches 0 (nat (BatchSize mlp)) (nSamples - testSize))
          ((mlp, activations, deltas, grads), Fin 0) = Inr ((mlp4, a4, d4, g4), acc4)"
    and nf: "acc4 = NaN \<or> acc4 = PInf"
    and rs: "RowSlice X (int nSamples - int testSize) (int nSamples) = Inr XVal"
      "RowSlice y (int nSamples - int testSize) (int nSamples) = Inr yVal"
    and u: "updateNoImprovementCount Copy
          (mlp4\<lparr>NIter := NIter mlp4 + 1, Loss := acc4 / float64_of_nat nSamples,
                mlp_t := mlp_t mlp4 + nSamples,
                LossCurve := LossCurve mlp4 @ [acc4 / float64_of_nat nSamples]\<rparr>)
          earlyStopping XVal yVal = Inr mlp5"
    and o: "optimizer mlp5 = Some opt5"
  let ?m = "mlp5\<lparr>optimizer := Some (iterationEnds opt5 (float64_of_nat (mlp_t mlp5)))\<rparr>"
  note e = epoch_returns[OF g sw rs u o, of incremental]
  have "optimizer ?m = Some (iterationEnds opt5 (float64_of_nat (mlp_t mlp5)))" by simp
  from checkStopping_returns[OF this, of earlyStopping] obtain mlp6 stop where
    c: "checkStopping ?m earlyStopping = Inr (mlp6, stop)"
    and f: "Loss mlp6 = Loss ?m" "LossCurve mlp6 = LossCurve ?m" "NIter mlp6 = NIter ?m"
    by blast
  from updateNoImprovementCount_fields[OF u]
  have f5: "Loss mlp5 = acc4 / float64_of_nat nSamples"
    "LossCurve mlp5 = LossCurve mlp4 @ [acc4 / float64_of_nat nSamples]"
    "NIter mlp5 = NIter mlp4 + 1"
    by simp_all
  have r: "epoch Copy incremental earlyStopping nSamples testSize coefGrads interceptGrads X y
             (mlp, activations, deltas, grads) = Inr ((mlp6, a4, d4, g4), stop \<or> incremental)"
    unfolding e c by simp
  have "Loss mlp6 = NaN \<or> Loss mlp6 = PInf"
    using non_finite_over_rows[OF nf, of nSamples] f(1) f5(1) by simp
  moreover have "LossCurve mlp6 = LossCurve mlp4 @ [Loss mlp6]"
    using f(1,2) f5(1,2) by simp
  moreover have "NIter mlp6 = NIter mlp4 + 1"
    using f(3) f5(3) by simp
  ultimately show "\<exists>mlp6 stop.
           epoch Copy incremental earlyStopping nSamples testSize coefGrads interceptGrads X y
             (mlp, activations, deltas, grads) = Inr ((mlp6, a4, d4, g4), stop)
           \<and> (Loss mlp6 = NaN \<or> Loss mlp6 = PInf)
           \<and> LossCurve mlp6 = LossCurve mlp4 @ [Loss mlp6]
           \<and> NIter mlp6 = NIter mlp4 + 1"
    using r by blast
qed

text \<open>
  The example with the \<open>NaN\<close> target: the first minibatch, the rest of the sweep, and the
  epoch.
\<close>

theorem non_finite_loss_is_recorded_witness:
  "(\<exists>loss a1 d1 acc1.
      backprop mlp_l2 X_batch y_nan_batch ([X_ex, out_buf][0 := X_batch]) [out_buf] (Coefs mlp_l2)
        (Intercepts mlp_l2) [Fin 0, Fin 0] = Inr (loss, mlp_l2, a1, d1, [NaN, NaN])
      \<and> (loss = NaN \<or> loss = PInf)
      \<and> minibatch X_ex y_nan (Coefs mlp_l2) (Intercepts mlp_l2) (0, 2)
          ((mlp_l2, [X_ex, out_buf], [out_buf], [Fin 0, Fin 0]), Fin 0)
          = Inr ((mlp_nan, a1, d1, [NaN, NaN]), acc1)
      \<and> (acc1 = NaN \<or> acc1 = PInf)
      \<and> (\<exists>tr3 acc3.
            foldM (minibatch X_ex y_nan (Coefs mlp_l2) (Intercepts mlp_l2)) [(2, 4)]
              ((mlp_nan, a1, d1, [NaN, NaN]), acc1) = Inr (tr3, acc3)
            \<and> (acc3 = NaN \<or> acc3 = PInf)))
   \<and> (\<exists>mlp6 a4 d4 g4 stop.
        epoch keep_Y False False 4 0 (Coefs mlp_l2) (Intercepts mlp_l2) X_ex y_nan
          (mlp_l2, [X_ex, out_buf], [out_buf], [Fin 0, Fin 0]) = Inr ((mlp6, a4, d4, g4), stop)
        \<and> (Loss mlp6 = NaN \<or> Loss mlp6 = PInf)
        \<and> LossCurve mlp6 = [Loss mlp6]
        \<and> NIter mlp6 = 1)"
proof -
  note step = non_finite_loss_is_recorded[THEN conjunct1, rule_format]
  note rest = non_finite_loss_is_recorded[THEN conjunct2, THEN conjunct1, rule_format]
  note pass = non_finite_loss_is_recorded[THEN conjunct2, THEN conjunct2, rule_format]
  let ?a1 = "[X_batch, \<lparr>Rows = 2, Cols = 1, Stride = 1, Data = [Fin (1 / 2), Fin (3 / 2)]\<rparr>]"
  let ?d1 = "[\<lparr>Rows = 2, Cols = 1, Stride = 1, Data = [NaN, Fin (- 3 / 2)]\<rparr>]"
  let ?a4 = "[\<lparr>Rows = 2, Cols = 1, Stride = 1, Data = [Fin 0, Fin 1]\<rparr>, nan_buf]"
  have rs: "RowSlice X_ex (int 0) (int 2) = Inr X_batch"
    "RowSlice y_nan (int 0) (int 2) = Inr y_nan_batch"
    by code_simp+
  have ne: "[X_ex, out_buf] \<noteq> []" "?a1 \<noteq> []" "(0::nat) < 2"
    by simp_all
  have f: "backprop_forward mlp_l2 ([X_ex, out_buf][0 := X_batch]) = Inr (mlp_l2, ?a1)"
    by code_simp
  have l: "call2 (LossFunctions64 (backprop_lossFuncName mlp_l2)) y_nan_batch (last ?a1) = Inr NaN"
    by code_simp
  have b: "backprop_backward mlp_l2 (Rows X_batch) y_nan_batch ?a1 [out_buf] (Coefs mlp_l2)
             (Intercepts mlp_l2) [Fin 0, Fin 0] = Inr (?d1, [NaN, NaN])"
    by code_simp
  have o: "optimizer mlp_l2 = new_optimizer mlp_init"
    by (simp add: mlp_l2_def)
  have o': "optimizer mlp_l2 = Some (SGD (sgd_nan\<lparr>velocities := None\<rparr>))"
    by code_simp
  have u: "updateParams (SGD (sgd_nan\<lparr>velocities := None\<rparr>)) (packedParameters mlp_l2) [NaN, NaN]
             = Inr (SGD sgd_nan, [NaN, NaN])"
    by code_simp
  from step[OF rs ne(1) ne(3) f ne(2) l _ b o' u, of "Fin 0"] obtain loss acc1 where
    s1: "backprop mlp_l2 X_batch y_nan_batch ([X_ex, out_buf][0 := X_batch]) [out_buf] (Coefs mlp_l2)
           (Intercepts mlp_l2) [Fin 0, Fin 0] = Inr (loss, mlp_l2, ?a1, ?d1, [NaN, NaN])"
    and s2: "loss = NaN \<or> loss = PInf"
    and s3: "minibatch X_ex y_nan (Coefs mlp_l2) (Intercepts mlp_l2) (0, 2)
          ((mlp_l2, [X_ex, out_buf], [out_buf], [Fin 0, Fin 0]), Fin 0)
          = Inr ((mlp_nan, ?a1, ?d1, [NaN, NaN]), acc1)"
    and s4: "acc1 = NaN \<or> acc1 = PInf"
    unfolding mlp_nan_def by blast
  have mb: "minibatch X_ex y_nan (Coefs mlp_l2) (Intercepts mlp_l2) (0, 2)
          ((mlp_l2, [X_ex, out_buf], [out_buf], [Fin 0, Fin 0]), Fin 0)
          = Inr ((mlp_nan, ?a1, ?d1, [NaN, NaN]), NaN)"
    by code_simp
  with s3 have acc1: "acc1 = NaN" by simp
  have sw2: "foldM (minibatch X_ex y_nan (Coefs mlp_l2) (Intercepts mlp_l2)) [(2, 4)]
               ((mlp_nan, ?a1, ?d1, [NaN, NaN]), acc1)
             = Inr ((mlp_nan, ?a4, [nan_buf], [NaN, NaN]), NaN)"
    unfolding acc1 by code_simp
  from rest[OF sw2 s4] have s5: "NaN = NaN \<or> NaN = PInf" .
  have g: "\<not> (0 < 4 - 0 \<and> BatchSize mlp_l2 \<le> 0)"
    by (simp add: mlp_l2_def mlp_init_def mlp_ex_def)
  have sw: "foldM (minibatch X_ex y_nan (Coefs mlp_l2) (Intercepts mlp_l2))
              (batches 0 (nat (BatchSize mlp_l2)) (4 - 0))
              ((mlp_l2, [X_ex, out_buf], [out_buf], [Fin 0, Fin 0]), Fin 0)
            = Inr ((mlp_nan, ?a4, [nan_buf], [NaN, NaN]), NaN)"
    by code_simp
  have rsv: "RowSlice X_ex (int 4 - int 0) (int 4) = Inr empty_rows"
    "RowSlice y_nan (int 4 - int 0) (int 4) = Inr empty_rows"
    by code_simp+
  have u5: "updateNoImprovementCount keep_Y
              (mlp_nan\<lparr>NIter := NIter mlp_nan + 1, Loss := NaN / float64_of_nat 4,
                  mlp_t := mlp_t mlp_nan + 4,
                  LossCurve := LossCurve mlp_nan @ [NaN / float64_of_nat 4]\<rparr>)
              False empty_rows empty_rows
            = Inr (mlp_nan\<lparr>NIter := 1, Loss := NaN, mlp_t := 4, LossCurve := [NaN]\<rparr>)"
    by code_simp
  have o5: "optimizer (mlp_nan\<lparr>NIter := 1, Loss := NaN, mlp_t := 4, LossCurve := [NaN]\<rparr>)
              = Some (SGD sgd_nan)"
    by (simp add: mlp_nan_def)
  have z: "LossCurve mlp_nan = []" "NIter mlp_nan = 0"
    by (simp_all add: mlp_nan_def mlp_l2_def mlp_init_def mlp_ex_def
        NewBaseMultilayerPerceptron64_def)
  from pass[OF g sw s5 rsv u5 o5, of False] obtain mlp6 stop where
    p1: "epoch keep_Y False False 4 0 (Coefs mlp_l2) (Intercepts mlp_l2) X_ex y_nan
           (mlp_l2, [X_ex, out_buf], [out_buf], [Fin 0, Fin 0])
         = Inr ((mlp6, ?a4, [nan_buf], [NaN, NaN]), stop)"
    and p2: "Loss mlp6 = NaN \<or> Loss mlp6 = PInf"
    and p3: "LossCurve mlp6 = [Loss mlp6]" "NIter mlp6 = 1"
    unfolding z by auto
  have first: "\<exists>loss a1 d1 acc1.
      backprop mlp_l2 X_batch y_nan_batch ([X_ex, out_buf][0 := X_batch]) [out_buf] (Coefs mlp_l2)
        (Intercepts mlp_l2) [Fin 0, Fin 0] = Inr (loss, mlp_l2, a1, d1, [NaN, NaN])
      \<and> (loss = NaN \<or> loss = PInf)
      \<and> minibatch X_ex y_nan (Coefs mlp_l2) (Intercepts mlp_l2) (0, 2)
          ((mlp_l2, [X_ex, out_buf], [out_buf], [Fin 0, Fin 0]), Fin 0)
          = Inr ((mlp_nan, a1, d1, [NaN, NaN]), acc1)
      \<and> (acc1 = NaN \<or> acc1 = PInf)
      \<and> (\<exists>tr3 acc3.
            foldM (minibatch X_ex y_nan (Coefs mlp_l2) (Intercepts mlp_l2)) [(2, 4)]
              ((mlp_nan, a1, d1, [NaN, NaN]), acc1) = Inr (tr3, acc3)
            \<and> (acc3 = NaN \<or> acc3 = PInf))"
    using s1 s2 s3 s4 sw2 s5 by blast
  have second: "\<exists>mlp6 a4 d4 g4 stop.
        epoch keep_Y False False 4 0 (Coefs mlp_l2) (Intercepts mlp_l2) X_ex y_nan
          (mlp_l2, [X_ex, out_buf], [out_buf], [Fin 0, Fin 0]) = Inr ((mlp6, a4, d4, g4), stop)
        \<and> (Loss mlp6 = NaN \<or> Loss mlp6 = PInf)
        \<and> LossCurve mlp6 = [Loss mlp6]
        \<and> NIter mlp6 = 1"
    using p1 p2 p3 by blast
  from first second show ?thesis ..
qed

section \<open>Shuffle reversibility\<close>

subsection \<open>Swaps keep the rows in step with \<open>idx\<close>\<close>

lemma in_row_iff:
  assumes "0 < S" "C \<le> S"
  shows "(i * S \<le> p \<and> p < i * S + C) = (p div S = i \<and> p mod S < (C::nat))"
proof
  assume a: "i * S \<le> p \<and> p < i * S + C"
  then obtain c where p: "p = i * S + c" and c: "c < C"
    by (metis add_diff_inverse_nat add_less_cancel_left not_less)
  with assms have "c < S" by simp
  with p c show "p div S = i \<and> p mod S < C" by simp
next
  assume a: "p div S = i \<and> p mod S < C"
  have "p = (p div S) * S + p mod S" by simp
  with a show "i * S \<le> p \<and> p < i * S + C"
    by (metis add_less_cancel_left le_add1)
qed

lemma permuted_simps [simp]:
  "Rows (permuted idx M) = Rows M" "Cols (permuted idx M) = Cols M"
  "Stride (permuted idx M) = Stride M" "length (Data (permuted idx M)) = length (Data M)"
  by (simp_all add: permuted_def)

lemma permuted_id: "permuted [0..<n] M = M"
proof -
  have "map (\<lambda>p. if p mod Stride M < Cols M \<and> p div Stride M < length [0..<n]
                   then Data M ! ([0..<n] ! (p div Stride M) * Stride M + p mod Stride M)
                   else Data M ! p) [0..<length (Data M)]
        = map (\<lambda>p. Data M ! p) [0..<length (Data M)]"
    by (rule map_cong) auto
  then show ?thesis by (simp add: permuted_def map_nth)
qed

lemma swap_rows_permuted:
  assumes CS: "Cols M \<le> Stride M" and i: "i < length idx" and j: "j < length idx"
    and sw: "swap_rows i j (permuted idx M) = Inr M'"
  shows "M' = permuted (idx[i := idx ! j, j := idx ! i]) M"
proof -
  let ?S = "Stride M" and ?C = "Cols M" and ?D = "Data M" and ?L = "length (Data M)"
  let ?P = "Data (permuted idx M)"
  let ?idx' = "idx[i := idx ! j, j := idx ! i]"
  from sw have ok: "?C = 0 \<or> (i * ?S + ?C \<le> ?L \<and> j * ?S + ?C \<le> ?L)"
    by (auto simp: swap_rows_def split: if_splits)
  have "swap_rows i j (permuted idx M) = Inr ((permuted idx M)\<lparr>Data :=
             map (\<lambda>p. if i * ?S \<le> p \<and> p < i * ?S + ?C then ?P ! (j * ?S + (p - i * ?S))
                       else if j * ?S \<le> p \<and> p < j * ?S + ?C then ?P ! (i * ?S + (p - j * ?S))
                       else ?P ! p) [0..<?L]\<rparr>)"
    using ok by (simp add: swap_rows_def)
  with sw have M': "M' = (permuted idx M)\<lparr>Data :=
             map (\<lambda>p. if i * ?S \<le> p \<and> p < i * ?S + ?C then ?P ! (j * ?S + (p - i * ?S))
                       else if j * ?S \<le> p \<and> p < j * ?S + ?C then ?P ! (i * ?S + (p - j * ?S))
                       else ?P ! p) [0..<?L]\<rparr>"
    by simp
  have P: "?P ! p = (if p mod ?S < ?C \<and> p div ?S < length idx
                     then ?D ! (idx ! (p div ?S) * ?S + p mod ?S) else ?D ! p)" if "p < ?L" for p
    using that by (simp add: permuted_def)
  have "(if i * ?S \<le> p \<and> p < i * ?S + ?C then ?P ! (j * ?S + (p - i * ?S))
         else if j * ?S \<le> p \<and> p < j * ?S + ?C then ?P ! (i * ?S + (p - j * ?S))
         else ?P ! p)
      = (if p mod ?S < ?C \<and> p div ?S < length ?idx'
         then ?D ! (?idx' ! (p div ?S) * ?S + p mod ?S) else ?D ! p)" if p: "p < ?L" for p
  proof (cases "?C = 0")
    case True
    then show ?thesis using P[OF p] by auto
  next
    case False
    with CS ok have S: "0 < ?S" and bi: "i * ?S + ?C \<le> ?L" and bj: "j * ?S + ?C \<le> ?L" by auto
    note row = in_row_iff[OF S CS]
    have at: "?P ! (r * ?S + c) = ?D ! (idx ! r * ?S + c)"
      if "r < length idx" "c < ?C" "r * ?S + ?C \<le> ?L" for r c
    proof -
      have cS: "c < ?S" using that CS by simp
      have "r * ?S + c < ?L" using that by simp
      from P[OF this] cS that show ?thesis by simp
    qed
    show ?thesis
    proof (cases "p div ?S = i \<and> p mod ?S < ?C")
      case True
      then have "p - i * ?S = p mod ?S"
        by (metis add_diff_cancel_left' div_mult_mod_eq mult.commute)
      with True i j at[OF j _ bj, of "p mod ?S"] show ?thesis
        by (auto simp: row nth_list_update)
    next
      case ni: False
      show ?thesis
      proof (cases "p div ?S = j \<and> p mod ?S < ?C")
        case True
        then have "p - j * ?S = p mod ?S"
          by (metis add_diff_cancel_left' div_mult_mod_eq mult.commute)
        with True ni i j at[OF i _ bi, of "p mod ?S"] show ?thesis
          by (auto simp: row nth_list_update)
      next
        case False
        with ni P[OF p] show ?thesis
          by (auto simp: row nth_list_update)
      qed
    qed
  qed
  then have "map (\<lambda>p. if i * ?S \<le> p \<and> p < i * ?S + ?C then ?P ! (j * ?S + (p - i * ?S))
                       else if j * ?S \<le> p \<and> p < j * ?S + ?C then ?P ! (i * ?S + (p - j * ?S))
                       else ?P ! p) [0..<?L]
           = map (\<lambda>p. if p mod ?S < ?C \<and> p div ?S < length ?idx'
                       then ?D ! (?idx' ! (p div ?S) * ?S + p mod ?S) else ?D ! p) [0..<?L]"
    by (intro map_cong) auto
  with M' show ?thesis by (simp add: permuted_def)
qed


lemma indexedXY_Swap_tracks:
  assumes "Cols X0 \<le> Stride X0" "Cols y0 \<le> Stride y0" "tracks n X0 y0 s"
    "indexedXY_Swap s i j = Inr s'"
  shows "tracks n X0 y0 s' \<and> fst s' = (fst s)[i := fst s ! j, j := fst s ! i]"
proof -
  obtain idx X y where s: "s = (idx, X, y)" by (cases s)
  from assms(3) s have t: "mset idx = mset [0..<n]" "X = permuted idx X0" "y = permuted idx y0"
    by (auto simp: tracks_def)
  from assms(4) s have ij: "i < length idx" "j < length idx"
    by (auto simp: indexedXY_Swap_def split: if_splits)
  from assms(4) s ij obtain X' y' where
    X': "swap_rows i j X = Inr X'" and y': "swap_rows i j y = Inr y'"
    and s': "s' = (idx[i := idx ! j, j := idx ! i], X', y')"
    by (auto simp: indexedXY_Swap_def elim!: andThen_InrE)
  have "X' = permuted (idx[i := idx ! j, j := idx ! i]) X0"
    using swap_rows_permuted[OF assms(1) ij] X' t by simp
  moreover have "y' = permuted (idx[i := idx ! j, j := idx ! i]) y0"
    using swap_rows_permuted[OF assms(2) ij] y' t by simp
  moreover have "mset (idx[i := idx ! j, j := idx ! i]) = mset idx"
    using ij by (simp add: mset_swap)
  ultimately show ?thesis using s s' t by (simp add: tracks_def)
qed

lemma rndShuffle_tracks:
  assumes "Cols X0 \<le> Stride X0" "Cols y0 \<le> Stride y0"
  shows "tracks n X0 y0 s \<Longrightarrow> rndShuffle pairs s = Inr s' \<Longrightarrow> tracks n X0 y0 s'"
proof (induction pairs arbitrary: s)
  case Nil
  then show ?case by (simp add: rndShuffle_def)
next
  case (Cons p pairs)
  obtain i j where p: "p = (i, j)" by (cases p)
  from Cons.prems(2) p obtain s1 where s1: "indexedXY_Swap s i j = Inr s1"
    and rest: "rndShuffle pairs s1 = Inr s'"
    by (auto simp: rndShuffle_def split: sum.splits)
  from indexedXY_Swap_tracks[OF assms Cons.prems(1) s1] have "tracks n X0 y0 s1" by simp
  from Cons.IH[OF this rest] show ?case .
qed

lemma insort_snoc_less: "a < b \<Longrightarrow> insort a (xs @ [b]) = insort a xs @ [b]"
  by (induction xs) auto

lemma insert_down_idx_insort:
  "sorted front \<Longrightarrow> insert_down_idx (length front) (front @ a # rest) = insort a front @ rest"
proof (induction front arbitrary: a rest rule: rev_induct)
  case Nil
  then show ?case by simp
next
  case (snoc b front)
  let ?k = "length front"
  have len: "length (front @ [b]) = Suc ?k" by simp
  have xs: "(front @ [b]) @ a # rest = front @ b # a # rest" by simp
  have nk: "(front @ b # a # rest) ! ?k = b" by (simp add: nth_append)
  have nsk: "(front @ b # a # rest) ! Suc ?k = a" by (simp add: nth_append)
  have sf: "sorted front" using snoc.prems by (simp add: sorted_append)
  show ?case
  proof (cases "a < b")
    case True
    have sw: "(front @ b # a # rest)[Suc ?k := b, ?k := a] = front @ a # b # rest"
      by (simp add: list_update_append)
    have "insert_down_idx (Suc ?k) (front @ b # a # rest) = insert_down_idx ?k (front @ a # b # rest)"
      using True nk nsk sw by simp
    also have "\<dots> = insort a front @ b # rest" by (rule snoc.IH[OF sf])
    also have "\<dots> = insort a (front @ [b]) @ rest" using True by (simp add: insort_snoc_less)
    finally show ?thesis unfolding len xs .
  next
    case False
    have "\<forall>x\<in>set (front @ [b]). x \<le> a"
      using False snoc.prems by (auto simp: sorted_append)
    then have "insort a (front @ [b]) = (front @ [b]) @ [a]"
      using snoc.prems by (simp add: sorted_insort_is_snoc)
    moreover have "insert_down_idx (Suc ?k) (front @ b # a # rest) = front @ b # a # rest"
      using False nk nsk by simp
    ultimately show ?thesis unfolding len xs by simp
  qed
qed

lemma fold_insert_down_idx:
  "Suc k \<le> length xs \<Longrightarrow>
   fold insert_down_idx [1..<Suc k] xs = sort (take (Suc k) xs) @ drop (Suc k) xs"
proof (induction k)
  case 0
  then obtain x xs' where "xs = x # xs'" by (cases xs) auto
  then show ?case by simp
next
  case (Suc k)
  let ?a = "xs ! Suc k"
  have IH: "fold insert_down_idx [1..<Suc k] xs = sort (take (Suc k) xs) @ drop (Suc k) xs"
    using Suc by simp
  have d: "drop (Suc k) xs = ?a # drop (Suc (Suc k)) xs"
    using Suc.prems by (simp add: Cons_nth_drop_Suc)
  have l: "length (sort (take (Suc k) xs)) = Suc k" using Suc.prems by simp
  have "fold insert_down_idx [1..<Suc (Suc k)] xs
          = insert_down_idx (Suc k) (sort (take (Suc k) xs) @ ?a # drop (Suc (Suc k)) xs)"
    using IH d by simp
  also have "\<dots> = insort ?a (sort (take (Suc k) xs)) @ drop (Suc (Suc k)) xs"
    using insert_down_idx_insort[of "sort (take (Suc k) xs)" ?a "drop (Suc (Suc k)) xs"] l by simp
  also have "insort ?a (sort (take (Suc k) xs)) = sort (take (Suc (Suc k)) xs)"
  proof (rule properties_for_sort[symmetric])
    show "mset (insort ?a (sort (take (Suc k) xs))) = mset (take (Suc (Suc k)) xs)"
      using Suc.prems by (simp add: take_Suc_conv_app_nth)
    show "sorted (insort ?a (sort (take (Suc k) xs)))"
      by (simp add: sorted_insort)
  qed
  finally show ?case .
qed

lemma fold_insert_down_idx_sorts:
  assumes "mset idx = mset [0..<n]"
  shows "fold insert_down_idx [1..<n] idx = [0..<n]"
proof -
  have len: "length idx = n" using assms by (metis length_upt minus_nat.diff_0 size_mset)
  have s: "sort idx = [0..<n]"
    by (rule properties_for_sort) (use assms in simp_all)
  show ?thesis
  proof (cases n)
    case 0
    with len show ?thesis by simp
  next
    case (Suc k)
    with fold_insert_down_idx[of k idx] len s show ?thesis by simp
  qed
qed

lemma insert_down_tracks:
  assumes "Cols X0 \<le> Stride X0" "Cols y0 \<le> Stride y0"
  shows "tracks n X0 y0 s \<Longrightarrow> insert_down indexedXY_Less indexedXY_Swap j s = Inr s' \<Longrightarrow>
         tracks n X0 y0 s' \<and> fst s' = insert_down_idx j (fst s)"
proof (induction j arbitrary: s)
  case 0
  then show ?case by simp
next
  case (Suc j)
  obtain idx X y where s: "s = (idx, X, y)" by (cases s)
  show ?case
  proof (cases "idx ! Suc j < idx ! j")
    case True
    then have lt: "indexedXY_Less s (Suc j) j" using s by (simp add: indexedXY_Less_def)
    with Suc.prems(2) obtain s1 where s1: "indexedXY_Swap s (Suc j) j = Inr s1"
      and rest: "insert_down indexedXY_Less indexedXY_Swap j s1 = Inr s'"
      by (auto split: sum.splits)
    from indexedXY_Swap_tracks[OF assms Suc.prems(1) s1]
    have t1: "tracks n X0 y0 s1" and f1: "fst s1 = idx[Suc j := idx ! j, j := idx ! Suc j]"
      using s by simp_all
    from Suc.IH[OF t1 rest] f1 True s show ?thesis by simp
  next
    case False
    then have "\<not> indexedXY_Less s (Suc j) j" using s by (simp add: indexedXY_Less_def)
    with Suc.prems False s show ?thesis by auto
  qed
qed

lemma sort_Sort_tracks:
  assumes "Cols X0 \<le> Stride X0" "Cols y0 \<le> Stride y0"
  shows "tracks n X0 y0 s \<Longrightarrow> foldM (insert_down indexedXY_Less indexedXY_Swap) js s = Inr s' \<Longrightarrow>
         tracks n X0 y0 s' \<and> fst s' = fold insert_down_idx js (fst s)"
proof (induction js arbitrary: s)
  case Nil
  then show ?case by simp
next
  case (Cons j js)
  from Cons.prems(2) obtain s1 where s1: "insert_down indexedXY_Less indexedXY_Swap j s = Inr s1"
    and rest: "foldM (insert_down indexedXY_Less indexedXY_Swap) js s1 = Inr s'"
    by (auto split: sum.splits)
  from insert_down_tracks[OF assms Cons.prems(1) s1]
  have "tracks n X0 y0 s1" "fst s1 = insert_down_idx j (fst s)" by simp_all
  with Cons.IH[OF _ rest] show ?case by simp
qed

lemma sort_Sort_restores:
  assumes "Cols X0 \<le> Stride X0" "Cols y0 \<le> Stride y0" "tracks n X0 y0 s"
    "sort_Sort indexedXY_Less indexedXY_Swap (length (fst s)) s = Inr (idx', X', y')"
  shows "X' = X0 \<and> y' = y0"
proof -
  obtain idx X y where s: "s = (idx, X, y)" by (cases s)
  from assms(3) s have m: "mset idx = mset [0..<n]" by (simp add: tracks_def)
  then have len: "length idx = n" by (metis length_upt minus_nat.diff_0 size_mset)
  from assms(4) s len
  have "foldM (insert_down indexedXY_Less indexedXY_Swap) [1..<n] s = Inr (idx', X', y')"
    by (simp add: sort_Sort_def)
  from sort_Sort_tracks[OF assms(1,2,3) this] s
  have t: "tracks n X0 y0 (idx', X', y')" and i: "idx' = fold insert_down_idx [1..<n] idx"
    by auto
  from i fold_insert_down_idx_sorts[OF m] have "idx' = [0..<n]" by simp
  with t show ?thesis by (simp add: tracks_def permuted_id)
qed

subsection \<open>The training loop leaves \<open>Shuffle\<close> as it is\<close>

lemma batchNormalize_Shuffle:
  "batchNormalize mlp a = Inr (mlp', a') \<Longrightarrow> Shuffle mlp' = Shuffle mlp"
  unfolding batchNormalize_def by (auto elim!: andThen_InrE)

lemma backprop_forward_Shuffle:
  "backprop_forward mlp activations = Inr (mlp', activations') \<Longrightarrow> Shuffle mlp' = Shuffle mlp"
  unfolding backprop_forward_def Let_def
  by (auto elim!: andThen_InrE dest!: batchNormalize_Shuffle split: if_splits)

lemma updateNoImprovementCount_Shuffle:
  "updateNoImprovementCount Copy mlp earlyStopping XVal yVal = Inr mlp' \<Longrightarrow>
   Shuffle mlp' = Shuffle mlp"
  unfolding updateNoImprovementCount_def Let_def
  by (auto elim!: andThen_InrE split: if_splits)

lemma backprop_Inr_forward:
  assumes "backprop mlp X y activations deltas coefGrads interceptGrads grads
             = Inr (loss, mlp', activations', deltas', grads')"
  shows "backprop_forward mlp activations = Inr (mlp', activations')"
proof -
  from assms obtain m1 a1 where fwd: "backprop_forward mlp activations = Inr (m1, a1)"
    by (cases "backprop_forward mlp activations") (auto simp: backprop_def)
  from assms fwd have ne: "a1 \<noteq> []"
    by (auto simp: backprop_def split: if_splits)
  from assms fwd ne obtain l where
    l: "call2 (LossFunctions64 (backprop_lossFuncName m1)) y (last a1) = Inr l"
    by (cases "call2 (LossFunctions64 (backprop_lossFuncName m1)) y (last a1)")
       (auto simp: backprop_def)
  from assms fwd ne l obtain d g where
    "backprop_backward m1 (Rows X) y a1 deltas coefGrads interceptGrads grads = Inr (d, g)"
    by (cases "backprop_backward m1 (Rows X) y a1 deltas coefGrads interceptGrads grads")
       (auto simp: backprop_def)
  with assms fwd ne l have "mlp' = m1" "activations' = a1"
    by (auto simp: backprop_def)
  with fwd show ?thesis by simp
qed


lemma backprop_Shuffle:
  "backprop mlp X y activations deltas coefGrads interceptGrads grads
     = Inr (loss, mlp', activations', deltas', grads') \<Longrightarrow> Shuffle mlp' = Shuffle mlp"
  by (rule backprop_forward_Shuffle[OF backprop_Inr_forward])

lemma minibatch_Shuffle:
  "minibatch X y coefGrads interceptGrads batch ((mlp, a, d, g), acc) = Inr ((mlp', a', d', g'), acc')
   \<Longrightarrow> Shuffle mlp' = Shuffle mlp"
  unfolding minibatch_def Let_def
  by (auto elim!: andThen_InrE dest!: backprop_Shuffle split: if_splits option.splits)

lemma minibatches_Shuffle:
  "foldM (minibatch X y coefGrads interceptGrads) bs st = Inr st' \<Longrightarrow>
   Shuffle (fst (fst st')) = Shuffle (fst (fst st))"
proof (induction bs arbitrary: st)
  case Nil
  then show ?case by simp
next
  case (Cons b bs)
  from Cons.prems obtain st1 where s1: "minibatch X y coefGrads interceptGrads b st = Inr st1"
    and rest: "foldM (minibatch X y coefGrads interceptGrads) bs st1 = Inr st'"
    by (auto split: sum.splits)
  obtain mlp a d g acc where st: "st = ((mlp, a, d, g), acc)" by (cases st) auto
  obtain mlp1 a1 d1 g1 acc1 where st1: "st1 = ((mlp1, a1, d1, g1), acc1)" by (cases st1) auto
  from minibatch_Shuffle[OF s1[unfolded st st1]] Cons.IH[OF rest] st st1 show ?case by simp
qed


lemma checkStopping_Shuffle:
  "checkStopping mlp earlyStopping = Inr (mlp', stop) \<Longrightarrow> Shuffle mlp' = Shuffle mlp"
  by (auto simp: checkStopping_def Let_def split: if_splits option.splits prod.splits)


lemma epoch_Shuffle:
  "epoch Copy incremental earlyStopping nSamples testSize coefGrads interceptGrads X y
     (mlp, a, d, g) = Inr ((mlp', a', d', g'), stop) \<Longrightarrow> Shuffle mlp' = Shuffle mlp"
  unfolding epoch_def Let_def
  by (auto elim!: andThen_InrE
        dest!: minibatches_Shuffle updateNoImprovementCount_Shuffle checkStopping_Shuffle
        split: if_splits option.splits)

lemma epochs_tracks:
  assumes "Cols X0 \<le> Stride X0" "Cols y0 \<le> Stride y0"
  shows "tracks n X0 y0 xy \<Longrightarrow>
    epochs Copy swaps doShuffle incremental earlyStopping nSamples testSize coefGrads interceptGrads
      k it (xy, tr) = Inr (xy', tr') \<Longrightarrow>
    tracks n X0 y0 xy' \<and> Shuffle (fst tr') = Shuffle (fst tr) \<and> (\<not> doShuffle \<longrightarrow> xy' = xy)"
proof (induction k arbitrary: it xy tr)
  case 0
  then show ?case by simp
next
  case (Suc k)
  from Suc.prems(2) obtain idx X y tr1 stop where
    sh: "(if doShuffle then rndShuffle (swaps it) xy else Inr xy) = Inr (idx, X, y)"
    and e: "epoch Copy incremental earlyStopping nSamples testSize coefGrads interceptGrads X y tr
          = Inr (tr1, stop)"
    and r2: "(if stop then Inr ((idx, X, y), tr1)
        else epochs Copy swaps doShuffle incremental earlyStopping nSamples testSize coefGrads
               interceptGrads k (Suc it) ((idx, X, y), tr1)) = Inr (xy', tr')"
    by (auto elim!: andThen_InrE)
  have t1: "tracks n X0 y0 (idx, X, y)"
    using sh Suc.prems(1) rndShuffle_tracks[OF assms] by (auto split: if_splits)
  have n1: "\<not> doShuffle \<longrightarrow> (idx, X, y) = xy" using sh by auto
  obtain mlp a d g where tr: "tr = (mlp, a, d, g)" by (cases tr) auto
  obtain mlp1 a1 d1 g1 where tr1: "tr1 = (mlp1, a1, d1, g1)" by (cases tr1) auto
  from epoch_Shuffle[OF e[unfolded tr tr1]] tr tr1
  have s1: "Shuffle (fst tr1) = Shuffle (fst tr)" by simp
  show ?case
  proof (cases stop)
    case True
    with r2 t1 n1 s1 show ?thesis by auto
  next
    case False
    with r2 have "epochs Copy swaps doShuffle incremental earlyStopping nSamples testSize coefGrads
               interceptGrads k (Suc it) ((idx, X, y), tr1) = Inr (xy', tr')" by simp
    from Suc.IH[OF t1 this] n1 s1 show ?thesis by auto
  qed
qed

lemma fitStochastic_validation_Shuffle:
  "fitStochastic_validation mlp earlyStopping X y = Inr (testSize, mlp') \<Longrightarrow>
   Shuffle mlp' = Shuffle mlp"
  unfolding fitStochastic_validation_def Let_def
  by (auto elim!: andThen_InrE split: if_splits option.splits)

lemma fitStochastic_finish_restores:
  assumes "Cols X0 \<le> Stride X0" "Cols y0 \<le> Stride y0"
    and t: "tracks n X0 y0 xy"
    and ns: "\<not> Shuffle m2 \<longrightarrow> xy = (idx0, X0, y0)"
    and fin: "fitStochastic_finish earlyStopping (xy, (m2, a2, d2, g2)) = Inr (mlp', X', y', grads')"
  shows "X' = X0 \<and> y' = y0"
proof -
  from fin obtain idx' where
    so: "(if Shuffle m2 then sort_Sort indexedXY_Less indexedXY_Swap (length (fst xy)) xy
          else Inr xy) = Inr (idx', X', y')"
    unfolding fitStochastic_finish_def Let_def
    by (cases xy) (auto elim!: andThen_InrE split: if_splits prod.splits)
  show ?thesis
  proof (cases "Shuffle m2")
    case True
    with so have "sort_Sort indexedXY_Less indexedXY_Swap (length (fst xy)) xy = Inr (idx', X', y')"
      by simp
    from sort_Sort_restores[OF assms(1,2) t this] show ?thesis .
  next
    case False
    with so ns show ?thesis by auto
  qed
qed

lemma fitStochastic_restores:
  assumes "Cols X \<le> Stride X" "Cols y \<le> Stride y"
    and "fitStochastic Copy swaps mlp X y activations deltas coefGrads interceptGrads grads incremental
           = Inr (mlp', X', y', grads')"
  shows "X' = X \<and> y' = y"
proof -
  define m0 where "m0 = (if \<not> incremental \<or> optimizer mlp = None
                          then mlp\<lparr>optimizer := new_optimizer mlp\<rparr> else mlp)"
  define es where "es = (EarlyStopping m0 \<and> \<not> incremental)"
  have t0: "tracks (Rows X) X y ([0..<Rows X], X, y)"
    by (simp add: tracks_def permuted_id)
  from assms(3) have run: "andThen (fitStochastic_validation m0 es X y) (\<lambda>(testSize, mlp).
      andThen (epochs Copy swaps (Shuffle mlp) incremental es (Rows X) testSize coefGrads
                 interceptGrads (nat (MaxIter mlp)) 0
                 (([0..<Rows X], X, y), (mlp, activations, deltas, grads)))
        (fitStochastic_finish es)) = Inr (mlp', X', y', grads')"
    unfolding fitStochastic_def Let_def m0_def es_def .
  from run obtain p where v: "fitStochastic_validation m0 es X y = Inr p"
    and r1: "(case p of (testSize, mlp) \<Rightarrow>
      andThen (epochs Copy swaps (Shuffle mlp) incremental es (Rows X) testSize coefGrads
                 interceptGrads (nat (MaxIter mlp)) 0
                 (([0..<Rows X], X, y), (mlp, activations, deltas, grads)))
        (fitStochastic_finish es)) = Inr (mlp', X', y', grads')"
    by (rule andThen_InrE)
  obtain testSize m1 where p: "p = (testSize, m1)" by (cases p) auto
  from r1 p have r2: "andThen (epochs Copy swaps (Shuffle m1) incremental es (Rows X) testSize coefGrads
                 interceptGrads (nat (MaxIter m1)) 0
                 (([0..<Rows X], X, y), (m1, activations, deltas, grads)))
        (fitStochastic_finish es) = Inr (mlp', X', y', grads')" by simp
  from r2 obtain st where
    ep: "epochs Copy swaps (Shuffle m1) incremental es (Rows X) testSize coefGrads
                 interceptGrads (nat (MaxIter m1)) 0
                 (([0..<Rows X], X, y), (m1, activations, deltas, grads)) = Inr st"
    and fin: "fitStochastic_finish es st = Inr (mlp', X', y', grads')"
    by (rule andThen_InrE)
  obtain xy m2 a2 d2 g2 where st: "st = (xy, (m2, a2, d2, g2))" by (cases st) auto
  from epochs_tracks[OF assms(1,2) t0 ep[unfolded st]]
  have t: "tracks (Rows X) X y xy" and s: "Shuffle m2 = Shuffle m1"
    and ns: "\<not> Shuffle m1 \<longrightarrow> xy = ([0..<Rows X], X, y)"
    by simp_all
  from ns s have ns2: "\<not> Shuffle m2 \<longrightarrow> xy = ([0..<Rows X], X, y)" by simp
  from fitStochastic_finish_restores[OF assms(1,2) t ns2 fin[unfolded st]] show ?thesis .
qed

lemma fit_solve_restores:
  assumes "Cols X \<le> Stride X" "Cols y \<le> Stride y"
    and "fit_solve Copy swaps mlp X y layerUnits incremental = Inr (mlp', X', y')"
  shows "X' = X \<and> y' = y"
proof -
  from assms(3) obtain m a d cg ig g r where
    "fitStochastic Copy swaps m X y a d cg ig g incremental = Inr r"
    and "(case r of (mlp, X, y, grads) \<Rightarrow> Inr (mlp\<lparr>packedGrads := grads\<rparr>, X, y)) = Inr (mlp', X', y')"
    unfolding fit_solve_def Let_def
    by (auto elim!: andThen_InrE split: if_splits)
  then show ?thesis
    using fitStochastic_restores[OF assms(1,2), of Copy swaps m a d cg ig g incremental]
    by (cases r) auto
qed

lemma fit_ex_shuffle:
  "fit keep_Y rnd_half ex_shuffle mlp_shuffle X_ex y_ex False
     = fit_solve keep_Y ex_shuffle
         (mlp_init\<lparr>Shuffle := True, EarlyStopping := False\<rparr>) X_ex y_ex [1, 1] False"
  by (simp add: fit_def validateHyperparameters_def initialize_def mlp_ex_def mlp_init_def
      mlp_shuffle_def NewBaseMultilayerPerceptron64_def Activations64_def rnd_half_def X_ex_def
      y_ex_def EqualFold_def float64_simps upt_rec numeral_2_eq_2)

text \<open>
  Claim C9: whenever \<open>fit\<close> returns, the input matrix and the target matrix that the caller
  holds are the ones that were passed in, row for row, whatever the swaps of the shuffles
  were and with shuffling enabled or not. Every swap of a shuffle exchanges the same
  entries of \<open>idx\<close> as rows of \<open>X\<close> and \<open>y\<close>, so \<open>idx\<close> always names the original row that
  stands in each place, and the sort by \<open>idx\<close> at the end of \<open>fitStochastic\<close> puts the rows
  back. The matrices are well formed: a row does not reach into the next one
  (\<open>Cols \<le> Stride\<close>). A fit that panics on the way does not return, and leaves the rows as
  they stand.
\<close>

theorem fit_restores_row_order:
  assumes "fit Copy rnd swaps mlp X y incremental = Inr (mlp', X', y')"
    and "Cols X \<le> Stride X" "Cols y \<le> Stride y"
  shows "X' = X \<and> y' = y"
proof -
  from assms(1) obtain m layerUnits where
    "fit_solve Copy swaps m X y layerUnits incremental = Inr (mlp', X', y')"
    unfolding fit_def Let_def
    by (auto elim!: andThen_InrE)
  from fit_solve_restores[OF assms(2,3) this] show ?thesis .
qed

text \<open>
  The example with shuffling: the fit returns after its epoch with the rows of \<open>X_ex\<close> and
  \<open>y_ex\<close> in their places, and the shuffle had moved them (row 3 to the front).
\<close>

theorem fit_restores_row_order_witness:
  "map_sum id snd (fit keep_Y rnd_half ex_shuffle mlp_shuffle X_ex y_ex False) = Inr (X_ex, y_ex)
   \<and> map_sum id (NIter \<circ> fst) (fit keep_Y rnd_half ex_shuffle mlp_shuffle X_ex y_ex False) = Inr 1
   \<and> Shuffle mlp_shuffle
   \<and> map_sum id (\<lambda>s. (fst s, Data (fst (snd s)), Data (snd (snd s))))
        (rndShuffle (ex_shuffle 0) ([0..<4], X_ex, y_ex))
      = Inr ([3, 0, 2, 1], [Fin 1, Fin 0, Fin 0, Fin 2], [Fin 20, Fin 1, Fin 10, Fin 3])"
proof -
  have n: "map_sum id (NIter \<circ> fst) (fit keep_Y rnd_half ex_shuffle mlp_shuffle X_ex y_ex False)
             = Inr 1"
    unfolding fit_ex_shuffle by code_simp
  then obtain m X' y' where
    r: "fit keep_Y rnd_half ex_shuffle mlp_shuffle X_ex y_ex False = Inr (m, X', y')"
    by (cases "fit keep_Y rnd_half ex_shuffle mlp_shuffle X_ex y_ex False") auto
  have wf: "Cols X_ex \<le> Stride X_ex" "Cols y_ex \<le> Stride y_ex"
    by (simp_all add: X_ex_def y_ex_def)
  from fit_restores_row_order[OF r wf] have restored: "X' = X_ex \<and> y' = y_ex" .
  have sh: "Shuffle mlp_shuffle"
    by (simp add: mlp_shuffle_def)
  have moved: "map_sum id (\<lambda>s. (fst s, Data (fst (snd s)), Data (snd (snd s))))
        (rndShuffle (ex_shuffle 0) ([0..<4], X_ex, y_ex))
      = Inr ([3, 0, 2, 1], [Fin 1, Fin 0, Fin 0, Fin 2], [Fin 20, Fin 1, Fin 10, Fin 3])"
    by code_simp
  from n r restored sh moved show ?thesis by simp
qed

end
